theory Spec2Isabelle
  imports Complex_Main "HOL-Library.Log_Nat"
begin

section \<open>Numbers and typed arrays\<close>

text \<open>
  JavaScript numbers are IEEE 754 doubles. The resampler turns computed quotients and
  products into array indices with Math.floor and Math.round, and keeps its sample
  fractions in a Float32Array, so there the model rounds as the program does: every
  arithmetic result to the nearest double (\<open>toDouble\<close>) and every stored fraction to the
  nearest single-precision number (\<open>toFloat32\<close>), ties to even, with gradual underflow.
  There is no NaN and no infinity: counts and indices are natural numbers (a typed array
  has fewer than 2^53 elements, and a double holds every integer up to 2^53 exactly), and
  the values computed from them stay far below the largest finite double. The transition
  machine is modelled over the real numbers, without rounding. A typed array is a list of
  reals; the arrays the resampler copies points and colours from have the element type of
  the arrays it fills (the PLY loader delivers Float32Arrays), so an element is copied
  unchanged.
\<close>

definition roundHalfEven :: "real \<Rightarrow> int" where
  \<comment> \<open>the nearest integer, the even one of the two when x lies halfway\<close>
  "roundHalfEven x =
     (let f = \<lfloor>x\<rfloor>; d = x - of_int f
      in if d < 1 / 2 then f else if d > 1 / 2 then f + 1 else if even f then f else f + 1)"

definition binaryExponent :: "real \<Rightarrow> int" where
  \<comment> \<open>for x > 0, the exponent e with 2^e \<le> x < 2^(e+1)\<close>
  "binaryExponent x = (if x \<ge> 1 then bitlen \<lfloor>x\<rfloor> - 1 else - bitlen (\<lceil>1 / x\<rceil> - 1))"

definition roundToFormat :: "nat \<Rightarrow> int \<Rightarrow> real \<Rightarrow> real" where
  \<comment> \<open>round to nearest, ties to even, in the binary format with p significant bits and
      least normal exponent emin (below 2^emin the spacing stays that of 2^emin)\<close>
  "roundToFormat p emin x =
     (if x = 0 then 0
      else let e = max emin (binaryExponent \<bar>x\<bar>);
               ulp = 2 powi (e - int p + 1)
           in sgn x * (of_int (roundHalfEven (\<bar>x\<bar> / ulp)) * ulp))"

definition toDouble :: "real \<Rightarrow> real" where
  \<comment> \<open>the double nearest to the exact result of an arithmetic operation\<close>
  "toDouble = roundToFormat 53 (- 1022)"

definition toFloat32 :: "real \<Rightarrow> real" where
  \<comment> \<open>the value an element of a Float32Array holds after a number is stored in it\<close>
  "toFloat32 = roundToFormat 24 (- 126)"

definition clamp :: "real \<Rightarrow> real \<Rightarrow> real \<Rightarrow> real" where
  \<comment> \<open>THREE.MathUtils.clamp(value, min, max)\<close>
  "clamp v lo hi = max lo (min hi v)"

definition lerp :: "real \<Rightarrow> real \<Rightarrow> real \<Rightarrow> real" where
  \<comment> \<open>THREE.MathUtils.lerp(x, y, t)\<close>
  "lerp a b t = (1 - t) * a + t * b"

definition at0 :: "real list \<Rightarrow> nat \<Rightarrow> real" where
  \<comment> \<open>\<^verbatim>\<open>array[i] ?? 0\<close>: a read past the end of a typed array is undefined, replaced by 0\<close>
  "at0 xs i = (if i < length xs then xs ! i else 0)"

section \<open>Geometries\<close>

record attribute =
  array :: "real list"
  itemSize :: nat
  count :: nat

definition BufferAttribute :: "real list \<Rightarrow> nat \<Rightarrow> attribute" where
  \<comment> \<open>new THREE.BufferAttribute(array, itemSize): count is array.length / itemSize\<close>
  "BufferAttribute arr sz = \<lparr>array = arr, itemSize = sz, count = length arr div sz\<rparr>"

text \<open>A buffer geometry with the four attributes the program reads by name; an absent
  attribute (\<^verbatim>\<open>getAttribute\<close> returning undefined) is \<open>None\<close>.\<close>

record geometry =
  position :: "attribute option"
  color :: "attribute option"
  morphTarget :: "attribute option"
  morphColor :: "attribute option"

definition stride :: "attribute \<Rightarrow> nat" where
  \<comment> \<open>\<^verbatim>\<open>attr.itemSize || 3\<close>\<close>
  "stride a = (if itemSize a = 0 then 3 else itemSize a)"

section \<open>Resampler\<close>

definition sampleIndex :: "nat \<Rightarrow> nat \<Rightarrow> nat \<Rightarrow> nat" where
  \<comment> \<open>the source index of slot i, as the loops of computeSampleFractions and
      createPointGeometry compute it: \<^verbatim>\<open>step = sourceCount / keepCount\<close>,
      \<^verbatim>\<open>index = Math.floor(i * step)\<close>, the quotient and the product each rounded to a double\<close>
  "sampleIndex sourceCount keepCount i =
     (let step = toDouble (real sourceCount / real keepCount);
          index = nat \<lfloor>toDouble (real i * step)\<rfloor>
      in if i = keepCount - 1 \<or> index \<ge> sourceCount then sourceCount - 1 else index)"

definition sampleFraction :: "nat \<Rightarrow> nat \<Rightarrow> nat \<Rightarrow> real" where
  \<comment> \<open>\<^verbatim>\<open>fractions[i] = srcDenom > 0 ? index / srcDenom : 0\<close> with srcDenom =
      Math.max(1, sourceCount - 1): the quotient is a double, the array element a float32\<close>
  "sampleFraction sourceCount keepCount i =
     (let srcDenom = max 1 (sourceCount - 1);
          index = sampleIndex sourceCount keepCount i
      in toFloat32 (if srcDenom > 0 then toDouble (real index / real srcDenom) else 0))"

definition computeSampleFractions :: "geometry option \<Rightarrow> nat \<Rightarrow> real list option" where
  "computeSampleFractions sourceGeom keepCount =
     (case (case sourceGeom of None \<Rightarrow> None | Some g \<Rightarrow> position g) of
        None \<Rightarrow> None
      | Some srcPos \<Rightarrow>
          if keepCount \<le> 0 then None
          else let sourceCount = count srcPos in
            if sourceCount \<le> 0 then None
            else Some (map (sampleFraction sourceCount keepCount) [0..<keepCount]))"

definition targetIndexOf :: "real \<Rightarrow> nat \<Rightarrow> nat" where
  \<comment> \<open>Math.round(fraction * (tgtCount - 1)), then the two range guards\<close>
  "targetIndexOf fraction tgtCount =
     (let targetIndex = round (toDouble (fraction * (real tgtCount - 1)));
          targetIndex = (if targetIndex < 0 then 0 else targetIndex);
          targetIndex = (if targetIndex \<ge> int tgtCount then int tgtCount - 1 else targetIndex)
      in nat targetIndex)"

definition point3 :: "real list \<Rightarrow> nat \<Rightarrow> nat \<Rightarrow> real list" where
  \<comment> \<open>the three coordinates copied from offset srcOffset of an array with the given stride\<close>
  "point3 arr st srcOffset =
     [at0 arr (srcOffset + 0),
      if st > 1 then at0 arr (srcOffset + 1) else 0,
      if st > 2 then at0 arr (srcOffset + 2) else 0]"

definition colorN :: "real list \<Rightarrow> nat \<Rightarrow> nat \<Rightarrow> real list" where
  \<comment> \<open>the inner loop over k < stride copying one colour\<close>
  "colorN arr st srcOffset = map (\<lambda>k. at0 arr (srcOffset + k)) [0..<st]"

text \<open>The two generators read the displayed points only to find the morphTarget
  attribute; they take the geometry of \<^verbatim>\<open>points\<close> (\<open>None\<close> while points is null).\<close>

definition generateMorphTargetArrayWithFractions ::
  "geometry option \<Rightarrow> geometry option \<Rightarrow> real list option \<Rightarrow> real list option" where
  "generateMorphTargetArrayWithFractions pointsGeom targetGeom sampleFractions =
     (case pointsGeom of None \<Rightarrow> None | Some pg \<Rightarrow>
      case morphTarget pg of None \<Rightarrow> None | Some morphAttr \<Rightarrow>
      case sampleFractions of None \<Rightarrow> None | Some fr \<Rightarrow>
      if length fr \<noteq> count morphAttr then None else
      case (case targetGeom of None \<Rightarrow> None | Some g \<Rightarrow> position g) of
        None \<Rightarrow> None
      | Some tgtPos \<Rightarrow>
          let tgtArray = array tgtPos; tgtStride = stride tgtPos; tgtCount = count tgtPos in
          if tgtCount \<le> 0 then None
          else Some (concat (map (\<lambda>i.
                 let fraction = clamp (fr ! i) 0 1;
                     targetIndex = targetIndexOf fraction tgtCount
                 in point3 tgtArray tgtStride (targetIndex * tgtStride)) [0..<length fr])))"

definition generateMorphColorArrayWithFractions ::
  "geometry option \<Rightarrow> geometry option \<Rightarrow> real list option \<Rightarrow> real list option" where
  "generateMorphColorArrayWithFractions pointsGeom targetGeom sampleFractions =
     (case pointsGeom of None \<Rightarrow> None | Some pg \<Rightarrow>
      case morphTarget pg of None \<Rightarrow> None | Some morphAttr \<Rightarrow>
      case sampleFractions of None \<Rightarrow> None | Some fr \<Rightarrow>
      if length fr \<noteq> count morphAttr then None else
      case (case targetGeom of None \<Rightarrow> None | Some g \<Rightarrow> color g) of
        None \<Rightarrow> None
      | Some tgtColAttr \<Rightarrow>
          let tgtColorArray = array tgtColAttr; tgtColorStride = stride tgtColAttr;
              tgtCount = count tgtColAttr in
          if tgtCount \<le> 0 then None
          else Some (concat (map (\<lambda>i.
                 let fraction = clamp (fr ! i) 0 1;
                     targetIndex = targetIndexOf fraction tgtCount
                 in colorN tgtColorArray tgtColorStride (targetIndex * tgtColorStride))
                 [0..<length fr])))"

definition keepCountOf :: "nat \<Rightarrow> real \<Rightarrow> nat" where
  \<comment> \<open>\<^verbatim>\<open>keepRatio >= 0.999 ? sourceCount : Math.max(1, Math.floor(sourceCount * keepRatio))\<close>;
      the literal 0.999 denotes the double nearest to it\<close>
  "keepCountOf sourceCount keepRatio =
     (if keepRatio \<ge> toDouble 0.999 then sourceCount
      else nat (max 1 \<lfloor>toDouble (real sourceCount * keepRatio)\<rfloor>))"

definition createPointGeometry :: "geometry option \<Rightarrow> geometry option \<Rightarrow> real \<Rightarrow> geometry option" where
  "createPointGeometry sourceGeom targetGeom keepRatio =
     (case sourceGeom of None \<Rightarrow> None | Some sg \<Rightarrow>
      case position sg of None \<Rightarrow> None | Some srcPos \<Rightarrow>
      let sourceCount = count srcPos in
      if sourceCount \<le> 0 then None else
      let keepCount = keepCountOf sourceCount keepRatio;
          srcStride = stride srcPos;
          srcArray = array srcPos;
          positions = concat (map (\<lambda>i.
              point3 srcArray srcStride (sampleIndex sourceCount keepCount i * srcStride))
              [0..<keepCount]);
          colors = (case color sg of None \<Rightarrow> None | Some colAttr \<Rightarrow>
              Some (stride colAttr, concat (map (\<lambda>i.
                 colorN (array colAttr) (stride colAttr)
                   (sampleIndex sourceCount keepCount i * stride colAttr)) [0..<keepCount])));
          sampleFractions = map (sampleFraction sourceCount keepCount) [0..<keepCount];
          tgtPosOk = (case targetGeom of None \<Rightarrow> None | Some tg \<Rightarrow>
              (case position tg of None \<Rightarrow> None
               | Some tgtPos \<Rightarrow> if count tgtPos > 0 then Some (tg, tgtPos) else None));
          morphArray = (case tgtPosOk of None \<Rightarrow> None | Some (tg, tgtPos) \<Rightarrow>
              Some (concat (map (\<lambda>i.
                 point3 (array tgtPos) (stride tgtPos)
                   (targetIndexOf (sampleFractions ! i) (count tgtPos) * stride tgtPos))
                 [0..<keepCount])));
          morphColorArray = (case tgtPosOk of None \<Rightarrow> None | Some (tg, tgtPos) \<Rightarrow>
              (case color tg of None \<Rightarrow> None | Some tgtColAttr \<Rightarrow>
                 Some (concat (map (\<lambda>i.
                   colorN (array tgtColAttr) (stride tgtColAttr)
                     (targetIndexOf (sampleFractions ! i) (count tgtPos) * stride tgtColAttr))
                   [0..<keepCount]))));
          morphArray = (case morphArray of None \<Rightarrow> positions | Some m \<Rightarrow> m)
      in Some \<lparr>position = Some (BufferAttribute positions 3),
               color = (case colors of None \<Rightarrow> None
                        | Some (colorStride, cs) \<Rightarrow> Some (BufferAttribute cs colorStride)),
               morphTarget = Some (BufferAttribute morphArray 3),
               morphColor = (case colors of None \<Rightarrow> None
                        | Some (colorStride, cs) \<Rightarrow>
                            Some (BufferAttribute
                              (case morphColorArray of
                                 None \<Rightarrow> cs
                               | Some mc \<Rightarrow> if length mc = length cs then mc else cs)
                              colorStride))\<rparr>)"

text \<open>Three clouds used to instantiate the resampler theorems: three points; thirty points
  at the origin; and seventeen million points whose first coordinate is the parity of their
  index.\<close>

definition cloud3 :: geometry where
  "cloud3 = \<lparr>position = Some (BufferAttribute [0,0,0, 1,2,3, 4,5,6] 3), color = None,
             morphTarget = None, morphColor = None\<rparr>"

definition cloud30 :: geometry where
  "cloud30 = \<lparr>position = Some (BufferAttribute (replicate 90 0) 3), color = None,
              morphTarget = None, morphColor = None\<rparr>"

definition cloud17M :: geometry where
  "cloud17M = \<lparr>position = Some (BufferAttribute
                 (concat (map (\<lambda>j. [real (j mod 2), 0, 0]) [0..<17000000])) 3),
               color = None, morphTarget = None, morphColor = None\<rparr>"

section \<open>Sections and the module state\<close>

record vec3 =
  vx :: real
  vy :: real
  vz :: real

record transform =
  t_rotation :: vec3
  t_scale :: real
  t_offset :: vec3

record pose =
  pathT :: real
  yaw :: real
  pitch :: real

text \<open>The camera block of a section: a field is \<open>None\<close> when it is absent or not a
  finite number.\<close>

record cameraConfig =
  c_pathT :: "real option"
  c_yaw :: "real option"
  c_pitch :: "real option"

record transitionConfig =
  tr_spinTurns :: "real option"
  tr_scatterOut :: "real option"
  tr_scatterIn :: "real option"
  tr_spinDuration :: "real option"

record backgroundObject =
  o_top :: "string option"
  o_color :: "string option"
  o_topColor :: "string option"
  o_mid :: "string option"
  o_middle :: "string option"
  o_midColor :: "string option"
  o_bottom :: "string option"
  o_bottomColor :: "string option"

datatype backgroundInput = BgString string | BgObject backgroundObject

text \<open>A section descriptor, with the fields the transition machine reads. The text
  content and the renderer settings (highlight colour, fog, LUT, point size) only reach
  the DOM and the renderer and are left out.\<close>

record sectionDesc =
  s_id :: string
  s_modelPath :: string
  s_camera :: "cameraConfig option"
  s_transform :: "transform option"
  s_transition :: "transitionConfig option"
  s_background :: "backgroundInput option"

record gradient =
  g_top :: string
  g_mid :: string
  g_bottom :: string

text \<open>The environment: the section list of js/sections.js, and the colour interpolation
  of the THREE library (lerpHexColor parses two hex strings with THREE.Color, blends them
  and prints the result; the library is not part of the repository).\<close>

record env =
  sections :: "sectionDesc list"
  lerpHexColor :: "string \<Rightarrow> string \<Rightarrow> real \<Rightarrow> string"

datatype phase = Boot | Idle | FadeOut | Loading | FadeIn

record sectionState =
  index :: int
  phase :: phase
  phaseElapsed :: real
  transitionElapsed :: real
  rotationStart :: real
  rotationTarget :: real
  rotationMid :: real
  rotationDuration :: real
  wheelAccumulator :: real
  pendingIndex :: int
  pendingPromise :: "nat option"
  scatterRest :: real
  spinTurns :: real
  isReady :: bool
  direction :: real
  nextIndex :: int
  nextSection :: "sectionDesc option"
  transitionProgress :: real
  pendingScrollCarry :: real
  scatterOut :: real
  nextScatterRest :: real
  cameraStartPose :: "pose option"
  cameraEndPose :: "pose option"
  morphReady :: bool

text \<open>scrollTweenState and scrollTargetsCurrent have the same fields.\<close>

record tweenValues =
  rotation :: real
  scatter :: real
  morph :: real
  colorMix :: real
  transformRotationX :: real
  transformRotationY :: real
  transformRotationZ :: real
  transformScale :: real
  transformOffsetX :: real
  transformOffsetY :: real
  transformOffsetZ :: real

text \<open>The argument of tweenToScrollTargets.\<close>

record targets =
  tg_rotation :: real
  tg_scatter :: real
  tg_morph :: real
  tg_colorMix :: "real option"
  tg_transform :: "transform option"

record backgroundTransition =
  bt_active :: bool
  bt_from :: "gradient option"
  bt_to :: "gradient option"
  bt_progress :: real
  bt_tween :: "real option"

text \<open>The displayed point cloud: its geometry and the transform applyScrollTweenState
  writes (rotation, uniform scale, position). Material uniforms are left out.\<close>

record pointsObject =
  p_geometry :: geometry
  p_rotation :: vec3
  p_scale :: real
  p_position :: vec3

record asset =
  a_path :: "string option"
  a_geometry :: "geometry option"
  a_morphArray :: "real list option"

text \<open>
  Promises. A morph-target promise is created by ensureSectionMorphTarget; it remembers
  the section it was created for and what ensureSectionGeometry found at that moment (no
  asset, a cached geometry, or a request handed to the loader). \<open>pr_preload\<close> tells the
  chain built in startSectionTransition (with its own then and catch handlers) from the
  bare promise beginSectionLoad creates when no promise is pending.
\<close>

datatype promiseState = Pending | Fulfilled | Rejected string

datatype geometrySource = NoAsset | Cached geometry | FromLoader

record promise =
  pr_section :: sectionDesc
  pr_source :: geometrySource
  pr_preload :: bool
  pr_state :: promiseState

datatype loadOutcome = Loaded geometry | LoadFailed string

text \<open>
  The mutable module state. A gsap tween is kept as its end values (\<open>scrollTween\<close>,
  \<open>bt_tween\<close>); the frames gsap plays later are not modelled. \<open>loadReactions\<close> holds the
  then/catch pairs beginSectionLoad attached, each with the promise it waits for and the
  section its closure captured. \<open>console\<close> collects the console.error messages.
\<close>

record world =
  sectionState :: sectionState
  groupRotationY :: real
  points :: "pointsObject option"
  scatterAmp :: real
  scatterGoal :: real
  morphProgress :: real
  morphUniformValue :: real
  textOpacityTarget :: real
  textOpacityValue :: real
  scrollTweenState :: tweenValues
  scrollTargetsCurrent :: tweenValues
  scrollTween :: "targets option"
  backgroundTransition :: backgroundTransition
  backgroundGradient :: gradient
  cameraPathT :: real
  cameraPathTarget :: real
  cameraYawOffsetDeg :: real
  cameraPitchOffsetDeg :: real
  sectionAssets :: "string \<Rightarrow> asset option"
  baseSampleFractions :: "real list option"
  baseVertexCount :: nat
  originalGeom :: "geometry option"
  morphTargetOriginal :: "geometry option"
  currentSectionId :: "string option"
  currentModelPath :: string
  promises :: "promise list"
  loadReactions :: "(nat \<times> sectionDesc) list"
  console :: "string list"

section \<open>Configuration constants (js/sections.js)\<close>

definition SECTION_TRANSITION_spinTurns :: real where "SECTION_TRANSITION_spinTurns = 1"
definition SECTION_TRANSITION_spinDuration :: real where "SECTION_TRANSITION_spinDuration = 2.6"
definition SECTION_TRANSITION_scatterOut :: real where "SECTION_TRANSITION_scatterOut = 0.85"
definition SECTION_TRANSITION_scatterPeak :: real where "SECTION_TRANSITION_scatterPeak = 0.85"
definition SECTION_TRANSITION_scatterIn :: real where "SECTION_TRANSITION_scatterIn = 0"
definition SECTION_TRANSITION_wheelThreshold :: real where "SECTION_TRANSITION_wheelThreshold = 80"
definition SECTION_TRANSITION_scrollScale :: real where "SECTION_TRANSITION_scrollScale = 900"

text \<open>Every field above is present in SECTION_TRANSITION, so the \<^verbatim>\<open>??\<close> defaults of
  main.js (120, 900, 0.85, ...) are never taken.\<close>

definition SCROLL_SCATTER_PEAK :: real where
  "SCROLL_SCATTER_PEAK = SECTION_TRANSITION_scatterPeak"
definition SCROLL_TRIGGER_THRESHOLD :: real where
  "SCROLL_TRIGGER_THRESHOLD = SECTION_TRANSITION_wheelThreshold"
definition TOUCH_TRIGGER_THRESHOLD :: real where
  "TOUCH_TRIGGER_THRESHOLD = SCROLL_TRIGGER_THRESHOLD * 0.6"
definition SCROLL_PROGRESS_SCALE :: real where
  "SCROLL_PROGRESS_SCALE = SECTION_TRANSITION_scrollScale"
definition TOUCH_PROGRESS_SCALE :: real where
  "TOUCH_PROGRESS_SCALE = SCROLL_PROGRESS_SCALE * 0.6"

section \<open>Section lookup\<close>

definition jsRem :: "int \<Rightarrow> int \<Rightarrow> int" where
  \<comment> \<open>the JavaScript remainder \<^verbatim>\<open>a % b\<close>: it has the sign of the dividend\<close>
  "jsRem a b = sgn a * (\<bar>a\<bar> mod \<bar>b\<bar>)"

definition getSectionCount :: "env \<Rightarrow> int" where
  "getSectionCount e = int (length (sections e))"

definition normalizeSectionIndex :: "env \<Rightarrow> int \<Rightarrow> int" where
  "normalizeSectionIndex e i =
     (let total = getSectionCount e in
      if total \<le> 0 then 0
      else let m = jsRem i total in if m < 0 then m + total else m)"

definition getSectionByIndex :: "env \<Rightarrow> int \<Rightarrow> sectionDesc option" where
  "getSectionByIndex e i =
     (let total = getSectionCount e in
      if total = 0 then None else Some (sections e ! nat (normalizeSectionIndex e i)))"

definition getDefaultTransform :: transform where
  "getDefaultTransform =
     \<lparr>t_rotation = \<lparr>vx = 0, vy = 0, vz = 0\<rparr>, t_scale = 1, t_offset = \<lparr>vx = 0, vy = 0, vz = 0\<rparr>\<rparr>"

definition getSectionTransform :: "sectionDesc option \<Rightarrow> transform" where
  \<comment> \<open>\<^verbatim>\<open>section?.transform || getDefaultTransform()\<close>\<close>
  "getSectionTransform s =
     (case s of None \<Rightarrow> getDefaultTransform
      | Some sec \<Rightarrow> (case s_transform sec of None \<Rightarrow> getDefaultTransform | Some t \<Rightarrow> t))"

definition getSectionAsset :: "world \<Rightarrow> sectionDesc option \<Rightarrow> asset option" where
  "getSectionAsset w s = (case s of None \<Rightarrow> None | Some sec \<Rightarrow> sectionAssets w (s_id sec))"

section \<open>Scalar sinks and the camera\<close>

definition setScatterAmplitude :: "real \<Rightarrow> bool \<Rightarrow> world \<Rightarrow> world" where
  "setScatterAmplitude v syncTarget w =
     (let clamped = max 0 (min 1 v);
          w1 = w\<lparr>scatterAmp := clamped\<rparr>
      in if syncTarget then w1\<lparr>scatterGoal := clamped\<rparr> else w1)"

definition setMorphProgress :: "real \<Rightarrow> world \<Rightarrow> world" where
  "setMorphProgress v w = w\<lparr>morphProgress := clamp v 0 1\<rparr>"

definition setTextOpacityTarget :: "real \<Rightarrow> bool \<Rightarrow> world \<Rightarrow> world" where
  "setTextOpacityTarget v immediate w =
     (let clamped = clamp v 0 1;
          w1 = w\<lparr>textOpacityTarget := clamped\<rparr>
      in if immediate then w1\<lparr>textOpacityValue := clamped\<rparr> else w1)"

definition ensureTextOpacity :: "real \<Rightarrow> world \<Rightarrow> world" where
  \<comment> \<open>every call leaves the second parameter at its default, immediate = true\<close>
  "ensureTextOpacity v w =
     (let clamped = clamp v 0 1 in
      if \<bar>textOpacityValue w - clamped\<bar> > 1 / 1000 then setTextOpacityTarget clamped True w
      else w)"

text \<open>The two setters take \<open>None\<close> for an argument that is not a finite number. Moving
  the camera object (positionCameraOnPath, controls.update) belongs to the renderer.\<close>

definition setCameraYawOffset :: "real option \<Rightarrow> world \<Rightarrow> world" where
  "setCameraYawOffset degrees w =
     w\<lparr>cameraYawOffsetDeg :=
         (case degrees of Some parsed \<Rightarrow> clamp parsed (-360) 360
          | None \<Rightarrow> cameraYawOffsetDeg w)\<rparr>"

definition setCameraPitchOffset :: "real option \<Rightarrow> world \<Rightarrow> world" where
  "setCameraPitchOffset degrees w =
     w\<lparr>cameraPitchOffsetDeg :=
         (case degrees of Some parsed \<Rightarrow> clamp parsed (-60) 60
          | None \<Rightarrow> cameraPitchOffsetDeg w)\<rparr>"

definition getCurrentCameraPose :: "world \<Rightarrow> pose" where
  "getCurrentCameraPose w =
     \<lparr>pathT = cameraPathTarget w, yaw = cameraYawOffsetDeg w, pitch = cameraPitchOffsetDeg w\<rparr>"

definition updateCameraPose :: "real \<Rightarrow> world \<Rightarrow> world" where
  "updateCameraPose progress w =
     (let start = (case cameraStartPose (sectionState w) of
                     Some p \<Rightarrow> p | None \<Rightarrow> getCurrentCameraPose w);
          end' = (case cameraEndPose (sectionState w) of Some p \<Rightarrow> p | None \<Rightarrow> start);
          t = clamp progress 0 1;
          newPathT = lerp (pathT start) (pathT end') t;
          newYaw = lerp (yaw start) (yaw end') t;
          newPitch = lerp (pitch start) (pitch end') t
      in w\<lparr>cameraPathTarget := clamp newPathT 0 1,
            cameraPathT := clamp newPathT 0 1,
            cameraYawOffsetDeg := newYaw,
            cameraPitchOffsetDeg := newPitch\<rparr>)"

section \<open>Background gradient\<close>

definition isHexDigit :: "char \<Rightarrow> bool" where
  "isHexDigit c = (c \<in> set ''0123456789abcdefABCDEF'')"

definition toLowerCase :: "string \<Rightarrow> string" where
  "toLowerCase s = map (\<lambda>c. let n = (of_char c :: nat) in
                           if 65 \<le> n \<and> n \<le> 90 then char_of (n + 32) else c) s"

definition hexMatch :: "string \<Rightarrow> string option" where
  \<comment> \<open>\<^verbatim>\<open>value.match(HEX_PATTERN)\<close> with HEX_PATTERN = /^#?([0-9a-fA-F]{6})([0-9a-fA-F]{2})?$/:
      the first group of a match\<close>
  "hexMatch s =
     (let digits = (case s of [] \<Rightarrow> [] | c # r \<Rightarrow> if c = CHR ''#'' then r else s) in
      if (length digits = 6 \<or> length digits = 8) \<and> list_all isHexDigit digits
      then Some (take 6 digits) else None)"

definition hexOf :: "string \<Rightarrow> string" where
  \<comment> \<open>the template \<^verbatim>\<open>`#${match[1].toLowerCase()}`\<close>\<close>
  "hexOf digits = CHR ''#'' # toLowerCase digits"

definition setBackgroundGradient :: "gradient \<Rightarrow> world \<Rightarrow> world" where
  "setBackgroundGradient g w =
     (case hexMatch (g_top g) of
        None \<Rightarrow> w
      | Some topMatch \<Rightarrow>
          let top' = hexOf topMatch;
              mid' = (case hexMatch (g_mid g) of Some m \<Rightarrow> hexOf m | None \<Rightarrow> top');
              bottom' = (case hexMatch (g_bottom g) of Some b \<Rightarrow> hexOf b | None \<Rightarrow> mid')
          in w\<lparr>backgroundGradient := \<lparr>g_top = top', g_mid = mid', g_bottom = bottom'\<rparr>\<rparr>)"

definition jsOr :: "string option \<Rightarrow> string option \<Rightarrow> string option" where
  \<comment> \<open>\<^verbatim>\<open>a || b\<close> on optional strings: an absent or empty string is falsy\<close>
  "jsOr a b = (case a of Some s \<Rightarrow> if s \<noteq> [] then Some s else b | None \<Rightarrow> b)"

definition truthy :: "string option \<Rightarrow> string option" where
  "truthy a = jsOr a None"

definition normalizeBackgroundInput :: "backgroundInput option \<Rightarrow> gradient option" where
  "normalizeBackgroundInput v =
     (case v of
        None \<Rightarrow> None
      | Some (BgString s) \<Rightarrow>
          if s = [] then None
          else (case hexMatch s of None \<Rightarrow> None
                | Some m \<Rightarrow> Some \<lparr>g_top = hexOf m, g_mid = hexOf m, g_bottom = hexOf m\<rparr>)
      | Some (BgObject ob) \<Rightarrow>
          let top' = (case o_top ob of Some t \<Rightarrow> Some t | None \<Rightarrow> jsOr (o_color ob) (o_topColor ob));
              mid' = (case o_mid ob of Some t \<Rightarrow> Some t | None \<Rightarrow> jsOr (o_middle ob) (o_midColor ob));
              bottom' = (case o_bottom ob of Some t \<Rightarrow> Some t | None \<Rightarrow> o_bottomColor ob)
          in case truthy top' of None \<Rightarrow> None | Some t \<Rightarrow>
             (case hexMatch t of None \<Rightarrow> None | Some topMatch \<Rightarrow>
                let topHex = hexOf topMatch;
                    midHex = (case truthy mid' of None \<Rightarrow> topHex
                              | Some m \<Rightarrow> (case hexMatch m of Some mm \<Rightarrow> hexOf mm | None \<Rightarrow> topHex));
                    bottomHex = (case truthy bottom' of None \<Rightarrow> topHex
                              | Some b \<Rightarrow> (case hexMatch b of Some bm \<Rightarrow> hexOf bm | None \<Rightarrow> topHex))
                in Some \<lparr>g_top = topHex, g_mid = midHex, g_bottom = bottomHex\<rparr>))"

definition applyBackgroundBlend :: "env \<Rightarrow> real \<Rightarrow> world \<Rightarrow> world" where
  "applyBackgroundBlend e v w =
     (let bt = backgroundTransition w in
      case (bt_active bt, bt_from bt, bt_to bt) of
        (True, Some from', Some to') \<Rightarrow>
          let t = clamp v 0 1 in
          setBackgroundGradient
            \<lparr>g_top = lerpHexColor e (g_top from') (g_top to') t,
             g_mid = lerpHexColor e (g_mid from') (g_mid to') t,
             g_bottom = lerpHexColor e (g_bottom from') (g_bottom to') t\<rparr> w
      | _ \<Rightarrow> w)"

definition finishBackgroundBlend :: "bool \<Rightarrow> world \<Rightarrow> world" where
  \<comment> \<open>the returned colours only feed the DOM controls; the model returns the state\<close>
  "finishBackgroundBlend commit w =
     (let bt = backgroundTransition w in
      if \<not> bt_active bt then w
      else
        let w1 = (if commit \<and> bt_to bt \<noteq> None then setBackgroundGradient (the (bt_to bt)) w
                  else if \<not> commit \<and> bt_from bt \<noteq> None
                       then setBackgroundGradient (the (bt_from bt)) w
                  else w)
        in w1\<lparr>backgroundTransition :=
                 \<lparr>bt_active = False, bt_from = None, bt_to = None, bt_progress = 0,
                  bt_tween = None\<rparr>\<rparr>)"

definition startBackgroundBlend :: "env \<Rightarrow> gradient option \<Rightarrow> world \<Rightarrow> world" where
  "startBackgroundBlend e targetColors w =
     (case targetColors of
        None \<Rightarrow> finishBackgroundBlend False w
      | Some tc \<Rightarrow>
          applyBackgroundBlend e 0
            (w\<lparr>backgroundTransition :=
                 \<lparr>bt_active = True, bt_from = Some (backgroundGradient w), bt_to = Some tc,
                  bt_progress = 0, bt_tween = None\<rparr>\<rparr>))"

definition animateBackgroundBlend :: "env \<Rightarrow> real \<Rightarrow> bool \<Rightarrow> world \<Rightarrow> world" where
  "animateBackgroundBlend e target immediate w =
     (let bt = backgroundTransition w in
      if \<not> bt_active bt then w
      else
        let clamped = clamp target 0 1 in
        if \<bar>bt_progress bt - clamped\<bar> < 1 / 10000 \<and> \<not> immediate then w
        else if immediate
          then applyBackgroundBlend e clamped
                 (w\<lparr>backgroundTransition := bt\<lparr>bt_tween := None, bt_progress := clamped\<rparr>\<rparr>)
          else w\<lparr>backgroundTransition := bt\<lparr>bt_tween := Some clamped\<rparr>\<rparr>)"

section \<open>Scroll tween\<close>

definition applyScrollTweenState :: "world \<Rightarrow> world" where
  "applyScrollTweenState w =
     (let s = scrollTweenState w;
          w1 = w\<lparr>groupRotationY := rotation s\<rparr>;
          w2 = setScatterAmplitude (scatter s) True w1;
          w3 = setMorphProgress (morph s) w2
      in case points w3 of
           None \<Rightarrow> w3
         | Some p \<Rightarrow>
             w3\<lparr>points := Some (p\<lparr>
                  p_rotation := \<lparr>vx = transformRotationX s, vy = transformRotationY s,
                                 vz = transformRotationZ s\<rparr>,
                  p_scale := transformScale s,
                  p_position := \<lparr>vx = transformOffsetX s, vy = transformOffsetY s,
                                 vz = transformOffsetZ s\<rparr>\<rparr>)\<rparr>)"

definition withTargets :: "targets \<Rightarrow> tweenValues \<Rightarrow> tweenValues" where
  \<comment> \<open>the assignments of the target values, made alike to scrollTargetsCurrent and (when
      immediate) to scrollTweenState\<close>
  "withTargets tg v =
     (let v1 = v\<lparr>rotation := tg_rotation tg, scatter := tg_scatter tg, morph := tg_morph tg,
                  colorMix := (case tg_colorMix tg of Some c \<Rightarrow> c | None \<Rightarrow> 0)\<rparr>
      in case tg_transform tg of
           None \<Rightarrow> v1
         | Some t \<Rightarrow>
             v1\<lparr>transformRotationX := vx (t_rotation t),
                transformRotationY := vy (t_rotation t),
                transformRotationZ := vz (t_rotation t),
                transformScale := t_scale t,
                transformOffsetX := vx (t_offset t),
                transformOffsetY := vy (t_offset t),
                transformOffsetZ := vz (t_offset t)\<rparr>)"

definition tweenToScrollTargets :: "targets \<Rightarrow> bool \<Rightarrow> world \<Rightarrow> world" where
  "tweenToScrollTargets tg immediate w =
     (let cur = scrollTargetsCurrent w;
          rotDiff = \<bar>tg_rotation tg - rotation cur\<bar>;
          scatterDiff = \<bar>tg_scatter tg - scatter cur\<bar>;
          morphDiff = \<bar>tg_morph tg - morph cur\<bar>;
          colorMixDiff = \<bar>(case tg_colorMix tg of Some c \<Rightarrow> c | None \<Rightarrow> 0) - colorMix cur\<bar>;
          transformDiff = (case tg_transform tg of
             None \<Rightarrow> 0
           | Some t \<Rightarrow>
               \<bar>vx (t_rotation t) - transformRotationX cur\<bar>
               + \<bar>vy (t_rotation t) - transformRotationY cur\<bar>
               + \<bar>vz (t_rotation t) - transformRotationZ cur\<bar>
               + \<bar>t_scale t - transformScale cur\<bar>
               + \<bar>vx (t_offset t) - transformOffsetX cur\<bar>
               + \<bar>vy (t_offset t) - transformOffsetY cur\<bar>
               + \<bar>vz (t_offset t) - transformOffsetZ cur\<bar>)
      in if rotDiff < 1 / 10000 \<and> scatterDiff < 1 / 10000 \<and> morphDiff < 1 / 10000
            \<and> colorMixDiff < 1 / 10000 \<and> transformDiff < 1 / 10000
         then w
         else
           let w1 = w\<lparr>scrollTargetsCurrent := withTargets tg cur, scrollTween := None\<rparr> in
           if immediate
           then applyScrollTweenState (w1\<lparr>scrollTweenState := withTargets tg (scrollTweenState w1)\<rparr>)
           else w1\<lparr>scrollTween := Some tg\<rparr>)"

section \<open>The per-phase targets\<close>

definition easeInOutCubic :: "real \<Rightarrow> real" where
  "easeInOutCubic t =
     (let clamped = clamp t 0 1 in
      if clamped < 0.5 then 4 * clamped * clamped * clamped
      else 1 - (- 2 * clamped + 2) ^ 3 / 2)"

definition lerpTransform :: "transform \<Rightarrow> transform \<Rightarrow> real \<Rightarrow> transform" where
  "lerpTransform a b t =
     \<lparr>t_rotation = \<lparr>vx = lerp (vx (t_rotation a)) (vx (t_rotation b)) t,
                    vy = lerp (vy (t_rotation a)) (vy (t_rotation b)) t,
                    vz = lerp (vz (t_rotation a)) (vz (t_rotation b)) t\<rparr>,
      t_scale = lerp (t_scale a) (t_scale b) t,
      t_offset = \<lparr>vx = lerp (vx (t_offset a)) (vx (t_offset b)) t,
                  vy = lerp (vy (t_offset a)) (vy (t_offset b)) t,
                  vz = lerp (vz (t_offset a)) (vz (t_offset b)) t\<rparr>\<rparr>"

definition updateSectionTransition :: "env \<Rightarrow> world \<Rightarrow> world" where
  "updateSectionTransition e w =
     (let st = sectionState w;
          currentSection = getSectionByIndex e (index st);
          next = nextSection st
      in case phase st of
        FadeOut \<Rightarrow>
          let eased = easeInOutCubic (transitionProgress st);
              w1 = ensureTextOpacity (1 - eased) w;
              scatterTarget = lerp (scatterRest st) SCROLL_SCATTER_PEAK eased;
              rotationTarget' = lerp (rotationStart st) (rotationMid st) eased;
              morphTarget' = (if morphReady st then eased else 0);
              interpolatedTransform =
                lerpTransform (getSectionTransform currentSection) (getSectionTransform next) eased;
              w2 = tweenToScrollTargets
                     \<lparr>tg_rotation = rotationTarget', tg_scatter = scatterTarget,
                      tg_morph = morphTarget', tg_colorMix = Some morphTarget',
                      tg_transform = Some interpolatedTransform\<rparr> False w1;
              w3 = updateCameraPose eased w2
          in animateBackgroundBlend e (eased * 0.5) False w3
      | Loading \<Rightarrow>
          let w1 = ensureTextOpacity 0 w;
              w2 = animateBackgroundBlend e 0.5 False w1;
              morphTarget' = (if morphReady st then 1 else 0);
              w3 = tweenToScrollTargets
                     \<lparr>tg_rotation = rotationMid st, tg_scatter = SCROLL_SCATTER_PEAK,
                      tg_morph = morphTarget', tg_colorMix = Some morphTarget',
                      tg_transform = Some (getSectionTransform next)\<rparr> True w2
          in updateCameraPose 1 w3
      | FadeIn \<Rightarrow>
          let eased = easeInOutCubic (transitionProgress st);
              w1 = ensureTextOpacity eased w;
              scatterTarget = lerp SCROLL_SCATTER_PEAK (nextScatterRest st) eased;
              rotationTarget' = lerp (rotationMid st) (rotationTarget st) eased;
              morphTarget' = (if morphReady st then 1 else 0);
              w2 = tweenToScrollTargets
                     \<lparr>tg_rotation = rotationTarget', tg_scatter = scatterTarget,
                      tg_morph = morphTarget', tg_colorMix = Some morphTarget',
                      tg_transform = Some (getSectionTransform next)\<rparr> False w1;
              w3 = updateCameraPose 1 w2
          in animateBackgroundBlend e (0.5 + eased * 0.5) False w3
      | _ \<Rightarrow>
          let w1 = ensureTextOpacity 1 w;
              w2 = tweenToScrollTargets
                     \<lparr>tg_rotation = rotationTarget st, tg_scatter = scatterRest st,
                      tg_morph = 0, tg_colorMix = Some 0,
                      tg_transform = Some (getSectionTransform currentSection)\<rparr> False w1;
              w3 = updateCameraPose 1 w2
          in if \<not> bt_active (backgroundTransition w3)
             then animateBackgroundBlend e 0 True w3 else w3)"

section \<open>Morph buffer\<close>

abbreviation pointsGeometry :: "world \<Rightarrow> geometry option" where
  \<comment> \<open>\<^verbatim>\<open>points?.geometry\<close>\<close>
  "pointsGeometry w \<equiv> map_option p_geometry (points w)"

definition setPointsMorphTarget :: "real list option \<Rightarrow> world \<Rightarrow> world" where
  "setPointsMorphTarget arr w =
     (case points w of None \<Rightarrow> w | Some p \<Rightarrow>
      case morphTarget (p_geometry p) of None \<Rightarrow> w | Some attr \<Rightarrow>
      case arr of None \<Rightarrow> w | Some a \<Rightarrow>
      if length a \<noteq> length (array attr) then w
      else w\<lparr>points := Some (p\<lparr>p_geometry :=
                 (p_geometry p)\<lparr>morphTarget := Some (attr\<lparr>array := a\<rparr>)\<rparr>\<rparr>)\<rparr>)"

definition setPointsMorphColor :: "real list option \<Rightarrow> world \<Rightarrow> world" where
  "setPointsMorphColor arr w =
     (case points w of None \<Rightarrow> w | Some p \<Rightarrow>
      case morphColor (p_geometry p) of None \<Rightarrow> w | Some attr \<Rightarrow>
      case arr of None \<Rightarrow> w | Some a \<Rightarrow>
      if length a \<noteq> length (array attr) then w
      else w\<lparr>points := Some (p\<lparr>p_geometry :=
                 (p_geometry p)\<lparr>morphColor := Some (attr\<lparr>array := a\<rparr>)\<rparr>\<rparr>)\<rparr>)"

definition setPointsPositionArray :: "real list option \<Rightarrow> world \<Rightarrow> world" where
  "setPointsPositionArray arr w =
     (case points w of None \<Rightarrow> w | Some p \<Rightarrow>
      case position (p_geometry p) of None \<Rightarrow> w | Some attr \<Rightarrow>
      case arr of None \<Rightarrow> w | Some a \<Rightarrow>
      if length a \<noteq> length (array attr) then w
      else w\<lparr>points := Some (p\<lparr>p_geometry :=
                 (p_geometry p)\<lparr>position := Some (attr\<lparr>array := a\<rparr>)\<rparr>\<rparr>)\<rparr>)"

definition refreshAllMorphTargets :: "world \<Rightarrow> world" where
  "refreshAllMorphTargets w =
     w\<lparr>baseSampleFractions := computeSampleFractions (originalGeom w) (baseVertexCount w),
       sectionAssets := (\<lambda>k. map_option (\<lambda>a. a\<lparr>a_morphArray := None\<rparr>) (sectionAssets w k))\<rparr>"

definition updateAsset :: "string \<Rightarrow> (asset \<Rightarrow> asset) \<Rightarrow> world \<Rightarrow> world" where
  \<comment> \<open>a field assignment on the asset object of a section id\<close>
  "updateAsset k f w = w\<lparr>sectionAssets := (sectionAssets w)(k := map_option f (sectionAssets w k))\<rparr>"

section \<open>Loading a morph target\<close>

definition geometrySourceOf :: "world \<Rightarrow> sectionDesc \<Rightarrow> geometrySource" where
  \<comment> \<open>what ensureSectionMorphTarget and ensureSectionGeometry find when they are called\<close>
  "geometrySourceOf w sec =
     (case getSectionAsset w (Some sec) of
        None \<Rightarrow> NoAsset
      | Some a \<Rightarrow> (case a_geometry a of Some g \<Rightarrow> Cached g | None \<Rightarrow> FromLoader))"

definition ensureSectionMorphTarget :: "sectionDesc \<Rightarrow> world \<Rightarrow> nat \<times> world" where
  \<comment> \<open>the synchronous part: a new pending promise, whose number is returned\<close>
  "ensureSectionMorphTarget sec w =
     (length (promises w),
      w\<lparr>promises := promises w @
           [\<lparr>pr_section = sec, pr_source = geometrySourceOf w sec, pr_preload = False,
             pr_state = Pending\<rparr>]\<rparr>)"

definition ensureSectionMorphTarget_then :: "sectionDesc \<Rightarrow> geometry \<Rightarrow> world \<Rightarrow> string option \<times> world" where
  \<comment> \<open>the callback \<^verbatim>\<open>(geom) => { ... }\<close> of ensureSectionMorphTarget; \<open>Some msg\<close> is a
      rejection (returned or thrown)\<close>
  "ensureSectionMorphTarget_then sec geom w =
     (case points w of
        None \<Rightarrow> (Some ''Points not initialized'', w)
      | Some p \<Rightarrow>
      case morphTarget (p_geometry p) of
        None \<Rightarrow> (Some ''Missing morph target attribute'', w)
      | Some morphAttr \<Rightarrow>
      case computeSampleFractions (Some geom) (count morphAttr) of
        None \<Rightarrow> (Some ''Failed to compute sample fractions for target geometry'', w)
      | Some targetSampleFractions \<Rightarrow>
      case generateMorphTargetArrayWithFractions (pointsGeometry w) (Some geom)
             (Some targetSampleFractions) of
        None \<Rightarrow> (Some ''Failed to generate morph target array'', w)
      | Some arr \<Rightarrow>
          let w1 = updateAsset (s_id sec) (\<lambda>a. a\<lparr>a_morphArray := Some arr\<rparr>) w;
              w2 = setPointsMorphTarget (Some arr) w1;
              w3 = (case generateMorphColorArrayWithFractions (pointsGeometry w2) (Some geom)
                           (Some targetSampleFractions) of
                      Some colorArray \<Rightarrow> setPointsMorphColor (Some colorArray) w2
                    | None \<Rightarrow> w2)
          in (None, w3\<lparr>currentModelPath :=
                (case getSectionAsset w3 (Some sec) of
                   Some a \<Rightarrow> (case a_path a of Some pth \<Rightarrow> pth | None \<Rightarrow> s_modelPath sec)
                 | None \<Rightarrow> s_modelPath sec)\<rparr>))"

section \<open>Transitions\<close>

definition cancelTransition :: "env \<Rightarrow> world \<Rightarrow> world" where
  "cancelTransition e w =
     (let st = sectionState w;
          st1 = st\<lparr>phase := Idle, transitionProgress := 0, pendingIndex := index st,
                   pendingPromise := None, nextSection := None, pendingScrollCarry := 0,
                   rotationTarget := rotationStart st, rotationMid := rotationStart st,
                   cameraEndPose := cameraStartPose st\<rparr>;
          w1 = w\<lparr>sectionState := st1, groupRotationY := rotationStart st\<rparr>;
          w2 = updateCameraPose 0 w1;
          w3 = updateSectionTransition e w2;
          w4 = w3\<lparr>sectionState := (sectionState w3)\<lparr>morphReady := False\<rparr>\<rparr>
      in finishBackgroundBlend False w4)"

definition beginSectionLoad :: "env \<Rightarrow> world \<Rightarrow> world" where
  \<comment> \<open>the synchronous part; the then/catch pair is recorded in loadReactions\<close>
  "beginSectionLoad e w =
     (case nextSection (sectionState w) of
        None \<Rightarrow> cancelTransition e w
      | Some next \<Rightarrow>
          let w1 = updateSectionTransition e (w\<lparr>sectionState := (sectionState w)\<lparr>phase := Loading\<rparr>\<rparr>);
              (morphPromise, w2) = (case pendingPromise (sectionState w1) of
                                      Some p \<Rightarrow> (p, w1)
                                    | None \<Rightarrow> ensureSectionMorphTarget next w1);
              w3 = w2\<lparr>sectionState := (sectionState w2)\<lparr>pendingPromise := Some morphPromise\<rparr>\<rparr>
          in w3\<lparr>loadReactions := loadReactions w3 @ [(morphPromise, next)]\<rparr>)"

definition orElse :: "'a option \<Rightarrow> 'a \<Rightarrow> 'a" where
  \<comment> \<open>\<^verbatim>\<open>a ?? b\<close>\<close>
  "orElse a b = (case a of Some v \<Rightarrow> v | None \<Rightarrow> b)"

definition transitionField :: "sectionDesc \<Rightarrow> (transitionConfig \<Rightarrow> real option) \<Rightarrow> real option" where
  \<comment> \<open>\<^verbatim>\<open>nextSection.transition?.field\<close>\<close>
  "transitionField sec f = (case s_transition sec of None \<Rightarrow> None | Some t \<Rightarrow> f t)"

text \<open>
  startSectionTransition, in the order of the source: the two guards, the assignments to
  sectionState (\<open>fadeOutState\<close>), the initialisation of the tween state
  (\<open>initScrollTween\<close>), the background blend, the preload of the morph target, and the first
  update; then the jump to loading when the initial progress is already 1.
\<close>

definition fadeOutState :: "sectionDesc \<Rightarrow> int \<Rightarrow> real \<Rightarrow> real \<Rightarrow> world \<Rightarrow> sectionState" where
  "fadeOutState next targetIndex direction' initialProgress w =
     (let directionSign = (if direction' \<ge> 0 then 1 else - 1);
          baseTurns = orElse (transitionField next tr_spinTurns) SECTION_TRANSITION_spinTurns;
          scatterOut' = orElse (transitionField next tr_scatterOut) SECTION_TRANSITION_scatterOut;
          scatterIn = orElse (transitionField next tr_scatterIn) SECTION_TRANSITION_scatterIn;
          currentPose = getCurrentCameraPose w;
          targetCamera = orElse (s_camera next) \<lparr>c_pathT = None, c_yaw = None, c_pitch = None\<rparr>;
          endPathT = (case c_pathT targetCamera of
                        Some t \<Rightarrow> clamp t 0 1 | None \<Rightarrow> pathT currentPose);
          endYaw = orElse (c_yaw targetCamera) (yaw currentPose);
          endPitch = orElse (c_pitch targetCamera) (pitch currentPose)
      in (sectionState w)\<lparr>
           phase := FadeOut, phaseElapsed := 0, transitionElapsed := 0,
           pendingIndex := targetIndex, pendingPromise := None,
           direction := directionSign, nextIndex := targetIndex,
           nextSection := Some next, spinTurns := baseTurns,
           rotationStart := groupRotationY w,
           rotationMid := groupRotationY w + directionSign * baseTurns * pi,
           rotationTarget := groupRotationY w + directionSign * baseTurns * pi * 2,
           rotationDuration := orElse (transitionField next tr_spinDuration)
                                 SECTION_TRANSITION_spinDuration,
           scatterOut := max scatterOut' SCROLL_SCATTER_PEAK,
           nextScatterRest := scatterIn,
           transitionProgress := clamp initialProgress 0 1,
           pendingScrollCarry := 0, wheelAccumulator := 0, morphReady := False,
           cameraStartPose := Some currentPose,
           cameraEndPose := Some \<lparr>pathT = endPathT, yaw = endYaw, pitch = endPitch\<rparr>\<rparr>)"

definition initScrollTween :: "world \<Rightarrow> world" where
  "initScrollTween w =
     (let tw = (scrollTweenState w)\<lparr>
                 rotation := groupRotationY w, scatter := scatterAmp w,
                 morph := morphProgress w, colorMix := morphProgress w,
                 transformRotationX := (case points w of Some p \<Rightarrow> vx (p_rotation p) | None \<Rightarrow> 0),
                 transformRotationY := (case points w of Some p \<Rightarrow> vy (p_rotation p) | None \<Rightarrow> 0),
                 transformRotationZ := (case points w of Some p \<Rightarrow> vz (p_rotation p) | None \<Rightarrow> 0),
                 transformScale := (case points w of Some p \<Rightarrow> p_scale p | None \<Rightarrow> 1),
                 transformOffsetX := (case points w of Some p \<Rightarrow> vx (p_position p) | None \<Rightarrow> 0),
                 transformOffsetY := (case points w of Some p \<Rightarrow> vy (p_position p) | None \<Rightarrow> 0),
                 transformOffsetZ := (case points w of Some p \<Rightarrow> vz (p_position p) | None \<Rightarrow> 0)\<rparr>
      in w\<lparr>scrollTweenState := tw,
            scrollTargetsCurrent := (scrollTargetsCurrent w)\<lparr>
              rotation := rotation tw, scatter := scatter tw, morph := morph tw,
              colorMix := colorMix tw,
              transformRotationX := transformRotationX tw,
              transformRotationY := transformRotationY tw,
              transformRotationZ := transformRotationZ tw,
              transformScale := transformScale tw,
              transformOffsetX := transformOffsetX tw,
              transformOffsetY := transformOffsetY tw,
              transformOffsetZ := transformOffsetZ tw\<rparr>\<rparr>)"

definition preloadMorphTarget :: "sectionDesc \<Rightarrow> world \<Rightarrow> world" where
  \<comment> \<open>\<^verbatim>\<open>morphPromise = ensureSectionMorphTarget(nextSection).then(...).catch(...)\<close> and
      \<^verbatim>\<open>sectionState.pendingPromise = morphPromise\<close>\<close>
  "preloadMorphTarget next w =
     (let (morphPromise, w1) = ensureSectionMorphTarget next w
      in w1\<lparr>promises := (promises w1)[morphPromise :=
                              (promises w1 ! morphPromise)\<lparr>pr_preload := True\<rparr>],
            sectionState := (sectionState w1)\<lparr>pendingPromise := Some morphPromise\<rparr>\<rparr>)"

definition startSectionTransition_fadeOut ::
  "env \<Rightarrow> int \<Rightarrow> sectionDesc \<Rightarrow> real \<Rightarrow> real \<Rightarrow> world \<Rightarrow> world" where
  "startSectionTransition_fadeOut e targetIndex next direction' initialProgress w =
     (let w1 = initScrollTween
                 (w\<lparr>sectionState := fadeOutState next targetIndex direction' initialProgress w\<rparr>);
          w2 = (case normalizeBackgroundInput (s_background next) of
                  Some backgroundTarget \<Rightarrow> startBackgroundBlend e (Some backgroundTarget) w1
                | None \<Rightarrow> finishBackgroundBlend False w1)
      in updateSectionTransition e (preloadMorphTarget next w2))"

definition startSectionTransition :: "env \<Rightarrow> int \<Rightarrow> real \<Rightarrow> real \<Rightarrow> world \<Rightarrow> world" where
  "startSectionTransition e nextIndex' direction' initialProgress w =
     (let total = getSectionCount e in
      if total \<le> 0 then w
      else
        let targetIndex = normalizeSectionIndex e nextIndex' in
        if targetIndex = index (sectionState w) \<and> phase (sectionState w) \<noteq> Boot then w
        else
          case getSectionByIndex e targetIndex of
            None \<Rightarrow> w
          | Some next \<Rightarrow>
              let w5 = startSectionTransition_fadeOut e targetIndex next direction' initialProgress w
              in if transitionProgress (sectionState w5) \<ge> 1 - 1 / 10000
                 then beginSectionLoad e w5 else w5)"

text \<open>
  completeFadeIn, in the order of the source: the state and camera snap, the commit of the
  morph array of the active section (four steps, each a definition below), the reset of
  the tween state, and last the replay of the left-over carry (in the recursive definition
  further down). The commit dereferences \<^verbatim>\<open>points\<close> unguarded; an asset holds a morph
  array only once points exists, so the model runs the commit only when points is set.
\<close>

definition commitOriginalGeom :: "asset \<Rightarrow> world \<Rightarrow> world" where
  \<comment> \<open>\<^verbatim>\<open>if (asset.geometry) { baseVertexCount = ...; originalGeom = ...; refreshAllMorphTargets() }\<close>\<close>
  "commitOriginalGeom ast w =
     (case a_geometry ast of
        None \<Rightarrow> w
      | Some g \<Rightarrow>
          refreshAllMorphTargets
            (w\<lparr>baseVertexCount :=
                  (case Option.bind (pointsGeometry w) position of
                     Some posAttr \<Rightarrow> count posAttr
                   | None \<Rightarrow> baseVertexCount w),
                originalGeom := Some g,
                morphTargetOriginal := Some g\<rparr>))"

definition commitMorphTarget :: "sectionDesc \<Rightarrow> world \<Rightarrow> world" where
  \<comment> \<open>\<^verbatim>\<open>asset.morphArray = new Float32Array(updatedPosAttr.array); setPointsMorphTarget(...)\<close>\<close>
  "commitMorphTarget act w =
     (case Option.bind (pointsGeometry w) position of
        None \<Rightarrow> w
      | Some updatedPosAttr \<Rightarrow>
          setPointsMorphTarget (Some (array updatedPosAttr))
            (updateAsset (s_id act) (\<lambda>a. a\<lparr>a_morphArray := Some (array updatedPosAttr)\<rparr>) w))"

definition commitColors :: "world \<Rightarrow> world" where
  \<comment> \<open>the copy of the morphColor array into the color attribute\<close>
  "commitColors w =
     (case points w of
        None \<Rightarrow> w
      | Some p \<Rightarrow>
        (case (morphColor (p_geometry p), color (p_geometry p)) of
           (Some morphColorAttr, Some colorAttr) \<Rightarrow>
             if length (array colorAttr) = length (array morphColorAttr)
             then w\<lparr>points := Some (p\<lparr>p_geometry :=
                    (p_geometry p)\<lparr>color := Some (colorAttr\<lparr>array := array morphColorAttr\<rparr>)\<rparr>\<rparr>)\<rparr>
             else w
         | _ \<Rightarrow> w))"

definition commitActiveSection :: "sectionDesc option \<Rightarrow> world \<Rightarrow> world" where
  \<comment> \<open>the block \<^verbatim>\<open>if (activeSection) { ... }\<close>\<close>
  "commitActiveSection activeSection w =
     (case activeSection of
        None \<Rightarrow> w
      | Some act \<Rightarrow>
          (case getSectionAsset w (Some act) of
             None \<Rightarrow> w
           | Some ast \<Rightarrow>
             (case (a_morphArray ast, points w) of
                (Some marr, Some _) \<Rightarrow>
                  (setMorphProgress 0
                    (commitColors
                      (commitMorphTarget act
                        (commitOriginalGeom ast
                          (setPointsPositionArray (Some marr) w)))))\<lparr>morphUniformValue := 0\<rparr>
              | _ \<Rightarrow> w))\<lparr>currentSectionId := Some (s_id act)\<rparr>)"

definition resetScrollTween :: "world \<Rightarrow> world" where
  \<comment> \<open>the assignments to scrollTweenState and scrollTargetsCurrent that end completeFadeIn\<close>
  "resetScrollTween w =
     (let tw = (scrollTweenState w)\<lparr>rotation := groupRotationY w,
                   scatter := scatterRest (sectionState w), morph := 0, colorMix := 0\<rparr>
      in w\<lparr>scrollTweenState := tw,
            scrollTargetsCurrent := (scrollTargetsCurrent w)\<lparr>
              rotation := rotation tw, scatter := scatter tw, morph := morph tw,
              colorMix := colorMix tw\<rparr>\<rparr>)"

definition completeFadeIn_snap :: "world \<Rightarrow> world" where
  \<comment> \<open>the assignments that open completeFadeIn, down to the two camera setters\<close>
  "completeFadeIn_snap w =
     (let st = sectionState w;
          endPose = (case cameraEndPose st of Some p \<Rightarrow> p | None \<Rightarrow> getCurrentCameraPose w);
          st1 = st\<lparr>phase := Idle, transitionProgress := 0, pendingPromise := None,
                   nextSection := None, rotationStart := groupRotationY w,
                   rotationTarget := groupRotationY w, rotationMid := groupRotationY w,
                   cameraStartPose := Some endPose, cameraEndPose := Some endPose\<rparr>;
          w1 = w\<lparr>sectionState := st1,
                 cameraPathTarget := clamp (pathT endPose) 0 1,
                 cameraPathT := clamp (pathT endPose) 0 1,
                 cameraYawOffsetDeg := yaw endPose,
                 cameraPitchOffsetDeg := pitch endPose\<rparr>
      in setCameraPitchOffset (Some (pitch endPose)) (setCameraYawOffset (Some (yaw endPose)) w1))"

definition completeFadeIn_commit :: "env \<Rightarrow> world \<Rightarrow> world" where
  \<comment> \<open>completeFadeIn up to, and without, the replay of the left-over scroll carry\<close>
  "completeFadeIn_commit e w =
     (let activeSection = (case nextSection (sectionState w) of
                             Some s \<Rightarrow> Some s
                           | None \<Rightarrow> getSectionByIndex e (index (sectionState w)))
      in applyScrollTweenState
           (resetScrollTween
             (commitActiveSection activeSection
               (finishBackgroundBlend True
                 (updateSectionTransition e (completeFadeIn_snap w))))))"

section \<open>Scroll input\<close>

lemma sectionState_setScatterAmplitude [simp]:
  "sectionState (setScatterAmplitude v s w) = sectionState w"
  by (simp add: setScatterAmplitude_def Let_def)

lemma sectionState_setMorphProgress [simp]:
  "sectionState (setMorphProgress v w) = sectionState w"
  by (simp add: setMorphProgress_def)

lemma sectionState_ensureTextOpacity [simp]:
  "sectionState (ensureTextOpacity v w) = sectionState w"
  by (simp add: ensureTextOpacity_def setTextOpacityTarget_def Let_def)

lemma sectionState_setCameraYawOffset [simp]:
  "sectionState (setCameraYawOffset d w) = sectionState w"
  by (simp add: setCameraYawOffset_def)

lemma sectionState_setCameraPitchOffset [simp]:
  "sectionState (setCameraPitchOffset d w) = sectionState w"
  by (simp add: setCameraPitchOffset_def)

lemma sectionState_updateCameraPose [simp]:
  "sectionState (updateCameraPose t w) = sectionState w"
  by (simp add: updateCameraPose_def Let_def)

lemma sectionState_setBackgroundGradient [simp]:
  "sectionState (setBackgroundGradient g w) = sectionState w"
  by (simp add: setBackgroundGradient_def Let_def split: option.splits)

lemma sectionState_applyBackgroundBlend [simp]:
  "sectionState (applyBackgroundBlend e v w) = sectionState w"
  by (simp add: applyBackgroundBlend_def Let_def split: option.splits bool.splits)

lemma sectionState_finishBackgroundBlend [simp]:
  "sectionState (finishBackgroundBlend c w) = sectionState w"
  by (simp add: finishBackgroundBlend_def Let_def)

lemma sectionState_startBackgroundBlend [simp]:
  "sectionState (startBackgroundBlend e t w) = sectionState w"
  by (simp add: startBackgroundBlend_def split: option.splits)

lemma sectionState_animateBackgroundBlend [simp]:
  "sectionState (animateBackgroundBlend e t i w) = sectionState w"
  by (simp add: animateBackgroundBlend_def Let_def)

lemma sectionState_applyScrollTweenState [simp]:
  "sectionState (applyScrollTweenState w) = sectionState w"
  by (simp add: applyScrollTweenState_def Let_def split: option.splits)

lemma sectionState_tweenToScrollTargets [simp]:
  "sectionState (tweenToScrollTargets tg i w) = sectionState w"
  by (simp add: tweenToScrollTargets_def Let_def)

lemma sectionState_updateSectionTransition [simp]:
  "sectionState (updateSectionTransition e w) = sectionState w"
  by (simp add: updateSectionTransition_def Let_def split: phase.splits)

lemma sectionState_setPointsMorphTarget [simp]:
  "sectionState (setPointsMorphTarget a w) = sectionState w"
  by (simp add: setPointsMorphTarget_def split: option.splits)

lemma sectionState_setPointsMorphColor [simp]:
  "sectionState (setPointsMorphColor a w) = sectionState w"
  by (simp add: setPointsMorphColor_def split: option.splits)

lemma sectionState_setPointsPositionArray [simp]:
  "sectionState (setPointsPositionArray a w) = sectionState w"
  by (simp add: setPointsPositionArray_def split: option.splits)

lemma sectionState_refreshAllMorphTargets [simp]:
  "sectionState (refreshAllMorphTargets w) = sectionState w"
  by (simp add: refreshAllMorphTargets_def)

lemma sectionState_updateAsset [simp]:
  "sectionState (updateAsset k f w) = sectionState w"
  by (simp add: updateAsset_def)

lemma sectionState_commitOriginalGeom [simp]:
  "sectionState (commitOriginalGeom a w) = sectionState w"
  by (simp add: commitOriginalGeom_def split: option.splits)

lemma sectionState_commitMorphTarget [simp]:
  "sectionState (commitMorphTarget a w) = sectionState w"
  by (simp add: commitMorphTarget_def split: option.splits)

lemma sectionState_commitColors [simp]:
  "sectionState (commitColors w) = sectionState w"
  by (simp add: commitColors_def split: option.splits)

lemma sectionState_commitActiveSection [simp]:
  "sectionState (commitActiveSection a w) = sectionState w"
  by (simp add: commitActiveSection_def split: option.splits)

lemma sectionState_resetScrollTween [simp]:
  "sectionState (resetScrollTween w) = sectionState w"
  by (simp add: resetScrollTween_def Let_def)

lemma sectionState_completeFadeIn_snap:
  "sectionState (completeFadeIn_snap w) =
     (sectionState w)\<lparr>phase := Idle, transitionProgress := 0, pendingPromise := None,
        nextSection := None, rotationStart := groupRotationY w,
        rotationTarget := groupRotationY w, rotationMid := groupRotationY w,
        cameraStartPose := Some (case cameraEndPose (sectionState w) of
                                   Some p \<Rightarrow> p | None \<Rightarrow> getCurrentCameraPose w),
        cameraEndPose := Some (case cameraEndPose (sectionState w) of
                                   Some p \<Rightarrow> p | None \<Rightarrow> getCurrentCameraPose w)\<rparr>"
  by (simp add: completeFadeIn_snap_def Let_def)

lemma sectionState_completeFadeIn_commit:
  "sectionState (completeFadeIn_commit e w) = sectionState (completeFadeIn_snap w)"
  by (simp add: completeFadeIn_commit_def Let_def)

lemma phase_completeFadeIn_commit [simp]:
  "phase (sectionState (completeFadeIn_commit e w)) = Idle"
  by (simp add: sectionState_completeFadeIn_commit sectionState_completeFadeIn_snap)

definition progressScaleOf :: "bool \<Rightarrow> real" where
  \<comment> \<open>\<^verbatim>\<open>isTouch ? TOUCH_PROGRESS_SCALE : SCROLL_PROGRESS_SCALE\<close>\<close>
  "progressScaleOf isTouch = (if isTouch then TOUCH_PROGRESS_SCALE else SCROLL_PROGRESS_SCALE)"

definition triggerThreshold :: "bool \<Rightarrow> real" where
  \<comment> \<open>\<^verbatim>\<open>isTouch ? TOUCH_TRIGGER_THRESHOLD : SCROLL_TRIGGER_THRESHOLD\<close>\<close>
  "triggerThreshold isTouch = (if isTouch then TOUCH_TRIGGER_THRESHOLD else SCROLL_TRIGGER_THRESHOLD)"

definition scrollDirection :: "real \<Rightarrow> real" where
  \<comment> \<open>\<^verbatim>\<open>sectionState.wheelAccumulator > 0 ? 1 : -1\<close>\<close>
  "scrollDirection acc = (if acc > 0 then 1 else - 1)"

definition overshootProgress :: "bool \<Rightarrow> real \<Rightarrow> real" where
  \<comment> \<open>progressRaw: \<^verbatim>\<open>Math.abs(overshoot) / progressScale\<close> with
      overshoot = accumulator - direction * threshold\<close>
  "overshootProgress isTouch acc =
     \<bar>acc - scrollDirection acc * triggerThreshold isTouch\<bar> / progressScaleOf isTouch"

definition triggerTransition :: "env \<Rightarrow> bool \<Rightarrow> world \<Rightarrow> world" where
  \<comment> \<open>applyScrollDelta: the block taken once \<^verbatim>\<open>Math.abs(sectionState.wheelAccumulator) >= threshold\<close>\<close>
  "triggerTransition e isTouch w =
     (let acc = wheelAccumulator (sectionState w);
          direction' = scrollDirection acc;
          progressRaw = overshootProgress isTouch acc;
          initialProgress = min 1 progressRaw;
          carry = max 0 (progressRaw - initialProgress);
          w2 = w\<lparr>sectionState := (sectionState w)\<lparr>wheelAccumulator := 0\<rparr>\<rparr>;
          w3 = startSectionTransition e
                 (normalizeSectionIndex e (index (sectionState w2) + (if acc > 0 then 1 else - 1)))
                 direction' initialProgress w2
      in if carry > 0
         then w3\<lparr>sectionState := (sectionState w3)\<lparr>pendingScrollCarry := carry\<rparr>\<rparr>
         else w3)"

function applyScrollDelta :: "env \<Rightarrow> real \<Rightarrow> bool \<Rightarrow> world \<Rightarrow> world"
  and advanceTransitionProgress :: "env \<Rightarrow> real \<Rightarrow> world \<Rightarrow> world"
  and completeFadeIn :: "env \<Rightarrow> world \<Rightarrow> world"
where
  "applyScrollDelta e delta isTouch w =
     (if \<not> isReady (sectionState w) then w
      else
        let progressScale = progressScaleOf isTouch;
            threshold = triggerThreshold isTouch;
            normalized = delta / progressScale
        in
        if phase (sectionState w) = FadeOut \<or> phase (sectionState w) = FadeIn
        then advanceTransitionProgress e normalized w
        else if phase (sectionState w) = Loading
        then
          let direction' = (if direction (sectionState w) = 0 then 1 else direction (sectionState w));
              carry = normalized * direction'
          in if carry > 0
             then w\<lparr>sectionState := (sectionState w)\<lparr>pendingScrollCarry :=
                       pendingScrollCarry (sectionState w) + carry\<rparr>\<rparr>
             else w
        else
          let w1 = w\<lparr>sectionState := (sectionState w)\<lparr>wheelAccumulator :=
                      wheelAccumulator (sectionState w) + delta\<rparr>\<rparr>
          in if \<bar>wheelAccumulator (sectionState w1)\<bar> \<ge> threshold
             then triggerTransition e isTouch w1
             else w1)"
| "advanceTransitionProgress e stepRaw w =
     (if phase (sectionState w) \<noteq> FadeOut \<and> phase (sectionState w) \<noteq> FadeIn then w
      else
        let direction' = (if direction (sectionState w) = 0 then 1 else direction (sectionState w));
            signed = stepRaw * direction'
        in
        if signed = 0 then updateSectionTransition e w
        else
          let next = transitionProgress (sectionState w) + signed in
          if phase (sectionState w) = FadeOut
          then
            if next \<le> 0 then cancelTransition e w
            else if next \<ge> 1
            then beginSectionLoad e (updateSectionTransition e
                   (w\<lparr>sectionState := (sectionState w)\<lparr>
                        pendingScrollCarry := pendingScrollCarry (sectionState w) + max 0 (next - 1),
                        transitionProgress := 1\<rparr>\<rparr>))
            else updateSectionTransition e
                   (w\<lparr>sectionState := (sectionState w)\<lparr>transitionProgress := clamp next 0 1\<rparr>\<rparr>)
          else
            if next \<ge> 1
            then completeFadeIn e (updateSectionTransition e
                   (w\<lparr>sectionState := (sectionState w)\<lparr>
                        pendingScrollCarry := pendingScrollCarry (sectionState w) + max 0 (next - 1),
                        transitionProgress := 1\<rparr>\<rparr>))
            else updateSectionTransition e
                   (w\<lparr>sectionState := (sectionState w)\<lparr>transitionProgress := clamp next 0 1\<rparr>\<rparr>))"
| "completeFadeIn e w =
     (let w1 = completeFadeIn_commit e w;
          leftover = pendingScrollCarry (sectionState w1);
          w2 = w1\<lparr>sectionState := (sectionState w1)\<lparr>pendingScrollCarry := 0\<rparr>\<rparr>
      in if leftover > 1 / 10000
         then applyScrollDelta e (leftover * SCROLL_PROGRESS_SCALE * direction (sectionState w2)) False w2
         else w2)"
  by pat_completeness auto

termination
proof (relation "measure (\<lambda>x. case x of
          Inl (e, d, t, w) \<Rightarrow>
            (if phase (sectionState w) = FadeOut \<or> phase (sectionState w) = FadeIn then 3 else 0)
        | Inr (Inl (e, s, w)) \<Rightarrow> 2
        | Inr (Inr (e, w)) \<Rightarrow> 1)", goal_cases)
  case 1
  show ?case by simp
next
  case (2 e delta isTouch w)
  then show ?case by auto
next
  case (3 e stepRaw w)
  then show ?case by simp
next
  case (4 e w)
  then show ?case by simp
qed

declare applyScrollDelta.simps [simp del]
declare advanceTransitionProgress.simps [simp del]
declare completeFadeIn.simps [simp del]

section \<open>Promise settlement\<close>

definition morphPreload_then :: "world \<Rightarrow> world" where
  \<comment> \<open>startSectionTransition: \<^verbatim>\<open>.then(() => { sectionState.morphReady = true; return true; })\<close>\<close>
  "morphPreload_then w = w\<lparr>sectionState := (sectionState w)\<lparr>morphReady := True\<rparr>\<rparr>"

definition morphPreload_catch :: "string \<Rightarrow> world \<Rightarrow> world" where
  \<comment> \<open>startSectionTransition: \<^verbatim>\<open>.catch((err) => { console.error(...); morphReady = false; return false; })\<close>\<close>
  "morphPreload_catch err w =
     w\<lparr>console := console w @ [''[sections] morph preload failed''],
       sectionState := (sectionState w)\<lparr>morphReady := False\<rparr>\<rparr>"

definition enterFadeIn :: "env \<Rightarrow> world \<Rightarrow> world" where
  \<comment> \<open>beginSectionLoad: the callback of \<^verbatim>\<open>morphPromise.then\<close>, down to the update that
      follows \<^verbatim>\<open>sectionState.phase = 'fadeIn'\<close>. applySectionOverrides (with skipBackground),
      setBackgroundTextForSection and setSectionTextContent only reach the renderer and the
      DOM.\<close>
  "enterFadeIn e w =
     (let st = sectionState w;
          wasMorphReady = morphReady st;
          w1 = w\<lparr>sectionState := st\<lparr>morphReady := True\<rparr>\<rparr>;
          currentProgress = transitionProgress st;
          w2 = (if \<not> wasMorphReady \<and> currentProgress > 0 \<and> (phase st = FadeOut \<or> phase st = FadeIn)
                then setMorphProgress (easeInOutCubic currentProgress) w1 else w1);
          w3 = updateSectionTransition e w2;
          st3 = sectionState w3;
          progress' = min 1 (pendingScrollCarry st3);
          w4 = w3\<lparr>sectionState := st3\<lparr>index := nextIndex st3, scatterRest := nextScatterRest st3,
                    transitionProgress := progress',
                    pendingScrollCarry := max 0 (pendingScrollCarry st3 - progress'),
                    phase := FadeIn\<rparr>\<rparr>
      in updateSectionTransition e (ensureTextOpacity 0 w4))"

definition sectionLoad_then :: "env \<Rightarrow> sectionDesc \<Rightarrow> world \<Rightarrow> world" where
  \<comment> \<open>the whole callback: \<^verbatim>\<open>if (sectionState.transitionProgress >= 1 - 1e-4) completeFadeIn()\<close>\<close>
  "sectionLoad_then e next w =
     (let w5 = enterFadeIn e w
      in if transitionProgress (sectionState w5) \<ge> 1 - 1 / 10000
         then completeFadeIn e w5 else w5)"

definition sectionLoad_catch :: "env \<Rightarrow> sectionDesc \<Rightarrow> string \<Rightarrow> world \<Rightarrow> world" where
  \<comment> \<open>beginSectionLoad: the callback of \<^verbatim>\<open>.catch\<close>\<close>
  "sectionLoad_catch e next err w =
     (let w1 = w\<lparr>console := console w @ [''[sections] failed to load model for section''],
                 sectionState := (sectionState w)\<lparr>phase := Idle, transitionProgress := 0,
                    pendingPromise := None, pendingScrollCarry := 0, morphReady := False\<rparr>\<rparr>
      in updateSectionTransition e (finishBackgroundBlend False w1))"

definition runReaction :: "env \<Rightarrow> world \<Rightarrow> nat \<times> sectionDesc \<Rightarrow> world" where
  "runReaction e w r =
     (case pr_state (promises w ! fst r) of
        Fulfilled \<Rightarrow> sectionLoad_then e (snd r) w
      | Rejected err \<Rightarrow> sectionLoad_catch e (snd r) err w
      | Pending \<Rightarrow> w)"

definition isSettled :: "world \<Rightarrow> nat \<times> sectionDesc \<Rightarrow> bool" where
  "isSettled w r = (fst r < length (promises w) \<and> pr_state (promises w ! fst r) \<noteq> Pending)"

definition runLoadReactions :: "env \<Rightarrow> world \<Rightarrow> world" where
  \<comment> \<open>the microtasks: every recorded then/catch pair whose promise has settled runs once,
      after the synchronous code that settled the promise or attached the pair\<close>
  "runLoadReactions e w =
     (let ready = filter (isSettled w) (loadReactions w);
          waiting = filter (\<lambda>r. \<not> isSettled w r) (loadReactions w)
      in foldl (runReaction e) (w\<lparr>loadReactions := waiting\<rparr>) ready)"

definition settleSource :: "promise \<Rightarrow> loadOutcome \<Rightarrow> world \<Rightarrow> string option \<times> world" where
  \<comment> \<open>ensureSectionGeometry settles and the callback of ensureSectionMorphTarget runs. For
      a request handed to the loader, \<open>outcome\<close> is what the loader reports: the geometry (as
      preprocessGeometry leaves it) or an error. \<open>Some msg\<close> is a rejection.\<close>
  "settleSource p outcome w =
     (case pr_source p of
        NoAsset \<Rightarrow> (Some ''Unknown section asset'', w)
      | Cached g \<Rightarrow> ensureSectionMorphTarget_then (pr_section p) g w
      | FromLoader \<Rightarrow>
          (case outcome of
             LoadFailed msg \<Rightarrow> (Some msg, w)
           | Loaded g \<Rightarrow>
               ensureSectionMorphTarget_then (pr_section p) g
                 (updateAsset (s_id (pr_section p)) (\<lambda>a. a\<lparr>a_geometry := Some g\<rparr>) w)))"

definition settleChain :: "promise \<Rightarrow> string option \<Rightarrow> world \<Rightarrow> promiseState \<times> world" where
  \<comment> \<open>the handlers chained on the promise: those of startSectionTransition turn fulfilment
      and rejection alike into a fulfilled promise (they return true and false); the bare
      promise keeps its outcome\<close>
  "settleChain p err w =
     (if pr_preload p
      then (case err of
              None \<Rightarrow> (Fulfilled, morphPreload_then w)
            | Some msg \<Rightarrow> (Fulfilled, morphPreload_catch msg w))
      else (case err of
              None \<Rightarrow> (Fulfilled, w)
            | Some msg \<Rightarrow> (Rejected msg, w)))"

definition settleMorphPromise :: "env \<Rightarrow> nat \<Rightarrow> loadOutcome \<Rightarrow> world \<Rightarrow> world" where
  \<comment> \<open>Promise number pid settles. A promise settles once.\<close>
  "settleMorphPromise e pid outcome w =
     (if pid \<ge> length (promises w) then w
      else
        let p = promises w ! pid in
        if pr_state p \<noteq> Pending then w
        else
          let r = settleSource p outcome w;
              c = settleChain p (fst r) (snd r)
          in (snd c)\<lparr>promises := (promises (snd c))[pid := (promises (snd c) ! pid)\<lparr>pr_state := fst c\<rparr>]\<rparr>)"

datatype event = Scroll real bool | LoadSettles nat loadOutcome

definition dispatch :: "env \<Rightarrow> event \<Rightarrow> world \<Rightarrow> world" where
  \<comment> \<open>one turn of the event loop: the synchronous handler, then the microtasks\<close>
  "dispatch e ev w =
     runLoadReactions e
       (case ev of
          Scroll delta isTouch \<Rightarrow> applyScrollDelta e delta isTouch w
        | LoadSettles pid outcome \<Rightarrow> settleMorphPromise e pid outcome w)"

section \<open>The configuration of the repository and a booted state\<close>

definition mkSection :: "string \<Rightarrow> string \<Rightarrow> real \<Rightarrow> real \<Rightarrow> real \<Rightarrow> transform option
    \<Rightarrow> (string \<times> string \<times> string) option \<Rightarrow> sectionDesc" where
  "mkSection sid path pT yw ptch tf bg =
     \<lparr>s_id = sid, s_modelPath = path,
      s_camera = Some \<lparr>c_pathT = Some pT, c_yaw = Some yw, c_pitch = Some ptch\<rparr>,
      s_transform = tf, s_transition = None,
      s_background = (case bg of None \<Rightarrow> None
         | Some (t, m, b) \<Rightarrow> Some (BgObject
             \<lparr>o_top = Some t, o_color = None, o_topColor = None, o_mid = Some m, o_middle = None,
              o_midColor = None, o_bottom = Some b, o_bottomColor = None\<rparr>))\<rparr>"

definition mkTransform :: "real \<Rightarrow> real \<Rightarrow> real \<Rightarrow> real \<Rightarrow> real \<Rightarrow> real \<Rightarrow> real \<Rightarrow> transform" where
  "mkTransform rx ry rz sc ox oy oz =
     \<lparr>t_rotation = \<lparr>vx = rx, vy = ry, vz = rz\<rparr>, t_scale = sc,
      t_offset = \<lparr>vx = ox, vy = oy, vz = oz\<rparr>\<rparr>"

definition sec_intro :: sectionDesc where
  "sec_intro = mkSection ''intro'' ''point/akl3-bw.ply'' 0.1 (-18) (-8)
     (Some (mkTransform 0 0 0 1 0 0 0)) (Some (''#4f6469'', ''#162227'', ''#000000''))"

definition sec_harbour :: sectionDesc where
  "sec_harbour = mkSection ''harbour'' ''point/nz2.ply'' 0.1 (-18) (-6)
     (Some (mkTransform 0 0.95 0.05 1.2 0 0 (-0.19))) (Some (''#4f6469'', ''#162227'', ''#000000''))"

definition sec_midtown :: sectionDesc where
  "sec_midtown = mkSection ''midtown'' ''point/server-pc.ply'' 0.42 (-8) (-4) None None"

definition sec_closer :: sectionDesc where
  "sec_closer = mkSection ''closer-to-home'' ''point/nz2.ply'' 0.1 (-18) (-6)
     (Some (mkTransform 0 0.95 0.05 1.2 0 0 (-0.19))) (Some (''#000000'', ''#162227'', ''#4f6469''))"

definition sec_nature :: sectionDesc where
  "sec_nature = mkSection ''nature'' ''point/riverV1.ply'' 0.65 0 (-20)
     (Some (mkTransform 1.15 0.45 0 1.2 0.1 0.2 (-0.1))) (Some (''#8FA4B7'', ''#1a1a2e'', ''#020203''))"

definition repoSections :: "sectionDesc list" where
  \<comment> \<open>the array \<^verbatim>\<open>sections\<close> of js/sections.js\<close>
  "repoSections = [sec_intro, sec_harbour, sec_midtown, sec_closer, sec_nature]"

definition repoEnv :: env where
  \<comment> \<open>the repository's sections; the colour blend of THREE is replaced by a stand-in that
      returns its first argument\<close>
  "repoEnv = \<lparr>sections = repoSections, lerpHexColor = (\<lambda>a b t. a)\<rparr>"

definition wideYawEnv :: env where
  \<comment> \<open>two sections, the second with a camera yaw of 400 degrees\<close>
  "wideYawEnv =
     \<lparr>sections = [sec_intro, sec_harbour\<lparr>s_camera :=
          Some \<lparr>c_pathT = Some 0.1, c_yaw = Some 400, c_pitch = Some (-6)\<rparr>\<rparr>],
      lerpHexColor = (\<lambda>a b t. a)\<rparr>"

definition initialAssets :: "sectionDesc list \<Rightarrow> string \<Rightarrow> asset option" where
  \<comment> \<open>\<^verbatim>\<open>sections.forEach((section) => sectionAssets.set(section.id, {...}))\<close>: a later
      section of the same id replaces an earlier one\<close>
  "initialAssets secs =
     map_of (map (\<lambda>s. (s_id s, \<lparr>a_path = Some (s_modelPath s), a_geometry = None,
                                  a_morphArray = None\<rparr>)) (rev secs))"

definition cloudB :: geometry where
  \<comment> \<open>a cloud of two points, without colours: what the loader returns for another section\<close>
  "cloudB = \<lparr>position = Some (BufferAttribute [7,8,9, 10,11,12] 3), color = None,
             morphTarget = None, morphColor = None\<rparr>"

definition zeroTween :: tweenValues where
  "zeroTween = \<lparr>rotation = 0, scatter = 0, morph = 0, colorMix = 0, transformRotationX = 0,
     transformRotationY = 0, transformRotationZ = 0, transformScale = 1, transformOffsetX = 0,
     transformOffsetY = 0, transformOffsetZ = 0\<rparr>"

definition bootedPoints :: pointsObject where
  \<comment> \<open>the displayed cloud: two slots, built from a three-point cloud\<close>
  "bootedPoints =
     \<lparr>p_geometry = \<lparr>position = Some (BufferAttribute [0,0,0, 4,5,6] 3), color = None,
                     morphTarget = Some (BufferAttribute [0,0,0, 4,5,6] 3), morphColor = None\<rparr>,
      p_rotation = \<lparr>vx = 0, vy = 0, vz = 0\<rparr>, p_scale = 1,
      p_position = \<lparr>vx = 0, vy = 0, vz = 0\<rparr>\<rparr>"

definition bootedWorld :: world where
  \<comment> \<open>a state as bootstrapSections leaves it once the first model is loaded: idle and
      ready on section 0, the camera on the pose of section 0, two slots displayed\<close>
  "bootedWorld =
     \<lparr>sectionState =
        \<lparr>index = 0, phase = Idle, phaseElapsed = 0, transitionElapsed = 0, rotationStart = 0,
         rotationTarget = 0, rotationMid = 0, rotationDuration = 2.6, wheelAccumulator = 0,
         pendingIndex = 0, pendingPromise = None, scatterRest = 0, spinTurns = 1,
         isReady = True, direction = 1, nextIndex = 0, nextSection = None,
         transitionProgress = 0, pendingScrollCarry = 0, scatterOut = 0.85,
         nextScatterRest = 0,
         cameraStartPose = Some \<lparr>pathT = 0.1, yaw = -18, pitch = -8\<rparr>,
         cameraEndPose = Some \<lparr>pathT = 0.1, yaw = -18, pitch = -8\<rparr>,
         morphReady = False\<rparr>,
      groupRotationY = 0, points = Some bootedPoints, scatterAmp = 0, scatterGoal = 0,
      morphProgress = 0, morphUniformValue = 0, textOpacityTarget = 1, textOpacityValue = 1,
      scrollTweenState = zeroTween, scrollTargetsCurrent = zeroTween, scrollTween = None,
      backgroundTransition = \<lparr>bt_active = False, bt_from = None, bt_to = None,
                               bt_progress = 0, bt_tween = None\<rparr>,
      backgroundGradient = \<lparr>g_top = ''#4f6469'', g_mid = ''#162227'', g_bottom = ''#000000''\<rparr>,
      cameraPathT = 0.1, cameraPathTarget = 0.1, cameraYawOffsetDeg = -18,
      cameraPitchOffsetDeg = -8,
      sectionAssets = (initialAssets repoSections)(''intro'' \<mapsto>
         \<lparr>a_path = Some ''point/akl3-bw.ply'', a_geometry = Some cloud3,
          a_morphArray = Some [0,0,0, 4,5,6]\<rparr>),
      baseSampleFractions = Some [0, 1], baseVertexCount = 2, originalGeom = Some cloud3,
      morphTargetOriginal = Some cloud3, currentSectionId = Some ''intro'',
      currentModelPath = ''point/akl3-bw.ply'', promises = [], loadReactions = [],
      console = []\<rparr>"

definition loadingWorld :: world where
  \<comment> \<open>one wheel event of 980 from the booted state: threshold 80 plus a full progress\<close>
  "loadingWorld = applyScrollDelta repoEnv 980 False bootedWorld"

definition carryWorld :: world where
  \<comment> \<open>one wheel event of 1160: loading, with 0.2 of progress beyond the full fade-out\<close>
  "carryWorld = applyScrollDelta repoEnv 1160 False bootedWorld"

definition fadeOutWorld :: world where
  \<comment> \<open>one wheel event of 170: fading out toward section 1 at progress 0.1\<close>
  "fadeOutWorld = applyScrollDelta repoEnv 170 False bootedWorld"

definition staleWorld :: world where
  \<comment> \<open>forward into a fade-out toward section 1, back until it is cancelled, then back
      again into a fade-out toward section 4; the load of section 1 is still pending\<close>
  "staleWorld =
     dispatch repoEnv (Scroll (- 170) False)
       (dispatch repoEnv (Scroll (- 100) False)
         (dispatch repoEnv (Scroll 170 False) bootedWorld))"

section \<open>Vocabulary of the statements\<close>

definition phaseEase :: "sectionState \<Rightarrow> real" where
  \<comment> \<open>the argument updateSectionTransition passes to updateCameraPose\<close>
  "phaseEase st = (if phase st = FadeOut then easeInOutCubic (transitionProgress st) else 1)"

definition isNormalizedHex :: "string \<Rightarrow> bool" where
  \<comment> \<open>a colour string that setBackgroundGradient stores as it is: \<^verbatim>\<open>#\<close> and six or eight
      hexadecimal digits, of which the first six are kept, in lower case\<close>
  "isNormalizedHex s = (case hexMatch s of Some d \<Rightarrow> hexOf d = s | None \<Rightarrow> False)"

definition normalizedGradient :: "gradient \<Rightarrow> bool" where
  "normalizedGradient g =
     (isNormalizedHex (g_top g) \<and> isNormalizedHex (g_mid g) \<and> isNormalizedHex (g_bottom g))"

definition backgroundSnapshot :: "world \<Rightarrow> gradient" where
  \<comment> \<open>the gradient a transition started from: the \<^verbatim>\<open>from\<close> copy startBackgroundBlend took
      while a blend is active, and the gradient itself when no blend is changing it\<close>
  "backgroundSnapshot w =
     (case (bt_active (backgroundTransition w), bt_from (backgroundTransition w)) of
        (True, Some g) \<Rightarrow> g
      | _ \<Rightarrow> backgroundGradient w)"

definition snapshotNormalized :: "world \<Rightarrow> bool" where
  "snapshotNormalized w =
     (case (bt_active (backgroundTransition w), bt_from (backgroundTransition w)) of
        (True, Some g) \<Rightarrow> normalizedGradient g
      | (True, None) \<Rightarrow> False
      | _ \<Rightarrow> True)"

definition signedStep :: "sectionState \<Rightarrow> real \<Rightarrow> real" where
  \<comment> \<open>\<^verbatim>\<open>stepRaw * (sectionState.direction || 1)\<close>\<close>
  "signedStep st stepRaw = stepRaw * (if direction st = 0 then 1 else direction st)"

definition startedPhase :: "real \<Rightarrow> phase" where
  \<comment> \<open>the phase startSectionTransition leaves: loading when the initial progress is 1 (up
      to 1e-4), else fadeOut\<close>
  "startedPhase p = (if clamp p 0 1 \<ge> 1 - 1 / 10000 then Loading else FadeOut)"

definition triggerStart :: "env \<Rightarrow> bool \<Rightarrow> world \<Rightarrow> world" where
  \<comment> \<open>the call of startSectionTransition inside triggerTransition\<close>
  "triggerStart e isTouch w =
     startSectionTransition e
       (normalizeSectionIndex e (index (sectionState w)
          + (if wheelAccumulator (sectionState w) > 0 then 1 else - 1)))
       (scrollDirection (wheelAccumulator (sectionState w)))
       (min 1 (overshootProgress isTouch (wheelAccumulator (sectionState w))))
       (w\<lparr>sectionState := (sectionState w)\<lparr>wheelAccumulator := 0\<rparr>\<rparr>)"

definition commitCleared :: "env \<Rightarrow> world \<Rightarrow> world" where
  \<comment> \<open>the state completeFadeIn has built when it turns to the left-over carry: committed,
      with \<^verbatim>\<open>sectionState.pendingScrollCarry = 0\<close>\<close>
  "commitCleared e w =
     (completeFadeIn_commit e w)\<lparr>sectionState :=
        (sectionState (completeFadeIn_commit e w))\<lparr>pendingScrollCarry := 0\<rparr>\<rparr>"

definition cancelledWorld :: world where
  \<comment> \<open>fadeOutWorld after a wheel event of -100: the fade-out is cancelled\<close>
  "cancelledWorld = cancelTransition repoEnv fadeOutWorld"

section \<open>Properties\<close>

section \<open>Rounding\<close>

lemma powi_nat: "0 \<le> b \<Longrightarrow> (2::real) powi b = 2 ^ nat b"
  by (simp add: power_int_def)

lemma powi_neg_nat: "0 \<le> b \<Longrightarrow> (2::real) powi (- b) = 1 / 2 ^ nat b"
  by (simp add: power_int_def field_simps)

lemma bitlen_ge1: "0 < n \<Longrightarrow> 1 \<le> bitlen n"
  using bitlen_eq_zero_iff [of n] bitlen_nonneg [of n] by linarith

lemma binaryExponent_bounds:
  assumes "0 < x"
  shows "2 powi binaryExponent x \<le> x" and "x < 2 powi (binaryExponent x + 1)"
proof -
  have "2 powi binaryExponent x \<le> x \<and> x < 2 powi (binaryExponent x + 1)"
  proof (cases "x \<ge> 1")
    case True
    define n where "n = \<lfloor>x\<rfloor>"
    have n1: "1 \<le> n" using True by (simp add: n_def le_floor_iff)
    define b where "b = bitlen n"
    have b1: "1 \<le> b" using n1 by (simp add: b_def bitlen_ge1)
    have bb: "2 ^ nat (b - 1) \<le> n" "n < 2 ^ nat b"
      using bitlen_bounds [of n] n1 by (simp_all add: b_def)
    have e: "binaryExponent x = b - 1"
      using True by (simp add: binaryExponent_def n_def b_def)
    have "(2::real) ^ nat (b - 1) \<le> of_int n"
      using bb(1) by (metis of_int_le_iff of_int_numeral of_int_power)
    also have "of_int n \<le> x" by (simp add: n_def)
    finally have lo: "2 powi (b - 1) \<le> x" using b1 by (simp add: powi_nat)
    have "n + 1 \<le> 2 ^ nat b" using bb(2) by simp
    then have "of_int (n + 1) \<le> (2::real) ^ nat b"
      by (metis of_int_le_iff of_int_numeral of_int_power)
    moreover have "x < of_int (n + 1)" by (simp add: n_def)
    ultimately have "x < 2 ^ nat b" by linarith
    then have hi: "x < 2 powi b" using b1 by (simp add: powi_nat)
    show ?thesis using lo hi by (simp add: e)
  next
    case False
    then have x1: "x < 1" by simp
    define m where "m = \<lceil>1 / x\<rceil>"
    have y1: "1 < 1 / x" using assms x1 by simp
    have m2: "2 \<le> m" using y1 by (simp add: m_def less_ceiling_iff)
    define b where "b = bitlen (m - 1)"
    have b1: "1 \<le> b" using m2 by (simp add: b_def bitlen_ge1)
    have bb: "2 ^ nat (b - 1) \<le> m - 1" "m - 1 < 2 ^ nat b"
      using bitlen_bounds [of "m - 1"] m2 by (simp_all add: b_def)
    have e: "binaryExponent x = - b"
      using False by (simp add: binaryExponent_def m_def b_def)
    have ym: "1 / x \<le> of_int m" "of_int m - 1 < 1 / x"
      by (simp_all add: m_def) linarith
    have "m \<le> 2 ^ nat b" using bb(2) by simp
    then have "of_int m \<le> (2::real) ^ nat b"
      by (metis of_int_le_iff of_int_numeral of_int_power)
    with ym(1) have "1 / x \<le> 2 ^ nat b" by linarith
    then have "1 / 2 ^ nat b \<le> x"
      using assms by (simp add: field_simps)
    then have lo: "2 powi (- b) \<le> x" using b1 by (simp add: powi_neg_nat)
    have "(2::real) ^ nat (b - 1) \<le> of_int (m - 1)"
      using bb(1) by (metis of_int_le_iff of_int_numeral of_int_power)
    with ym(2) have "2 ^ nat (b - 1) < 1 / x" by simp
    then have "x < 1 / 2 ^ nat (b - 1)"
      using assms by (simp add: field_simps)
    moreover have "(2::real) powi (- b + 1) = 1 / 2 ^ nat (b - 1)"
      using powi_neg_nat [of "b - 1"] b1 by simp
    ultimately have hi: "x < 2 powi (- b + 1)" by simp
    show ?thesis using lo hi by (simp add: e)
  qed
  then show "2 powi binaryExponent x \<le> x" and "x < 2 powi (binaryExponent x + 1)" by simp_all
qed

lemma binaryExponent_unique:
  assumes "2 powi e \<le> x" and "x < 2 powi (e + 1)"
  shows "binaryExponent x = e"
proof -
  have x0: "0 < x" using assms(1) by (smt (verit) zero_less_power_int)
  note b = binaryExponent_bounds [OF x0]
  have "\<not> binaryExponent x < e"
  proof
    assume "binaryExponent x < e"
    then have "binaryExponent x + 1 \<le> e" by simp
    then have "(2::real) powi (binaryExponent x + 1) \<le> 2 powi e"
      by (intro power_int_increasing) auto
    with b(2) assms(1) show False by linarith
  qed
  moreover have "\<not> e < binaryExponent x"
  proof
    assume "e < binaryExponent x"
    then have "e + 1 \<le> binaryExponent x" by simp
    then have "(2::real) powi (e + 1) \<le> 2 powi binaryExponent x"
      by (intro power_int_increasing) auto
    with b(1) assms(2) show False by linarith
  qed
  ultimately show ?thesis by simp
qed

lemma binaryExponent_mono:
  assumes "0 < x" and "x \<le> y"
  shows "binaryExponent x \<le> binaryExponent y"
proof (rule ccontr)
  assume "\<not> binaryExponent x \<le> binaryExponent y"
  then have "binaryExponent y + 1 \<le> binaryExponent x" by simp
  then have "(2::real) powi (binaryExponent y + 1) \<le> 2 powi binaryExponent x"
    by (intro power_int_increasing) auto
  moreover have "0 < y" using assms by simp
  ultimately show False
    using binaryExponent_bounds(1) [OF assms(1)] binaryExponent_bounds(2) [of y] assms(2)
    by linarith
qed

lemma roundHalfEven_error: "\<bar>of_int (roundHalfEven x) - x\<bar> \<le> 1 / 2"
  by (simp add: roundHalfEven_def Let_def)

lemma roundHalfEven_of_int [simp]: "roundHalfEven (of_int n) = n"
  by (simp add: roundHalfEven_def Let_def)

lemma roundHalfEven_ge: "of_int n \<le> x \<Longrightarrow> n \<le> roundHalfEven x"
proof -
  assume "of_int n \<le> x"
  then have "n \<le> \<lfloor>x\<rfloor>" by (simp add: le_floor_iff)
  then show ?thesis by (simp add: roundHalfEven_def Let_def)
qed

lemma roundHalfEven_le: "x \<le> of_int n \<Longrightarrow> roundHalfEven x \<le> n"
proof -
  assume a: "x \<le> of_int n"
  show ?thesis
  proof (cases "x = of_int n")
    case True then show ?thesis by simp
  next
    case False
    with a have "x < of_int n" by simp
    then have "\<lfloor>x\<rfloor> < n" by (simp add: floor_less_iff)
    then have "\<lfloor>x\<rfloor> + 1 \<le> n" by simp
    then show ?thesis by (simp add: roundHalfEven_def Let_def)
  qed
qed

lemma roundHalfEven_mono:
  assumes "x \<le> y"
  shows "roundHalfEven x \<le> roundHalfEven y"
proof (cases "\<lfloor>x\<rfloor> = \<lfloor>y\<rfloor>")
  case True
  then show ?thesis using assms by (auto simp: roundHalfEven_def Let_def)
next
  case False
  have "\<lfloor>x\<rfloor> \<le> \<lfloor>y\<rfloor>" using assms by (rule floor_mono)
  with False have "\<lfloor>x\<rfloor> + 1 \<le> \<lfloor>y\<rfloor>" by simp
  moreover have "roundHalfEven x \<le> \<lfloor>x\<rfloor> + 1" by (simp add: roundHalfEven_def Let_def)
  moreover have "\<lfloor>y\<rfloor> \<le> roundHalfEven y" by (simp add: roundHalfEven_def Let_def)
  ultimately show ?thesis by linarith
qed

lemma roundToFormat_0 [simp]: "roundToFormat p emin 0 = 0"
  by (simp add: roundToFormat_def)

lemma roundToFormat_minus: "roundToFormat p emin (- x) = - roundToFormat p emin x"
  by (simp add: roundToFormat_def Let_def sgn_minus)

lemma roundToFormat_pos:
  assumes "0 < x"
  shows "roundToFormat p emin x =
     of_int (roundHalfEven (x / 2 powi (max emin (binaryExponent x) - int p + 1)))
       * 2 powi (max emin (binaryExponent x) - int p + 1)"
  using assms by (simp add: roundToFormat_def Let_def)

lemma ulp_pos [simp]: "0 < (2::real) powi k"
  by (simp add: zero_less_power_int)

lemma powi_add2: "(2::real) powi (a + b) = 2 powi a * 2 powi b"
  by (simp add: power_int_add)

lemma pow_times_powi: "(2::real) ^ p * 2 powi k = 2 powi (int p + k)"
  by (simp add: power_int_add)

lemma powi_diff2: "(2::real) powi (a - b) = 2 powi a / 2 powi b"
  by (simp add: power_int_diff)

lemma roundToFormat_nonneg:
  assumes "0 \<le> x"
  shows "0 \<le> roundToFormat p emin x"
proof (cases "x = 0")
  case True then show ?thesis by simp
next
  case False
  with assms have x: "0 < x" by simp
  let ?u = "(2::real) powi (max emin (binaryExponent x) - int p + 1)"
  have "of_int 0 \<le> x / ?u" using x by simp
  then have "0 \<le> roundHalfEven (x / ?u)" by (rule roundHalfEven_ge)
  then show ?thesis by (simp add: roundToFormat_pos [OF x])
qed

lemma roundToFormat_upper:
  assumes "0 < x"
  shows "roundToFormat p emin x \<le> 2 powi (max emin (binaryExponent x) + 1)"
proof -
  let ?e = "max emin (binaryExponent x)"
  let ?u = "(2::real) powi (?e - int p + 1)"
  have "x < 2 powi (binaryExponent x + 1)" by (rule binaryExponent_bounds(2) [OF assms])
  also have "\<dots> \<le> 2 powi (?e + 1)" by (intro power_int_increasing) auto
  finally have "x / ?u < 2 powi (?e + 1) / ?u" by (simp add: divide_strict_right_mono)
  also have "2 powi (?e + 1) / ?u = 2 powi (int p)"
    by (simp add: powi_diff2 [symmetric])
  also have "\<dots> = of_int (2 ^ p)" by simp
  finally have "roundHalfEven (x / ?u) \<le> 2 ^ p"
    by (intro roundHalfEven_le) simp
  then have "of_int (roundHalfEven (x / ?u)) \<le> (2::real) ^ p"
    by (metis of_int_le_iff of_int_numeral of_int_power)
  then have "of_int (roundHalfEven (x / ?u)) * ?u \<le> 2 ^ p * ?u"
    by (intro mult_right_mono) auto
  also have "2 ^ p * ?u = 2 powi (?e + 1)"
    by (simp add: pow_times_powi)
  finally show ?thesis by (simp add: roundToFormat_pos [OF assms])
qed

lemma roundToFormat_lower:
  assumes "0 < x" and "emin \<le> binaryExponent x" and "1 \<le> p"
  shows "2 powi binaryExponent x \<le> roundToFormat p emin x"
proof -
  let ?e = "binaryExponent x"
  let ?u = "(2::real) powi (?e - int p + 1)"
  have m: "max emin ?e = ?e" using assms(2) by simp
  have "2 powi ?e / ?u \<le> x / ?u"
    using binaryExponent_bounds(1) [OF assms(1)] by (simp add: divide_right_mono)
  moreover have "2 powi ?e / ?u = 2 powi (int p - 1)"
    by (simp add: powi_diff2 [symmetric])
  moreover have "(2::real) powi (int p - 1) = of_int (2 ^ (p - 1))"
    using assms(3) by (simp add: power_int_def nat_diff_distrib)
  ultimately have "of_int (2 ^ (p - 1)) \<le> x / ?u" by simp
  then have "2 ^ (p - 1) \<le> roundHalfEven (x / ?u)" by (rule roundHalfEven_ge)
  then have "(2::real) ^ (p - 1) \<le> of_int (roundHalfEven (x / ?u))"
    by (metis of_int_le_iff of_int_numeral of_int_power)
  then have a: "2 ^ (p - 1) * ?u \<le> of_int (roundHalfEven (x / ?u)) * ?u"
    by (intro mult_right_mono) auto
  have "int (p - 1) + (?e - int p + 1) = ?e" using assms(3) by simp
  then have b: "(2::real) ^ (p - 1) * ?u = 2 powi ?e"
    by (simp only: pow_times_powi)
  have c: "roundToFormat p emin x = of_int (roundHalfEven (x / ?u)) * ?u"
    by (simp add: roundToFormat_pos [OF assms(1)] m)
  from a show ?thesis unfolding b c .
qed

lemma roundToFormat_mono_pos:
  assumes "0 < x" and "x \<le> y" and "1 \<le> p"
  shows "roundToFormat p emin x \<le> roundToFormat p emin y"
proof -
  have y: "0 < y" using assms by simp
  let ?ex = "max emin (binaryExponent x)"
  let ?ey = "max emin (binaryExponent y)"
  have le: "?ex \<le> ?ey" using binaryExponent_mono [OF assms(1,2)] by simp
  show ?thesis
  proof (cases "?ex = ?ey")
    case True
    let ?u = "(2::real) powi (?ey - int p + 1)"
    have "x / ?u \<le> y / ?u" using assms(2) by (simp add: divide_right_mono)
    then have "roundHalfEven (x / ?u) \<le> roundHalfEven (y / ?u)" by (rule roundHalfEven_mono)
    then have "of_int (roundHalfEven (x / ?u)) * ?u \<le> of_int (roundHalfEven (y / ?u)) * ?u"
      by (intro mult_right_mono) auto
    then show ?thesis
      using True by (simp add: roundToFormat_pos [OF assms(1)] roundToFormat_pos [OF y])
  next
    case False
    with le have lt: "?ex + 1 \<le> ?ey" by simp
    then have ey: "?ey = binaryExponent y" "emin \<le> binaryExponent y" by auto
    have "roundToFormat p emin x \<le> 2 powi (?ex + 1)" by (rule roundToFormat_upper [OF assms(1)])
    also have "\<dots> \<le> 2 powi ?ey" using lt by (intro power_int_increasing) auto
    also have "\<dots> = 2 powi binaryExponent y" using ey(1) by simp
    also have "\<dots> \<le> roundToFormat p emin y" by (rule roundToFormat_lower [OF y ey(2) assms(3)])
    finally show ?thesis .
  qed
qed

lemma roundToFormat_mono:
  assumes "x \<le> y" and "1 \<le> p"
  shows "roundToFormat p emin x \<le> roundToFormat p emin y"
proof -
  consider "0 < x" | "x \<le> 0" "0 \<le> y" | "y < 0" by linarith
  then show ?thesis
  proof cases
    case 1
    then show ?thesis by (rule roundToFormat_mono_pos [OF _ assms])
  next
    case 2
    have "roundToFormat p emin x = - roundToFormat p emin (- x)"
      using roundToFormat_minus [of p emin "- x"] by simp
    moreover have "0 \<le> roundToFormat p emin (- x)" using 2(1) by (intro roundToFormat_nonneg) simp
    moreover have "0 \<le> roundToFormat p emin y" using 2(2) by (rule roundToFormat_nonneg)
    ultimately show ?thesis by linarith
  next
    case 3
    have "roundToFormat p emin (- y) \<le> roundToFormat p emin (- x)"
      using 3 assms(1) by (intro roundToFormat_mono_pos [OF _ _ assms(2)]) auto
    then show ?thesis by (simp add: roundToFormat_minus)
  qed
qed

lemma roundToFormat_exact:
  assumes "0 < x" and "x / 2 powi (max emin (binaryExponent x) - int p + 1) = of_int k"
  shows "roundToFormat p emin x = x"
proof -
  let ?u = "(2::real) powi (max emin (binaryExponent x) - int p + 1)"
  have "of_int (roundHalfEven (x / ?u)) * ?u = (x / ?u) * ?u"
    by (simp only: assms(2) roundHalfEven_of_int)
  then show ?thesis by (simp add: roundToFormat_pos [OF assms(1)])
qed

lemma roundToFormat_of_nat:
  assumes "n < 2 ^ p" and "emin \<le> 0"
  shows "roundToFormat p emin (real n) = real n"
proof (cases "n = 0")
  case True then show ?thesis by simp
next
  case False
  then have x: "0 < real n" by simp
  let ?e = "binaryExponent (real n)"
  have "(1::real) \<le> real n" using False by simp
  then have "(2::real) powi 0 \<le> real n" by simp
  have e0: "0 \<le> ?e"
  proof (rule ccontr)
    assume "\<not> 0 \<le> ?e"
    then have "?e + 1 \<le> 0" by simp
    then have "(2::real) powi (?e + 1) \<le> 2 powi 0" by (intro power_int_increasing) auto
    with binaryExponent_bounds(2) [OF x] \<open>1 \<le> real n\<close> show False by simp
  qed
  have ep: "?e < int p"
  proof (rule ccontr)
    assume "\<not> ?e < int p"
    then have "int p \<le> ?e" by simp
    then have "(2::real) powi int p \<le> 2 powi ?e" by (intro power_int_increasing) auto
    with binaryExponent_bounds(1) [OF x] have "(2::real) powi int p \<le> real n" by linarith
    then have "(2::real) ^ p \<le> real n" by simp
    moreover have "real n < 2 ^ p" using assms(1) by (metis of_nat_less_iff of_nat_numeral of_nat_power)
    ultimately show False by simp
  qed
  have m: "max emin ?e = ?e" using e0 assms(2) by simp
  define d where "d = nat (int p - 1 - ?e)"
  have "?e - int p + 1 = - (int p - 1 - ?e)" by simp
  then have u: "(2::real) powi (?e - int p + 1) = 1 / 2 ^ d"
    using powi_neg_nat [of "int p - 1 - ?e"] ep by (simp only: d_def)
  have "real n / 2 powi (max emin ?e - int p + 1) = of_int (int n * 2 ^ d)"
    by (simp add: m u)
  then show ?thesis by (rule roundToFormat_exact [OF x])
qed

lemma roundToFormat_error:
  assumes "2 powi emin \<le> \<bar>x\<bar>"
  shows "\<bar>roundToFormat p emin x - x\<bar> \<le> \<bar>x\<bar> / 2 ^ p"
proof -
  have pos: "\<bar>roundToFormat p emin y - y\<bar> \<le> y / 2 ^ p" if y: "2 powi emin \<le> y" for y
  proof -
    have y0: "0 < y" using y by (smt (verit) ulp_pos)
    let ?e = "binaryExponent y"
    have em: "emin \<le> ?e"
    proof (rule ccontr)
      assume "\<not> emin \<le> ?e"
      then have "?e + 1 \<le> emin" by simp
      then have "(2::real) powi (?e + 1) \<le> 2 powi emin" by (intro power_int_increasing) auto
      with binaryExponent_bounds(2) [OF y0] y show False by simp
    qed
    let ?u = "(2::real) powi (?e - int p + 1)"
    have m: "max emin ?e = ?e" using em by simp
    have fl: "roundToFormat p emin y = of_int (roundHalfEven (y / ?u)) * ?u"
      by (simp add: roundToFormat_pos [OF y0] m)
    have "\<bar>of_int (roundHalfEven (y / ?u)) * ?u - y\<bar> = \<bar>of_int (roundHalfEven (y / ?u)) - y / ?u\<bar> * ?u"
    proof -
      have "of_int (roundHalfEven (y / ?u)) * ?u - y = (of_int (roundHalfEven (y / ?u)) - y / ?u) * ?u"
        by (simp add: field_simps)
      then show ?thesis by (simp add: abs_mult)
    qed
    also have "\<dots> \<le> 1 / 2 * ?u"
      by (intro mult_right_mono roundHalfEven_error) auto
    also have "1 / 2 * ?u = 2 powi ?e / 2 ^ p"
    proof -
      have "?u = 2 powi ?e / 2 powi (int p) * 2"
        using powi_add2 [of "?e - int p" 1] by (simp add: powi_diff2)
      then show ?thesis by simp
    qed
    also have "\<dots> \<le> y / 2 ^ p"
      using binaryExponent_bounds(1) [OF y0] by (simp add: divide_right_mono)
    finally show ?thesis by (simp add: fl)
  qed
  show ?thesis
  proof (cases "0 \<le> x")
    case True
    then show ?thesis using pos [of x] assms by simp
  next
    case False
    then have "\<bar>x\<bar> = - x" by simp
    then show ?thesis
      using pos [of "- x"] assms by (simp add: roundToFormat_minus)
  qed
qed

lemma toDouble_0 [simp]: "toDouble 0 = 0"
  by (simp add: toDouble_def)

lemma toFloat32_0 [simp]: "toFloat32 0 = 0"
  by (simp add: toFloat32_def)

lemma toDouble_of_nat: "n < 2 ^ 53 \<Longrightarrow> toDouble (real n) = real n"
  unfolding toDouble_def by (rule roundToFormat_of_nat) simp_all

lemma toFloat32_of_nat: "n < 2 ^ 24 \<Longrightarrow> toFloat32 (real n) = real n"
  unfolding toFloat32_def by (rule roundToFormat_of_nat) simp_all

lemma toDouble_1 [simp]: "toDouble 1 = 1"
  using toDouble_of_nat [of 1] by simp

lemma toFloat32_1 [simp]: "toFloat32 1 = 1"
  using toFloat32_of_nat [of 1] by simp

lemma toDouble_mono: "x \<le> y \<Longrightarrow> toDouble x \<le> toDouble y"
  unfolding toDouble_def by (rule roundToFormat_mono) simp_all

lemma toFloat32_mono: "x \<le> y \<Longrightarrow> toFloat32 x \<le> toFloat32 y"
  unfolding toFloat32_def by (rule roundToFormat_mono) simp_all

lemma toDouble_nonneg: "0 \<le> x \<Longrightarrow> 0 \<le> toDouble x"
  unfolding toDouble_def by (rule roundToFormat_nonneg)

lemma toFloat32_nonneg: "0 \<le> x \<Longrightarrow> 0 \<le> toFloat32 x"
  unfolding toFloat32_def by (rule roundToFormat_nonneg)

lemma toDouble_le_1: "x \<le> 1 \<Longrightarrow> toDouble x \<le> 1"
  using toDouble_mono [of x 1] by simp

lemma toFloat32_le_1: "x \<le> 1 \<Longrightarrow> toFloat32 x \<le> 1"
  using toFloat32_mono [of x 1] by simp

lemma powi_small: "k \<le> - 60 \<Longrightarrow> (2::real) powi k \<le> 1 / 2 ^ 60"
proof -
  assume "k \<le> - 60"
  then have "(2::real) powi k \<le> 2 powi (- 60)" by (intro power_int_increasing) auto
  also have "\<dots> = 1 / 2 ^ 60" using powi_neg_nat [of 60] by simp
  finally show ?thesis .
qed

lemma toDouble_error:
  assumes "1 / 2 ^ 60 \<le> x"
  shows "\<bar>toDouble x - x\<bar> \<le> x / 2 ^ 53"
proof -
  have "(2::real) powi (- 1022) \<le> 1 / 2 ^ 60" by (rule powi_small) simp
  with assms have "2 powi (- 1022) \<le> \<bar>x\<bar>" by simp
  from roundToFormat_error [OF this, of 53] assms show ?thesis
    by (simp add: toDouble_def)
qed

lemma roundToFormat_abs_error:
  assumes "0 < x" and "x < 2 powi k" and "emin < k"
  shows "\<bar>roundToFormat p emin x - x\<bar> \<le> 2 powi (k - int p - 1)"
proof -
  let ?e = "max emin (binaryExponent x)"
  let ?u = "(2::real) powi (?e - int p + 1)"
  have "binaryExponent x < k"
  proof (rule ccontr)
    assume "\<not> binaryExponent x < k"
    then have "(2::real) powi k \<le> 2 powi binaryExponent x" by (intro power_int_increasing) auto
    with binaryExponent_bounds(1) [OF assms(1)] assms(2) show False by simp
  qed
  with assms(3) have e: "?e \<le> k - 1" by simp
  have "\<bar>of_int (roundHalfEven (x / ?u)) * ?u - x\<bar> = \<bar>of_int (roundHalfEven (x / ?u)) - x / ?u\<bar> * ?u"
  proof -
    have "of_int (roundHalfEven (x / ?u)) * ?u - x = (of_int (roundHalfEven (x / ?u)) - x / ?u) * ?u"
      by (simp add: field_simps)
    then show ?thesis by (simp add: abs_mult)
  qed
  also have "\<dots> \<le> 1 / 2 * ?u"
    by (intro mult_right_mono roundHalfEven_error) auto
  also have "1 / 2 * ?u = 2 powi (?e - int p)"
    using powi_add2 [of "?e - int p" 1] by simp
  also have "\<dots> \<le> 2 powi (k - int p - 1)"
    using e by (intro power_int_increasing) auto
  finally show ?thesis by (simp add: roundToFormat_pos [OF assms(1)])
qed

lemma toFloat32_error_unit:
  assumes "0 \<le> x" and "x \<le> 1"
  shows "\<bar>toFloat32 x - x\<bar> \<le> 1 / 2 ^ 25"
proof -
  consider "x = 0" | "x = 1" | "0 < x" "x < 1" using assms by linarith
  then show ?thesis
  proof cases
    case 3
    have "x < 2 powi 0" using 3(2) by simp
    from roundToFormat_abs_error [OF 3(1) this, of "- 126" 24]
    have "\<bar>toFloat32 x - x\<bar> \<le> 2 powi (- 25)" by (simp add: toFloat32_def)
    also have "(2::real) powi (- 25) = 1 / 2 ^ 25" using powi_neg_nat [of 25] by simp
    finally show ?thesis .
  qed simp_all
qed

section \<open>Properties of the resampler\<close>

lemma sampleIndex_le:
  assumes "1 \<le> sourceCount"
  shows "sampleIndex sourceCount keepCount i \<le> sourceCount - 1"
  using assms by (auto simp: sampleIndex_def Let_def)

lemma sampleIndex_mono:
  assumes "1 \<le> sourceCount" "i \<le> j" "j < keepCount"
  shows "sampleIndex sourceCount keepCount i \<le> sampleIndex sourceCount keepCount j"
proof (cases "j = keepCount - 1")
  case True
  then have "sampleIndex sourceCount keepCount j = sourceCount - 1"
    by (simp add: sampleIndex_def)
  then show ?thesis using sampleIndex_le [OF assms(1)] by simp
next
  case False
  with assms have ij: "i \<noteq> keepCount - 1" by auto
  let ?step = "toDouble (real sourceCount / real keepCount)"
  have step: "0 \<le> ?step" by (rule toDouble_nonneg) simp
  have "real i * ?step \<le> real j * ?step"
    using assms(2) step by (intro mult_right_mono) auto
  then have "toDouble (real i * ?step) \<le> toDouble (real j * ?step)" by (rule toDouble_mono)
  then have fl: "nat \<lfloor>toDouble (real i * ?step)\<rfloor> \<le> nat \<lfloor>toDouble (real j * ?step)\<rfloor>"
    by (intro nat_mono floor_mono)
  show ?thesis
    using fl False ij by (auto simp: sampleIndex_def Let_def)
qed

lemma sampleFraction_eq:
  "sampleFraction sourceCount keepCount i =
     toFloat32 (toDouble (real (sampleIndex sourceCount keepCount i) / real (max 1 (sourceCount - 1))))"
  by (simp add: sampleFraction_def Let_def)

lemma sampleFraction_range:
  assumes "1 \<le> sourceCount"
  shows "0 \<le> sampleFraction sourceCount keepCount i \<and> sampleFraction sourceCount keepCount i \<le> 1"
proof -
  let ?f = "real (sampleIndex sourceCount keepCount i) / real (max 1 (sourceCount - 1))"
  have "real (sampleIndex sourceCount keepCount i) \<le> real (max 1 (sourceCount - 1))"
    using sampleIndex_le [OF assms, of keepCount i] by simp
  then have f: "0 \<le> ?f" "?f \<le> 1" by (simp_all add: divide_le_eq_1)
  have "0 \<le> toFloat32 (toDouble ?f)"
    by (intro toFloat32_nonneg toDouble_nonneg f)
  moreover have "toFloat32 (toDouble ?f) \<le> 1"
    by (intro toFloat32_le_1 toDouble_le_1 f)
  ultimately show ?thesis by (simp only: sampleFraction_eq)
qed

lemma sampleFraction_mono:
  assumes "1 \<le> sourceCount" "i \<le> j" "j < keepCount"
  shows "sampleFraction sourceCount keepCount i \<le> sampleFraction sourceCount keepCount j"
  unfolding sampleFraction_eq
  using sampleIndex_mono [OF assms]
  by (intro toFloat32_mono toDouble_mono divide_right_mono) simp_all

lemma sampleFraction_last:
  assumes "1 \<le> sourceCount"
  shows "sampleFraction sourceCount keepCount (keepCount - 1) = (if sourceCount > 1 then 1 else 0)"
  using assms by (auto simp: sampleFraction_eq sampleIndex_def)

lemma sampleIndex_near_floor:
  assumes "1 \<le> s" and "i < k" and "i \<noteq> k - 1" and "s * k \<le> 2 ^ 51"
  shows "int (sampleIndex s k i) = \<lfloor>real i * real s / real k\<rfloor>
       \<or> (k dvd i * s \<and> int (sampleIndex s k i) = \<lfloor>real i * real s / real k\<rfloor> - 1)"
proof -
  define r where "r = real s / real k"
  define step where "step = toDouble r"
  define P where "P = real i * step"
  define Q where "Q = toDouble P"
  define y where "y = real i * r"
  define m where "m = i * s"
  define q where "q = m div k"
  have k1: "1 \<le> k" using assms(2) by simp
  have k0: "0 < real k" using k1 by simp
  have sk: "real s * real k \<le> 2 ^ 51"
    using assms(4) by (metis of_nat_le_iff of_nat_mult of_nat_numeral of_nat_power)
  have s1: "1 \<le> real s" using assms(1) by simp
  have kle: "real k \<le> 2 ^ 51"
  proof -
    have "real k \<le> real s * real k" using s1 k0 by simp
    with sk show ?thesis by simp
  qed
  have ym: "y = real m / real k" by (simp add: y_def r_def m_def)
  have fy: "\<lfloor>y\<rfloor> = int q"
    unfolding ym q_def by (simp add: floor_divide_of_nat_eq)
  have goal_y: "real i * real s / real k = y" by (simp add: y_def r_def)
  have Q0: "0 \<le> Q"
    unfolding Q_def P_def step_def r_def by (intro toDouble_nonneg mult_nonneg_nonneg) simp_all
  have ys: "y < real s"
  proof -
    have "real i * real s < real k * real s"
      using assms(1,2) by (intro mult_strict_right_mono) auto
    then show ?thesis using k0 by (simp add: y_def r_def field_simps)
  qed
  have qs: "q < s"
  proof -
    have "int q \<le> y" using fy by (metis of_int_floor_le of_int_of_nat_eq)
    hence "real q < real s" using ys by simp
    then show ?thesis by simp
  qed
  have near: "\<bar>Q - y\<bar> < 1 / real k \<or> (Q = y)"
  proof (cases "i = 0")
    case True
    then show ?thesis by (simp add: Q_def P_def y_def)
  next
    case False
    then have i1: "1 \<le> real i" by simp
    have rlo: "1 / 2 ^ 51 \<le> r"
    proof -
      have "1 / 2 ^ 51 \<le> 1 / real k" using kle k0 by (simp add: field_simps)
      also have "\<dots> \<le> r" using s1 k0 by (simp add: r_def divide_right_mono)
      finally show ?thesis .
    qed
    have r0: "0 < r" using rlo by (smt (verit) zero_less_divide_1_iff zero_less_numeral zero_less_power)
    have "(1::real) / 2 ^ 60 \<le> 1 / 2 ^ 51" by simp
    with rlo have "1 / 2 ^ 60 \<le> r" by linarith
    from toDouble_error [OF this] have e1: "\<bar>step - r\<bar> \<le> r / 2 ^ 53" by (simp add: step_def)
    have y0: "0 < y" using i1 r0 by (simp add: y_def)
    have py: "\<bar>P - y\<bar> \<le> y / 2 ^ 53"
    proof -
      have "\<bar>P - y\<bar> = real i * \<bar>step - r\<bar>"
        by (simp add: P_def y_def abs_mult right_diff_distrib [symmetric])
      also have "\<dots> \<le> real i * (r / 2 ^ 53)" using e1 by (intro mult_left_mono) auto
      finally show ?thesis by (simp add: y_def)
    qed
    have steplo: "r / 2 \<le> step"
    proof -
      have "r / 2 ^ 53 \<le> r / 2" using r0 by (simp add: field_simps)
      with e1 show ?thesis by linarith
    qed
    have Plo: "1 / 2 ^ 60 \<le> P"
    proof -
      have "(1::real) / 2 ^ 60 \<le> 1 / 2 ^ 51 / 2" by simp
      also have "\<dots> \<le> r / 2" using rlo by simp
      also have "\<dots> \<le> step" by (rule steplo)
      also have "step \<le> real i * step"
        using i1 steplo r0 by (simp add: mult_le_cancel_right1)
      finally show ?thesis by (simp add: P_def)
    qed
    from toDouble_error [OF this] have e2: "\<bar>Q - P\<bar> \<le> P / 2 ^ 53" by (simp add: Q_def)
    have Pup: "P \<le> 2 * y"
    proof -
      have "y / 2 ^ 53 \<le> y" using y0 by (simp add: field_simps)
      with py show ?thesis by linarith
    qed
    have "\<bar>Q - y\<bar> \<le> \<bar>Q - P\<bar> + \<bar>P - y\<bar>" by linarith
    also have "\<dots> \<le> P / 2 ^ 53 + y / 2 ^ 53" using e2 py by linarith
    also have "\<dots> \<le> 2 * y / 2 ^ 53 + y / 2 ^ 53" using Pup by (simp add: divide_right_mono)
    also have "\<dots> < y / 2 ^ 51" using y0 by (simp add: field_simps)
    also have "\<dots> < real s / 2 ^ 51" using ys by (simp add: divide_strict_right_mono)
    also have "\<dots> \<le> 1 / real k" using sk k0 by (simp add: field_simps)
    finally show ?thesis by simp
  qed
  have mq: "q * k \<le> m" "m < (q + 1) * k"
    using k1 by (simp_all add: q_def div_times_less_eq_dividend less_mult_imp_div_less dividend_less_times_div mult.commute)
  have up: "Q < real q + 1"
  proof -
    have "real m + 1 \<le> (real q + 1) * real k"
    proof -
      have "m + 1 \<le> (q + 1) * k" using mq(2) by simp
      then have "real (m + 1) \<le> real ((q + 1) * k)" by (simp only: of_nat_le_iff)
      then show ?thesis by (simp add: algebra_simps)
    qed
    then have "(real m + 1) / real k \<le> real q + 1"
      using k0 by (simp add: field_simps)
    moreover have "Q < (real m + 1) / real k"
      using near k0 by (auto simp: ym add_divide_distrib)
    ultimately show ?thesis by linarith
  qed
  then have flup: "\<lfloor>Q\<rfloor> \<le> int q"
    by (simp add: floor_le_iff)
  have small: "nat \<lfloor>Q\<rfloor> < s" using flup qs by linarith
  have idx: "sampleIndex s k i = nat \<lfloor>Q\<rfloor>"
    using small assms(3)
    by (simp add: sampleIndex_def Let_def Q_def P_def step_def r_def)
  have fl0: "0 \<le> \<lfloor>Q\<rfloor>" using Q0 by simp
  have idx_int: "int (sampleIndex s k i) = \<lfloor>Q\<rfloor>" using idx fl0 by simp
  show ?thesis
  proof (cases "k dvd m")
    case True
    then have "m = q * k" by (simp add: q_def)
    then have yq: "y = real q" using k0 by (simp add: ym)
    have "real q - 1 < Q"
    proof -
      have "1 / real k \<le> 1" using k1 by simp
      with near yq show ?thesis by auto
    qed
    then have "int q - 1 \<le> \<lfloor>Q\<rfloor>" by (simp add: le_floor_iff)
    with flup have "\<lfloor>Q\<rfloor> = int q \<or> \<lfloor>Q\<rfloor> = int q - 1" by linarith
    then show ?thesis
      using True by (auto simp: idx_int goal_y fy m_def)
  next
    case False
    then have "m mod k \<noteq> 0" by (simp add: dvd_eq_mod_eq_0)
    then have "1 \<le> m mod k" by simp
    moreover have "m = q * k + m mod k" by (simp add: q_def)
    ultimately have "q * k + 1 \<le> m" by linarith
    then have "real (q * k + 1) \<le> real m" by (simp only: of_nat_le_iff)
    then have "real q * real k + 1 \<le> real m" by simp
    then have "real q \<le> (real m - 1) / real k"
      using k0 by (simp add: field_simps)
    moreover have "(real m - 1) / real k < Q \<or> Q = y"
      using near k0 by (auto simp: ym diff_divide_distrib)
    moreover have "real q \<le> y" using fy by (metis of_int_floor_le of_int_of_nat_eq)
    ultimately have "real q \<le> Q" by auto
    then have "int q \<le> \<lfloor>Q\<rfloor>" by (simp add: le_floor_iff)
    with flup have "\<lfloor>Q\<rfloor> = int q" by simp
    then show ?thesis by (simp add: idx_int goal_y fy)
  qed
qed

lemma targetIndexOf_zero: "1 \<le> s \<Longrightarrow> targetIndexOf 0 s = 0"
  by (simp add: targetIndexOf_def Let_def)

lemma targetIndexOf_sampleFraction:
  assumes "1 \<le> s" and "s \<le> 2 ^ 24"
  shows "targetIndexOf (clamp (sampleFraction s k i) 0 1) s = sampleIndex s k i"
proof -
  define idx where "idx = sampleIndex s k i"
  define D where "D = max 1 (s - 1)"
  define f where "f = real idx / real D"
  define a where "a = toDouble f"
  define F where "F = toFloat32 a"
  have le: "idx \<le> s - 1" unfolding idx_def by (rule sampleIndex_le [OF assms(1)])
  have Feq: "sampleFraction s k i = F"
    by (simp add: sampleFraction_eq F_def a_def f_def idx_def D_def)
  have cl: "clamp (sampleFraction s k i) 0 1 = sampleFraction s k i"
    using sampleFraction_range [OF assms(1), of k i] by (simp add: clamp_def)
  show ?thesis
  proof (cases "idx = 0")
    case True
    then have "F = 0" by (simp add: F_def a_def f_def)
    then show ?thesis
      using True assms(1) by (simp add: cl Feq targetIndexOf_zero idx_def [symmetric] clamp_def)
  next
    case False
    then have i1: "1 \<le> real idx" by simp
    from False le have s2: "2 \<le> s" by simp
    then have D: "D = s - 1" "real D = real s - 1" "1 \<le> real D" by (auto simp: D_def)
    have "s - 1 < 2 ^ 24" using assms(2) s2 by simp
    then have "real (s - 1) < 2 ^ 24"
      by (metis of_nat_less_iff of_nat_numeral of_nat_power)
    then have Dup: "real D \<le> 2 ^ 24 - 1"
    proof -
      have "s - 1 + 1 \<le> 2 ^ 24" using assms(2) s2 by simp
      then have "real (s - 1 + 1) \<le> 2 ^ 24"
        by (metis of_nat_le_iff of_nat_numeral of_nat_power)
      then show ?thesis by (simp add: D(1))
    qed
    have idxD: "real idx \<le> real D" using le by (simp add: D(1))
    have f01: "0 < f" "f \<le> 1"
      using i1 idxD D(3) by (simp_all add: f_def)
    have fD: "f * real D = real idx" using D(3) by (simp add: f_def)
    have flo: "1 / 2 ^ 24 \<le> f"
    proof -
      have "1 / 2 ^ 24 \<le> 1 / real D" using Dup D(3) by (simp add: field_simps)
      also have "\<dots> \<le> f" using i1 D(3) by (simp add: f_def divide_right_mono)
      finally show ?thesis .
    qed
    have "(1::real) / 2 ^ 60 \<le> 1 / 2 ^ 24" by simp
    with flo have "1 / 2 ^ 60 \<le> f" by linarith
    from toDouble_error [OF this] have ea: "\<bar>a - f\<bar> \<le> f / 2 ^ 53" by (simp add: a_def)
    have "f / 2 ^ 53 \<le> 1 / 2 ^ 53" using f01 by (simp add: divide_right_mono)
    with ea have ea': "\<bar>a - f\<bar> \<le> 1 / 2 ^ 53" by linarith
    have a01: "0 \<le> a" "a \<le> 1"
      unfolding a_def using f01 by (simp_all add: toDouble_nonneg toDouble_le_1)
    from toFloat32_error_unit [OF a01] have eF: "\<bar>F - a\<bar> \<le> 1 / 2 ^ 25" by (simp add: F_def)
    have F01: "0 \<le> F" "F \<le> 1"
      unfolding F_def using a01 by (simp_all add: toFloat32_nonneg toFloat32_le_1)
    have Flo: "1 / 2 ^ 26 \<le> F"
    proof -
      have "a - 1 / 2 ^ 25 \<le> F" using eF by linarith
      moreover have "f - 1 / 2 ^ 53 \<le> a" using ea' by linarith
      moreover have "(1::real) / 2 ^ 26 \<le> 1 / 2 ^ 24 - 1 / 2 ^ 53 - 1 / 2 ^ 25" by simp
      ultimately show ?thesis using flo by linarith
    qed
    define X where "X = F * real D"
    define T where "T = toDouble X"
    have Xlo: "1 / 2 ^ 60 \<le> X"
    proof -
      have "(1::real) / 2 ^ 60 \<le> 1 / 2 ^ 26" by simp
      also have "\<dots> \<le> F" by (rule Flo)
      also have "F \<le> F * real D" using F01 D(3) by (simp add: mult_le_cancel_left1)
      finally show ?thesis by (simp add: X_def)
    qed
    from toDouble_error [OF this] have eT: "\<bar>T - X\<bar> \<le> X / 2 ^ 53" by (simp add: T_def)
    have XD: "X \<le> real D" using F01 D(3) by (simp add: X_def mult_le_cancel_right2)
    then have "X / 2 ^ 53 \<le> real D / 2 ^ 53" by (simp add: divide_right_mono)
    with eT have eT': "\<bar>T - X\<bar> \<le> real D / 2 ^ 53" by linarith
    have eX: "\<bar>X - real idx\<bar> \<le> real D * (1 / 2 ^ 25 + 1 / 2 ^ 53)"
    proof -
      have "X - real idx = (F - f) * real D" by (simp add: X_def fD [symmetric] left_diff_distrib)
      then have "\<bar>X - real idx\<bar> = \<bar>F - f\<bar> * real D" using D(3) by (simp add: abs_mult)
      moreover have "\<bar>F - f\<bar> \<le> 1 / 2 ^ 25 + 1 / 2 ^ 53" using eF ea' by linarith
      ultimately show ?thesis using D(3) by (simp add: mult.commute mult_left_mono)
    qed
    have "\<bar>T - real idx\<bar> \<le> real D / 2 ^ 53 + real D * (1 / 2 ^ 25 + 1 / 2 ^ 53)"
      using eT' eX by linarith
    also have "\<dots> = real D * (1 / 2 ^ 25 + 1 / 2 ^ 52)" by (simp add: field_simps)
    also have "\<dots> \<le> (2 ^ 24 - 1) * (1 / 2 ^ 25 + 1 / 2 ^ 52)"
      using Dup by (intro mult_right_mono) auto
    also have "\<dots> < 1 / 2" by simp
    finally have close: "\<bar>T - real idx\<bar> < 1 / 2" .
    have "T - 1 / 2 < real idx" "real idx \<le> T + 1 / 2"
      using close by linarith+
    then have "round T = int idx"
      by (intro round_unique) simp_all
    moreover have "T = toDouble (F * (real s - 1))" by (simp add: T_def X_def D(2))
    ultimately have r: "round (toDouble (F * (real s - 1))) = int idx" by simp
    have clF: "clamp F 0 1 = F" using F01 by (simp add: clamp_def)
    have "idx < s" using le s2 by simp
    then show ?thesis
      by (simp add: Feq clF targetIndexOf_def Let_def r idx_def [symmetric])
  qed
qed

lemma length_concat_point3:
  "length (concat (map (\<lambda>i. point3 arr st (f i)) [0..<n])) = n * 3"
  by (induction n) (simp_all add: point3_def)

lemma length_concat_point3':
  "length (concat (map (\<lambda>i. point3 arr st (f i)) [0..<n])) = 3 * n"
  by (simp add: length_concat_point3)

lemma point3_0 [simp]: "point3 arr st off ! 0 = at0 arr off"
  by (simp add: point3_def)

lemma nth_concat_point3:
  assumes "i < n"
  shows "concat (map (\<lambda>i. point3 arr st (f i)) [0..<n]) ! (3 * i) = at0 arr (f i)"
  using assms
proof (induction n)
  case 0
  then show ?case by simp
next
  case (Suc n)
  show ?case
  proof (cases "i < n")
    case True
    then have "3 * i < 3 * n" by simp
    then show ?thesis
      using Suc.IH [OF True] by (simp add: nth_append length_concat_point3')
  next
    case False
    with Suc.prems have "i = n" by simp
    then show ?thesis
      by (simp add: nth_append length_concat_point3')
  qed
qed

lemma computeSampleFractions_eq:
  assumes "position g = Some srcPos" and "1 \<le> count srcPos" and "1 \<le> keepCount"
  shows "computeSampleFractions (Some g) keepCount
           = Some (map (sampleFraction (count srcPos) keepCount) [0..<keepCount])"
  using assms by (simp add: computeSampleFractions_def)

text \<open>
  C7, as the code has it. For keepCount \<ge> 1 and a source geometry with sourceCount \<ge> 1
  points, computeSampleFractions returns an array of length keepCount; every entry lies in
  [0,1]; the entries are non-decreasing; the last entry is 1 when sourceCount > 1 and 0 when
  sourceCount = 1. The entry of slot i is index / max(1, sourceCount - 1), rounded to a
  double and stored as a float32, where index is sourceCount - 1 for the last slot. For
  every other slot, index is the floor of the double product of i and the double quotient
  sourceCount / keepCount: when sourceCount * keepCount \<le> 2^51 this is
  floor(i * sourceCount / keepCount), except that it may be one less when
  i * sourceCount / keepCount is an integer.
\<close>

theorem computeSampleFractions_spec:
  assumes "position g = Some srcPos" and "1 \<le> count srcPos" and "1 \<le> keepCount"
  shows "\<exists>fractions. computeSampleFractions (Some g) keepCount = Some fractions
           \<and> length fractions = keepCount
           \<and> (\<forall>i < keepCount. 0 \<le> fractions ! i \<and> fractions ! i \<le> 1)
           \<and> sorted fractions
           \<and> last fractions = (if count srcPos > 1 then 1 else 0)
           \<and> (\<forall>i < keepCount. fractions ! i =
                 toFloat32 (toDouble (real (sampleIndex (count srcPos) keepCount i)
                                        / real (max 1 (count srcPos - 1)))))
           \<and> sampleIndex (count srcPos) keepCount (keepCount - 1) = count srcPos - 1
           \<and> (count srcPos * keepCount \<le> 2 ^ 51 \<longrightarrow>
                (\<forall>i < keepCount. i \<noteq> keepCount - 1 \<longrightarrow>
                   int (sampleIndex (count srcPos) keepCount i)
                     = \<lfloor>real i * real (count srcPos) / real keepCount\<rfloor>
                 \<or> (keepCount dvd i * count srcPos
                    \<and> int (sampleIndex (count srcPos) keepCount i)
                        = \<lfloor>real i * real (count srcPos) / real keepCount\<rfloor> - 1)))"
proof -
  let ?s = "count srcPos"
  let ?fs = "map (sampleFraction ?s keepCount) [0..<keepCount]"
  have eq: "computeSampleFractions (Some g) keepCount = Some ?fs"
    by (rule computeSampleFractions_eq [OF assms])
  have len: "length ?fs = keepCount" by simp
  have rng: "\<forall>i < keepCount. 0 \<le> ?fs ! i \<and> ?fs ! i \<le> 1"
    using sampleFraction_range [OF assms(2)] by simp
  have srt: "sorted ?fs"
    unfolding sorted_iff_nth_mono
    using sampleFraction_mono [OF assms(2)] by simp
  have ne: "?fs \<noteq> []" using assms(3) by simp
  have lst: "last ?fs = (if ?s > 1 then 1 else 0)"
    using assms(3) sampleFraction_last [OF assms(2), of keepCount]
    by (simp add: last_conv_nth [OF ne])
  have ent: "\<forall>i < keepCount. ?fs ! i =
       toFloat32 (toDouble (real (sampleIndex ?s keepCount i) / real (max 1 (?s - 1))))"
    by (simp add: sampleFraction_eq)
  have lastIdx: "sampleIndex ?s keepCount (keepCount - 1) = ?s - 1"
    by (simp add: sampleIndex_def)
  have idx: "?s * keepCount \<le> 2 ^ 51 \<longrightarrow>
       (\<forall>i < keepCount. i \<noteq> keepCount - 1 \<longrightarrow>
          int (sampleIndex ?s keepCount i) = \<lfloor>real i * real ?s / real keepCount\<rfloor>
        \<or> (keepCount dvd i * ?s
           \<and> int (sampleIndex ?s keepCount i) = \<lfloor>real i * real ?s / real keepCount\<rfloor> - 1))"
    using sampleIndex_near_floor [OF assms(2)] by blast
  show ?thesis using eq len rng srt lst ent lastIdx idx by blast
qed

lemma cloud30_position:
  "position cloud30 = Some (BufferAttribute (replicate 90 0) 3)"
  "count (BufferAttribute (replicate 90 0) 3) = 30"
  by (simp_all add: cloud30_def BufferAttribute_def)

lemma slot11: "sampleIndex 30 22 11 = 14"
  by code_simp

theorem computeSampleFractions_spec_witness:
  "position cloud30 = Some (BufferAttribute (replicate 90 0) 3)
   \<and> 1 \<le> count (BufferAttribute (replicate 90 0) 3) \<and> (1::nat) \<le> 22
   \<and> count (BufferAttribute (replicate 90 0) 3) * 22 \<le> 2 ^ 51
   \<and> (11::nat) < 22 \<and> (11::nat) \<noteq> 22 - 1
   \<and> (\<exists>fractions. computeSampleFractions (Some cloud30) 22 = Some fractions
        \<and> length fractions = 22 \<and> sorted fractions \<and> last fractions = 1
        \<and> fractions ! 11 = toFloat32 (toDouble (14 / 29)))
   \<and> (22::nat) dvd 11 * 30
   \<and> int (sampleIndex 30 22 11) = \<lfloor>real 11 * real 30 / real 22\<rfloor> - 1"
proof -
  have h1: "position cloud30 = Some (BufferAttribute (replicate 90 0) 3)"
    by (rule cloud30_position(1))
  have c: "count (BufferAttribute (replicate 90 0) 3) = 30" by (rule cloud30_position(2))
  have h2: "1 \<le> count (BufferAttribute (replicate 90 0) 3)" by (simp add: c)
  have h3: "(1::nat) \<le> 22" by simp
  have h4: "count (BufferAttribute (replicate 90 0) 3) * 22 \<le> 2 ^ 51" by (simp add: c)
  from computeSampleFractions_spec [OF h1 h2 h3]
  obtain fractions where f: "computeSampleFractions (Some cloud30) 22 = Some fractions"
    "length fractions = 22" "sorted fractions"
    "last fractions = (if count (BufferAttribute (replicate 90 0) 3) > 1 then 1 else 0)"
    "\<forall>i < 22. fractions ! i =
       toFloat32 (toDouble (real (sampleIndex (count (BufferAttribute (replicate 90 0) 3)) 22 i)
          / real (max 1 (count (BufferAttribute (replicate 90 0) 3) - 1))))"
    "count (BufferAttribute (replicate 90 0) 3) * 22 \<le> 2 ^ 51 \<longrightarrow>
       (\<forall>i < 22. i \<noteq> 22 - 1 \<longrightarrow>
          int (sampleIndex (count (BufferAttribute (replicate 90 0) 3)) 22 i)
            = \<lfloor>real i * real (count (BufferAttribute (replicate 90 0) 3)) / real (22::nat)\<rfloor>
        \<or> ((22::nat) dvd i * count (BufferAttribute (replicate 90 0) 3)
           \<and> int (sampleIndex (count (BufferAttribute (replicate 90 0) 3)) 22 i)
               = \<lfloor>real i * real (count (BufferAttribute (replicate 90 0) 3)) / real (22::nat)\<rfloor> - 1))"
    by blast
  have e: "fractions ! 11 = toFloat32 (toDouble (14 / 29))"
    using f(5) by (simp add: c slot11)
  have fl: "\<lfloor>real 11 * real 30 / real 22\<rfloor> = (15::int)" by simp
  have d: "(22::nat) dvd 11 * 30" by simp
  have i: "int (sampleIndex 30 22 11) = \<lfloor>real 11 * real 30 / real 22\<rfloor> - 1"
    by (simp add: slot11)
  from f(1-4) e have "\<exists>fractions. computeSampleFractions (Some cloud30) 22 = Some fractions
        \<and> length fractions = 22 \<and> sorted fractions \<and> last fractions = 1
        \<and> fractions ! 11 = toFloat32 (toDouble (14 / 29))"
    by (simp add: c)
  then show ?thesis using h1 h2 h3 h4 d i by simp
qed

theorem slot_index_below_exact_floor:
  "sampleIndex 30 22 11 = 14
   \<and> \<lfloor>real 11 * real 30 / real 22\<rfloor> = (15::int)
   \<and> computeSampleFractions (Some cloud30) 22 = Some (map (sampleFraction 30 22) [0..<22])
   \<and> sampleFraction 30 22 11 = toFloat32 (toDouble (14 / 29))"
proof -
  have a: "sampleIndex 30 22 11 = 14" by code_simp
  have b: "\<lfloor>real 11 * real 30 / real 22\<rfloor> = (15::int)" by simp
  have c: "computeSampleFractions (Some cloud30) 22 = Some (map (sampleFraction 30 22) [0..<22])"
    using computeSampleFractions_eq [OF cloud30_position(1), of 22]
    by (simp add: cloud30_position(2))
  have d: "sampleFraction 30 22 11 = toFloat32 (toDouble (14 / 29))"
    by (simp add: sampleFraction_eq a)
  from a b c d show ?thesis by simp
qed

lemma keepCountOf_pos: "1 \<le> s \<Longrightarrow> 1 \<le> keepCountOf s r"
proof -
  assume s: "1 \<le> s"
  have "(1::int) \<le> max 1 \<lfloor>toDouble (real s * r)\<rfloor>" by simp
  then have "1 \<le> nat (max 1 \<lfloor>toDouble (real s * r)\<rfloor>)" by linarith
  then show ?thesis using s by (simp add: keepCountOf_def)
qed

lemma count_BufferAttribute_point3:
  "count (BufferAttribute (concat (map (\<lambda>i. point3 arr st (f i)) [0..<n])) 3) = n"
  by (simp add: BufferAttribute_def length_concat_point3)

lemma createPointGeometry_position:
  assumes "position A = Some srcPos" "1 \<le> count srcPos"
  shows "\<exists>G. createPointGeometry (Some A) tgt keepRatio = Some G
     \<and> position G = Some (BufferAttribute (concat (map (\<lambda>i.
              point3 (array srcPos) (stride srcPos)
                (sampleIndex (count srcPos) (keepCountOf (count srcPos) keepRatio) i * stride srcPos))
              [0..<keepCountOf (count srcPos) keepRatio])) 3)
     \<and> (\<exists>m. morphTarget G = Some m \<and> count m = keepCountOf (count srcPos) keepRatio)"
  using assms
  by (auto simp: createPointGeometry_def Let_def count_BufferAttribute_point3 split: option.splits prod.splits)

lemma self_resample_array:
  assumes "position A = Some srcPos" and "1 \<le> count srcPos"
    and "morphTarget G = Some m" and "count m = k" and "1 \<le> k"
  shows "generateMorphTargetArrayWithFractions (Some G) (Some A) (computeSampleFractions (Some A) k)
     = Some (concat (map (\<lambda>i. point3 (array srcPos) (stride srcPos)
           (targetIndexOf (clamp (sampleFraction (count srcPos) k i) 0 1) (count srcPos)
              * stride srcPos)) [0..<k]))"
proof -
  let ?s = "count srcPos"
  have fr: "computeSampleFractions (Some A) k = Some (map (sampleFraction ?s k) [0..<k])"
    by (rule computeSampleFractions_eq [OF assms(1,2,5)])
  have maps: "map (\<lambda>i. point3 (array srcPos) (stride srcPos)
        (targetIndexOf (clamp (map (sampleFraction ?s k) [0..<k] ! i) 0 1) ?s * stride srcPos)) [0..<k]
      = map (\<lambda>i. point3 (array srcPos) (stride srcPos)
        (targetIndexOf (clamp (sampleFraction ?s k i) 0 1) ?s * stride srcPos)) [0..<k]"
    by (intro map_cong) auto
  show ?thesis
    unfolding fr
    using assms(1-4) by (simp add: generateMorphTargetArrayWithFractions_def Let_def maps)
qed

text \<open>
  C8, as the code has it. Round trip, for a cloud A of at most 2^24 points: downsampling A
  with createPointGeometry gives N slot positions; resampling A itself by the sample
  fractions of those N slots (computeSampleFractions of A and N, the table the program keeps
  for the displayed cloud) with generateMorphTargetArrayWithFractions gives exactly the same
  N positions. The fractions are float32 numbers: up to 2^24 points the rounded fraction of
  a slot still maps back to the index it came from.
\<close>

theorem self_resample_roundtrip:
  assumes "position A = Some srcPos" and "1 \<le> count srcPos" and "count srcPos \<le> 2 ^ 24"
  shows "\<exists>G posAttr. createPointGeometry (Some A) tgt keepRatio = Some G
           \<and> position G = Some posAttr
           \<and> count posAttr = keepCountOf (count srcPos) keepRatio
           \<and> generateMorphTargetArrayWithFractions (Some G) (Some A)
                (computeSampleFractions (Some A) (count posAttr)) = Some (array posAttr)"
proof -
  let ?s = "count srcPos"
  let ?k = "keepCountOf ?s keepRatio"
  let ?pos = "concat (map (\<lambda>i. point3 (array srcPos) (stride srcPos)
                (sampleIndex ?s ?k i * stride srcPos)) [0..<?k])"
  obtain G m where G: "createPointGeometry (Some A) tgt keepRatio = Some G"
    and pG: "position G = Some (BufferAttribute ?pos 3)"
    and mG: "morphTarget G = Some m" "count m = ?k"
    using createPointGeometry_position [OF assms(1,2), of tgt keepRatio] by blast
  have cnt: "count (BufferAttribute ?pos 3) = ?k"
    by (rule count_BufferAttribute_point3)
  have k1: "1 \<le> ?k" using assms(2) by (rule keepCountOf_pos)
  have maps: "map (\<lambda>i. point3 (array srcPos) (stride srcPos)
        (targetIndexOf (clamp (sampleFraction ?s ?k i) 0 1) ?s * stride srcPos)) [0..<?k]
      = map (\<lambda>i. point3 (array srcPos) (stride srcPos) (sampleIndex ?s ?k i * stride srcPos)) [0..<?k]"
    by (simp add: targetIndexOf_sampleFraction [OF assms(2,3)])
  have "generateMorphTargetArrayWithFractions (Some G) (Some A)
          (computeSampleFractions (Some A) ?k) = Some ?pos"
    by (simp add: self_resample_array [OF assms(1,2) mG k1] maps)
  then show ?thesis using G pG cnt by (simp add: BufferAttribute_def)
qed

theorem self_resample_roundtrip_witness:
  "position cloud3 = Some (BufferAttribute [0,0,0, 1,2,3, 4,5,6] 3)
   \<and> 1 \<le> count (BufferAttribute [0,0,0, 1,2,3, 4,5,6] 3)
   \<and> count (BufferAttribute [0,0,0, 1,2,3, 4,5,6] 3) \<le> 2 ^ 24
   \<and> (\<exists>G posAttr. createPointGeometry (Some cloud3) None (3/4) = Some G
        \<and> position G = Some posAttr
        \<and> generateMorphTargetArrayWithFractions (Some G) (Some cloud3)
             (computeSampleFractions (Some cloud3) (count posAttr)) = Some (array posAttr))"
proof -
  have h1: "position cloud3 = Some (BufferAttribute [0,0,0, 1,2,3, 4,5,6] 3)"
    by (simp add: cloud3_def)
  have h2: "1 \<le> count (BufferAttribute [0,0,0, 1,2,3, 4,5,6] 3)"
    by (simp add: BufferAttribute_def)
  have h3: "count (BufferAttribute [0,0,0, 1,2,3, 4,5,6] 3) \<le> 2 ^ 24"
    by (simp add: BufferAttribute_def)
  from self_resample_roundtrip [OF h1 h2 h3, of None "3/4"]
  show ?thesis using h1 h2 h3 by blast
qed

lemma length_concat_parity:
  "length (concat (map (\<lambda>j. [real (j mod 2), 0, 0]) [0..<n])) = 3 * n"
  by (induction n) simp_all

lemma nth_concat_parity:
  assumes "j < n"
  shows "concat (map (\<lambda>j. [real (j mod 2), 0, 0]) [0..<n]) ! (3 * j) = real (j mod 2)"
  using assms
proof (induction n)
  case 0
  then show ?case by simp
next
  case (Suc n)
  show ?case
  proof (cases "j < n")
    case True
    then have "3 * j < 3 * n" by simp
    then show ?thesis
      using Suc.IH [OF True] by (simp add: nth_append length_concat_parity)
  next
    case False
    with Suc.prems have "j = n" by simp
    then show ?thesis
      by (simp add: nth_append length_concat_parity)
  qed
qed

lemma cloud17M_position:
  "position cloud17M = Some (BufferAttribute
       (concat (map (\<lambda>j. [real (j mod 2), 0, 0]) [0..<17000000])) 3)"
  "count (BufferAttribute (concat (map (\<lambda>j. [real (j mod 2), 0, 0]) [0..<17000000])) 3) = 17000000"
  "stride (BufferAttribute (concat (map (\<lambda>j. [real (j mod 2), 0, 0]) [0..<17000000])) 3) = 3"
  "array (BufferAttribute (concat (map (\<lambda>j. [real (j mod 2), 0, 0]) [0..<17000000])) 3)
     = concat (map (\<lambda>j. [real (j mod 2), 0, 0]) [0..<17000000])"
  by (simp_all add: cloud17M_def BufferAttribute_def stride_def length_concat_parity)

lemma cloud17M_at:
  assumes "j < 17000000"
  shows "at0 (concat (map (\<lambda>j. [real (j mod 2), 0, 0]) [0..<17000000])) (j * 3) = real (j mod 2)"
proof -
  have "j * 3 < 3 * 17000000" using assms by simp
  then show ?thesis
    using nth_concat_parity [OF assms]
    by (simp add: at0_def length_concat_parity mult.commute)
qed

lemma array_BufferAttribute [simp]: "array (BufferAttribute xs n) = xs"
  by (simp add: BufferAttribute_def)

lemma createPointGeometry_slot:
  assumes "position A = Some srcPos" and "1 \<le> count srcPos"
    and "i < keepCountOf (count srcPos) keepRatio"
  shows "array (the (position (the (createPointGeometry (Some A) tgt keepRatio)))) ! (3 * i)
     = at0 (array srcPos)
         (sampleIndex (count srcPos) (keepCountOf (count srcPos) keepRatio) i * stride srcPos)"
proof -
  obtain G where G: "createPointGeometry (Some A) tgt keepRatio = Some G"
    and pG: "position G = Some (BufferAttribute (concat (map (\<lambda>i.
              point3 (array srcPos) (stride srcPos)
                (sampleIndex (count srcPos) (keepCountOf (count srcPos) keepRatio) i * stride srcPos))
              [0..<keepCountOf (count srcPos) keepRatio])) 3)"
    using createPointGeometry_position [OF assms(1,2), of tgt keepRatio] by blast
  show ?thesis
    unfolding G option.sel pG array_BufferAttribute by (rule nth_concat_point3 [OF assms(3)])
qed

lemma self_resample_slot:
  assumes "position A = Some srcPos" and "1 \<le> count srcPos"
    and "i < keepCountOf (count srcPos) keepRatio"
  shows "the (generateMorphTargetArrayWithFractions (createPointGeometry (Some A) tgt keepRatio)
            (Some A) (computeSampleFractions (Some A) (keepCountOf (count srcPos) keepRatio)))
           ! (3 * i)
     = at0 (array srcPos)
         (targetIndexOf (clamp (sampleFraction (count srcPos)
              (keepCountOf (count srcPos) keepRatio) i) 0 1) (count srcPos) * stride srcPos)"
proof -
  obtain G m where G: "createPointGeometry (Some A) tgt keepRatio = Some G"
    and mG: "morphTarget G = Some m" "count m = keepCountOf (count srcPos) keepRatio"
    using createPointGeometry_position [OF assms(1,2), of tgt keepRatio] by blast
  have k1: "1 \<le> keepCountOf (count srcPos) keepRatio" using assms(2) by (rule keepCountOf_pos)
  show ?thesis
    unfolding G self_resample_array [OF assms(1,2) mG k1] option.sel
    by (rule nth_concat_point3 [OF assms(3)])
qed

lemma keep17M: "keepCountOf 17000000 1 = 17000000"
  using toDouble_le_1 [of "0.999"] by (simp add: keepCountOf_def)

lemma fraction17M: "toFloat32 (toDouble (8500076 / 16999999)) = 8388683 / 16777216"
  by code_simp

lemma product17M: "round (toDouble (8388683 / 16777216 * 16999999)) = 8500075"
  by code_simp

lemma product17M_norm: "round (toDouble (142607602611317 / 16777216)) = 8500075"
  using product17M by simp

lemma index17M: "toDouble 8500076 = 8500076"
  using toDouble_of_nat [of 8500076] by simp

lemma slot17M:
  "sampleIndex 17000000 17000000 8500076 = 8500076"
  "targetIndexOf (clamp (sampleFraction 17000000 17000000 8500076) 0 1) 17000000 = 8500075"
proof -
  show a: "sampleIndex 17000000 17000000 8500076 = 8500076"
    by (simp add: sampleIndex_def Let_def index17M)
  have f: "sampleFraction 17000000 17000000 8500076 = 8388683 / 16777216"
    by (simp add: sampleFraction_eq a fraction17M)
  show "targetIndexOf (clamp (sampleFraction 17000000 17000000 8500076) 0 1) 17000000 = 8500075"
    by (simp add: f clamp_def targetIndexOf_def Let_def product17M_norm)
qed

theorem self_resample_moves_slot:
  "keepCountOf 17000000 1 = 17000000
   \<and> sampleIndex 17000000 17000000 8500076 = 8500076
   \<and> targetIndexOf (clamp (sampleFraction 17000000 17000000 8500076) 0 1) 17000000 = 8500075
   \<and> array (the (position (the (createPointGeometry (Some cloud17M) None 1)))) ! (3 * 8500076) = 0
   \<and> the (generateMorphTargetArrayWithFractions (createPointGeometry (Some cloud17M) None 1)
            (Some cloud17M) (computeSampleFractions (Some cloud17M) 17000000)) ! (3 * 8500076) = 1"
proof -
  let ?arr = "concat (map (\<lambda>j. [real (j mod 2), 0, 0]) [0..<17000000])"
  let ?srcPos = "BufferAttribute ?arr 3"
  note p = cloud17M_position
  have s1: "1 \<le> count ?srcPos" by (simp add: p(2))
  have i: "8500076 < keepCountOf (count ?srcPos) 1" by (simp add: p(2) keep17M)
  have i': "(8500076::nat) < 17000000" by simp
  have j': "(8500075::nat) < 17000000" by simp
  have at1: "at0 ?arr 25500228 = 0" using cloud17M_at [OF i'] by simp
  have at2: "at0 ?arr 25500225 = 1" using cloud17M_at [OF j'] by simp
  have a: "array (the (position (the (createPointGeometry (Some cloud17M) None 1)))) ! (3 * 8500076) = 0"
    using createPointGeometry_slot [OF p(1) s1 i, of None]
    by (simp add: p(2,3) keep17M slot17M(1) at1)
  have b: "the (generateMorphTargetArrayWithFractions (createPointGeometry (Some cloud17M) None 1)
            (Some cloud17M) (computeSampleFractions (Some cloud17M) 17000000)) ! (3 * 8500076) = 1"
    using self_resample_slot [OF p(1) s1 i, of None]
    by (simp add: p(2,3) keep17M slot17M(2) at2)
  from keep17M slot17M a b show ?thesis by simp
qed

lemma promises_setScatterAmplitude [simp]:
  "promises (setScatterAmplitude v s w) = promises w"
  by (simp add: setScatterAmplitude_def Let_def)

lemma promises_setMorphProgress [simp]:
  "promises (setMorphProgress v w) = promises w"
  by (simp add: setMorphProgress_def)

lemma promises_setTextOpacityTarget [simp]:
  "promises (setTextOpacityTarget v i w) = promises w"
  by (simp add: setTextOpacityTarget_def Let_def)

lemma promises_ensureTextOpacity [simp]:
  "promises (ensureTextOpacity v w) = promises w"
  by (simp add: ensureTextOpacity_def Let_def)

lemma promises_setCameraYawOffset [simp]:
  "promises (setCameraYawOffset d w) = promises w"
  by (simp add: setCameraYawOffset_def)

lemma promises_setCameraPitchOffset [simp]:
  "promises (setCameraPitchOffset d w) = promises w"
  by (simp add: setCameraPitchOffset_def)

lemma promises_updateCameraPose [simp]:
  "promises (updateCameraPose t w) = promises w"
  by (simp add: updateCameraPose_def Let_def)

lemma promises_setBackgroundGradient [simp]:
  "promises (setBackgroundGradient g w) = promises w"
  by (simp add: setBackgroundGradient_def Let_def split: option.splits)

lemma promises_applyBackgroundBlend [simp]:
  "promises (applyBackgroundBlend e v w) = promises w"
  by (simp add: applyBackgroundBlend_def Let_def split: option.splits bool.splits)

lemma promises_finishBackgroundBlend [simp]:
  "promises (finishBackgroundBlend c w) = promises w"
  by (simp add: finishBackgroundBlend_def Let_def)

lemma promises_startBackgroundBlend [simp]:
  "promises (startBackgroundBlend e t w) = promises w"
  by (simp add: startBackgroundBlend_def split: option.splits)

lemma promises_animateBackgroundBlend [simp]:
  "promises (animateBackgroundBlend e t i w) = promises w"
  by (simp add: animateBackgroundBlend_def Let_def)

lemma promises_applyScrollTweenState [simp]:
  "promises (applyScrollTweenState w) = promises w"
  by (simp add: applyScrollTweenState_def Let_def split: option.splits)

lemma promises_tweenToScrollTargets [simp]:
  "promises (tweenToScrollTargets tg i w) = promises w"
  by (simp add: tweenToScrollTargets_def Let_def)

lemma promises_updateSectionTransition [simp]:
  "promises (updateSectionTransition e w) = promises w"
  by (simp add: updateSectionTransition_def Let_def split: phase.splits)

lemma loadReactions_setScatterAmplitude [simp]:
  "loadReactions (setScatterAmplitude v s w) = loadReactions w"
  by (simp add: setScatterAmplitude_def Let_def)

lemma loadReactions_setMorphProgress [simp]:
  "loadReactions (setMorphProgress v w) = loadReactions w"
  by (simp add: setMorphProgress_def)

lemma loadReactions_setTextOpacityTarget [simp]:
  "loadReactions (setTextOpacityTarget v i w) = loadReactions w"
  by (simp add: setTextOpacityTarget_def Let_def)

lemma loadReactions_ensureTextOpacity [simp]:
  "loadReactions (ensureTextOpacity v w) = loadReactions w"
  by (simp add: ensureTextOpacity_def Let_def)

lemma loadReactions_setCameraYawOffset [simp]:
  "loadReactions (setCameraYawOffset d w) = loadReactions w"
  by (simp add: setCameraYawOffset_def)

lemma loadReactions_setCameraPitchOffset [simp]:
  "loadReactions (setCameraPitchOffset d w) = loadReactions w"
  by (simp add: setCameraPitchOffset_def)

lemma loadReactions_updateCameraPose [simp]:
  "loadReactions (updateCameraPose t w) = loadReactions w"
  by (simp add: updateCameraPose_def Let_def)

lemma loadReactions_setBackgroundGradient [simp]:
  "loadReactions (setBackgroundGradient g w) = loadReactions w"
  by (simp add: setBackgroundGradient_def Let_def split: option.splits)

lemma loadReactions_applyBackgroundBlend [simp]:
  "loadReactions (applyBackgroundBlend e v w) = loadReactions w"
  by (simp add: applyBackgroundBlend_def Let_def split: option.splits bool.splits)

lemma loadReactions_finishBackgroundBlend [simp]:
  "loadReactions (finishBackgroundBlend c w) = loadReactions w"
  by (simp add: finishBackgroundBlend_def Let_def)

lemma loadReactions_startBackgroundBlend [simp]:
  "loadReactions (startBackgroundBlend e t w) = loadReactions w"
  by (simp add: startBackgroundBlend_def split: option.splits)

lemma loadReactions_animateBackgroundBlend [simp]:
  "loadReactions (animateBackgroundBlend e t i w) = loadReactions w"
  by (simp add: animateBackgroundBlend_def Let_def)

lemma loadReactions_applyScrollTweenState [simp]:
  "loadReactions (applyScrollTweenState w) = loadReactions w"
  by (simp add: applyScrollTweenState_def Let_def split: option.splits)

lemma loadReactions_tweenToScrollTargets [simp]:
  "loadReactions (tweenToScrollTargets tg i w) = loadReactions w"
  by (simp add: tweenToScrollTargets_def Let_def)

lemma loadReactions_updateSectionTransition [simp]:
  "loadReactions (updateSectionTransition e w) = loadReactions w"
  by (simp add: updateSectionTransition_def Let_def split: phase.splits)

lemma console_setScatterAmplitude [simp]:
  "console (setScatterAmplitude v s w) = console w"
  by (simp add: setScatterAmplitude_def Let_def)

lemma console_setMorphProgress [simp]:
  "console (setMorphProgress v w) = console w"
  by (simp add: setMorphProgress_def)

lemma console_setTextOpacityTarget [simp]:
  "console (setTextOpacityTarget v i w) = console w"
  by (simp add: setTextOpacityTarget_def Let_def)

lemma console_ensureTextOpacity [simp]:
  "console (ensureTextOpacity v w) = console w"
  by (simp add: ensureTextOpacity_def Let_def)

lemma console_setCameraYawOffset [simp]:
  "console (setCameraYawOffset d w) = console w"
  by (simp add: setCameraYawOffset_def)

lemma console_setCameraPitchOffset [simp]:
  "console (setCameraPitchOffset d w) = console w"
  by (simp add: setCameraPitchOffset_def)

lemma console_updateCameraPose [simp]:
  "console (updateCameraPose t w) = console w"
  by (simp add: updateCameraPose_def Let_def)

lemma console_setBackgroundGradient [simp]:
  "console (setBackgroundGradient g w) = console w"
  by (simp add: setBackgroundGradient_def Let_def split: option.splits)

lemma console_applyBackgroundBlend [simp]:
  "console (applyBackgroundBlend e v w) = console w"
  by (simp add: applyBackgroundBlend_def Let_def split: option.splits bool.splits)

lemma console_finishBackgroundBlend [simp]:
  "console (finishBackgroundBlend c w) = console w"
  by (simp add: finishBackgroundBlend_def Let_def)

lemma console_startBackgroundBlend [simp]:
  "console (startBackgroundBlend e t w) = console w"
  by (simp add: startBackgroundBlend_def split: option.splits)

lemma console_animateBackgroundBlend [simp]:
  "console (animateBackgroundBlend e t i w) = console w"
  by (simp add: animateBackgroundBlend_def Let_def)

lemma console_applyScrollTweenState [simp]:
  "console (applyScrollTweenState w) = console w"
  by (simp add: applyScrollTweenState_def Let_def split: option.splits)

lemma console_tweenToScrollTargets [simp]:
  "console (tweenToScrollTargets tg i w) = console w"
  by (simp add: tweenToScrollTargets_def Let_def)

lemma console_updateSectionTransition [simp]:
  "console (updateSectionTransition e w) = console w"
  by (simp add: updateSectionTransition_def Let_def split: phase.splits)

lemma sectionAssets_setScatterAmplitude [simp]:
  "sectionAssets (setScatterAmplitude v s w) = sectionAssets w"
  by (simp add: setScatterAmplitude_def Let_def)

lemma sectionAssets_setMorphProgress [simp]:
  "sectionAssets (setMorphProgress v w) = sectionAssets w"
  by (simp add: setMorphProgress_def)

lemma sectionAssets_setTextOpacityTarget [simp]:
  "sectionAssets (setTextOpacityTarget v i w) = sectionAssets w"
  by (simp add: setTextOpacityTarget_def Let_def)

lemma sectionAssets_ensureTextOpacity [simp]:
  "sectionAssets (ensureTextOpacity v w) = sectionAssets w"
  by (simp add: ensureTextOpacity_def Let_def)

lemma sectionAssets_setCameraYawOffset [simp]:
  "sectionAssets (setCameraYawOffset d w) = sectionAssets w"
  by (simp add: setCameraYawOffset_def)

lemma sectionAssets_setCameraPitchOffset [simp]:
  "sectionAssets (setCameraPitchOffset d w) = sectionAssets w"
  by (simp add: setCameraPitchOffset_def)

lemma sectionAssets_updateCameraPose [simp]:
  "sectionAssets (updateCameraPose t w) = sectionAssets w"
  by (simp add: updateCameraPose_def Let_def)

lemma sectionAssets_setBackgroundGradient [simp]:
  "sectionAssets (setBackgroundGradient g w) = sectionAssets w"
  by (simp add: setBackgroundGradient_def Let_def split: option.splits)

lemma sectionAssets_applyBackgroundBlend [simp]:
  "sectionAssets (applyBackgroundBlend e v w) = sectionAssets w"
  by (simp add: applyBackgroundBlend_def Let_def split: option.splits bool.splits)

lemma sectionAssets_finishBackgroundBlend [simp]:
  "sectionAssets (finishBackgroundBlend c w) = sectionAssets w"
  by (simp add: finishBackgroundBlend_def Let_def)

lemma sectionAssets_startBackgroundBlend [simp]:
  "sectionAssets (startBackgroundBlend e t w) = sectionAssets w"
  by (simp add: startBackgroundBlend_def split: option.splits)

lemma sectionAssets_animateBackgroundBlend [simp]:
  "sectionAssets (animateBackgroundBlend e t i w) = sectionAssets w"
  by (simp add: animateBackgroundBlend_def Let_def)

lemma sectionAssets_applyScrollTweenState [simp]:
  "sectionAssets (applyScrollTweenState w) = sectionAssets w"
  by (simp add: applyScrollTweenState_def Let_def split: option.splits)

lemma sectionAssets_tweenToScrollTargets [simp]:
  "sectionAssets (tweenToScrollTargets tg i w) = sectionAssets w"
  by (simp add: tweenToScrollTargets_def Let_def)

lemma sectionAssets_updateSectionTransition [simp]:
  "sectionAssets (updateSectionTransition e w) = sectionAssets w"
  by (simp add: updateSectionTransition_def Let_def split: phase.splits)

lemma points_setScatterAmplitude [simp]:
  "points (setScatterAmplitude v s w) = points w"
  by (simp add: setScatterAmplitude_def Let_def)

lemma points_setMorphProgress [simp]:
  "points (setMorphProgress v w) = points w"
  by (simp add: setMorphProgress_def)

lemma points_setTextOpacityTarget [simp]:
  "points (setTextOpacityTarget v i w) = points w"
  by (simp add: setTextOpacityTarget_def Let_def)

lemma points_ensureTextOpacity [simp]:
  "points (ensureTextOpacity v w) = points w"
  by (simp add: ensureTextOpacity_def Let_def)

lemma points_setCameraYawOffset [simp]:
  "points (setCameraYawOffset d w) = points w"
  by (simp add: setCameraYawOffset_def)

lemma points_setCameraPitchOffset [simp]:
  "points (setCameraPitchOffset d w) = points w"
  by (simp add: setCameraPitchOffset_def)

lemma points_updateCameraPose [simp]:
  "points (updateCameraPose t w) = points w"
  by (simp add: updateCameraPose_def Let_def)

lemma points_setBackgroundGradient [simp]:
  "points (setBackgroundGradient g w) = points w"
  by (simp add: setBackgroundGradient_def Let_def split: option.splits)

lemma points_applyBackgroundBlend [simp]:
  "points (applyBackgroundBlend e v w) = points w"
  by (simp add: applyBackgroundBlend_def Let_def split: option.splits bool.splits)

lemma points_finishBackgroundBlend [simp]:
  "points (finishBackgroundBlend c w) = points w"
  by (simp add: finishBackgroundBlend_def Let_def)

lemma points_startBackgroundBlend [simp]:
  "points (startBackgroundBlend e t w) = points w"
  by (simp add: startBackgroundBlend_def split: option.splits)

lemma points_animateBackgroundBlend [simp]:
  "points (animateBackgroundBlend e t i w) = points w"
  by (simp add: animateBackgroundBlend_def Let_def)

lemma pointsGeometry_applyScrollTweenState [simp]:
  "pointsGeometry (applyScrollTweenState w) = pointsGeometry w"
  by (simp add: applyScrollTweenState_def Let_def split: option.splits)

lemma pointsGeometry_tweenToScrollTargets [simp]:
  "pointsGeometry (tweenToScrollTargets tg i w) = pointsGeometry w"
  by (simp add: tweenToScrollTargets_def Let_def)

lemma pointsGeometry_updateSectionTransition [simp]:
  "pointsGeometry (updateSectionTransition e w) = pointsGeometry w"
  by (simp add: updateSectionTransition_def Let_def split: phase.splits)

lemma cameraPathT_setScatterAmplitude [simp]:
  "cameraPathT (setScatterAmplitude v s w) = cameraPathT w"
  by (simp add: setScatterAmplitude_def Let_def)

lemma cameraPathT_setMorphProgress [simp]:
  "cameraPathT (setMorphProgress v w) = cameraPathT w"
  by (simp add: setMorphProgress_def)

lemma cameraPathT_setTextOpacityTarget [simp]:
  "cameraPathT (setTextOpacityTarget v i w) = cameraPathT w"
  by (simp add: setTextOpacityTarget_def Let_def)

lemma cameraPathT_ensureTextOpacity [simp]:
  "cameraPathT (ensureTextOpacity v w) = cameraPathT w"
  by (simp add: ensureTextOpacity_def Let_def)

lemma cameraPathT_setCameraYawOffset [simp]:
  "cameraPathT (setCameraYawOffset d w) = cameraPathT w"
  by (simp add: setCameraYawOffset_def)

lemma cameraPathT_setCameraPitchOffset [simp]:
  "cameraPathT (setCameraPitchOffset d w) = cameraPathT w"
  by (simp add: setCameraPitchOffset_def)

lemma cameraPathT_setBackgroundGradient [simp]:
  "cameraPathT (setBackgroundGradient g w) = cameraPathT w"
  by (simp add: setBackgroundGradient_def Let_def split: option.splits)

lemma cameraPathT_applyBackgroundBlend [simp]:
  "cameraPathT (applyBackgroundBlend e v w) = cameraPathT w"
  by (simp add: applyBackgroundBlend_def Let_def split: option.splits bool.splits)

lemma cameraPathT_finishBackgroundBlend [simp]:
  "cameraPathT (finishBackgroundBlend c w) = cameraPathT w"
  by (simp add: finishBackgroundBlend_def Let_def)

lemma cameraPathT_startBackgroundBlend [simp]:
  "cameraPathT (startBackgroundBlend e t w) = cameraPathT w"
  by (simp add: startBackgroundBlend_def split: option.splits)

lemma cameraPathT_animateBackgroundBlend [simp]:
  "cameraPathT (animateBackgroundBlend e t i w) = cameraPathT w"
  by (simp add: animateBackgroundBlend_def Let_def)

lemma cameraPathT_applyScrollTweenState [simp]:
  "cameraPathT (applyScrollTweenState w) = cameraPathT w"
  by (simp add: applyScrollTweenState_def Let_def split: option.splits)

lemma cameraPathT_tweenToScrollTargets [simp]:
  "cameraPathT (tweenToScrollTargets tg i w) = cameraPathT w"
  by (simp add: tweenToScrollTargets_def Let_def)

lemma cameraPathTarget_setScatterAmplitude [simp]:
  "cameraPathTarget (setScatterAmplitude v s w) = cameraPathTarget w"
  by (simp add: setScatterAmplitude_def Let_def)

lemma cameraPathTarget_setMorphProgress [simp]:
  "cameraPathTarget (setMorphProgress v w) = cameraPathTarget w"
  by (simp add: setMorphProgress_def)

lemma cameraPathTarget_setTextOpacityTarget [simp]:
  "cameraPathTarget (setTextOpacityTarget v i w) = cameraPathTarget w"
  by (simp add: setTextOpacityTarget_def Let_def)

lemma cameraPathTarget_ensureTextOpacity [simp]:
  "cameraPathTarget (ensureTextOpacity v w) = cameraPathTarget w"
  by (simp add: ensureTextOpacity_def Let_def)

lemma cameraPathTarget_setCameraYawOffset [simp]:
  "cameraPathTarget (setCameraYawOffset d w) = cameraPathTarget w"
  by (simp add: setCameraYawOffset_def)

lemma cameraPathTarget_setCameraPitchOffset [simp]:
  "cameraPathTarget (setCameraPitchOffset d w) = cameraPathTarget w"
  by (simp add: setCameraPitchOffset_def)

lemma cameraPathTarget_setBackgroundGradient [simp]:
  "cameraPathTarget (setBackgroundGradient g w) = cameraPathTarget w"
  by (simp add: setBackgroundGradient_def Let_def split: option.splits)

lemma cameraPathTarget_applyBackgroundBlend [simp]:
  "cameraPathTarget (applyBackgroundBlend e v w) = cameraPathTarget w"
  by (simp add: applyBackgroundBlend_def Let_def split: option.splits bool.splits)

lemma cameraPathTarget_finishBackgroundBlend [simp]:
  "cameraPathTarget (finishBackgroundBlend c w) = cameraPathTarget w"
  by (simp add: finishBackgroundBlend_def Let_def)

lemma cameraPathTarget_startBackgroundBlend [simp]:
  "cameraPathTarget (startBackgroundBlend e t w) = cameraPathTarget w"
  by (simp add: startBackgroundBlend_def split: option.splits)

lemma cameraPathTarget_animateBackgroundBlend [simp]:
  "cameraPathTarget (animateBackgroundBlend e t i w) = cameraPathTarget w"
  by (simp add: animateBackgroundBlend_def Let_def)

lemma cameraPathTarget_applyScrollTweenState [simp]:
  "cameraPathTarget (applyScrollTweenState w) = cameraPathTarget w"
  by (simp add: applyScrollTweenState_def Let_def split: option.splits)

lemma cameraPathTarget_tweenToScrollTargets [simp]:
  "cameraPathTarget (tweenToScrollTargets tg i w) = cameraPathTarget w"
  by (simp add: tweenToScrollTargets_def Let_def)

lemma cameraYawOffsetDeg_setScatterAmplitude [simp]:
  "cameraYawOffsetDeg (setScatterAmplitude v s w) = cameraYawOffsetDeg w"
  by (simp add: setScatterAmplitude_def Let_def)

lemma cameraYawOffsetDeg_setMorphProgress [simp]:
  "cameraYawOffsetDeg (setMorphProgress v w) = cameraYawOffsetDeg w"
  by (simp add: setMorphProgress_def)

lemma cameraYawOffsetDeg_setTextOpacityTarget [simp]:
  "cameraYawOffsetDeg (setTextOpacityTarget v i w) = cameraYawOffsetDeg w"
  by (simp add: setTextOpacityTarget_def Let_def)

lemma cameraYawOffsetDeg_ensureTextOpacity [simp]:
  "cameraYawOffsetDeg (ensureTextOpacity v w) = cameraYawOffsetDeg w"
  by (simp add: ensureTextOpacity_def Let_def)

lemma cameraYawOffsetDeg_setCameraPitchOffset [simp]:
  "cameraYawOffsetDeg (setCameraPitchOffset d w) = cameraYawOffsetDeg w"
  by (simp add: setCameraPitchOffset_def)

lemma cameraYawOffsetDeg_setBackgroundGradient [simp]:
  "cameraYawOffsetDeg (setBackgroundGradient g w) = cameraYawOffsetDeg w"
  by (simp add: setBackgroundGradient_def Let_def split: option.splits)

lemma cameraYawOffsetDeg_applyBackgroundBlend [simp]:
  "cameraYawOffsetDeg (applyBackgroundBlend e v w) = cameraYawOffsetDeg w"
  by (simp add: applyBackgroundBlend_def Let_def split: option.splits bool.splits)

lemma cameraYawOffsetDeg_finishBackgroundBlend [simp]:
  "cameraYawOffsetDeg (finishBackgroundBlend c w) = cameraYawOffsetDeg w"
  by (simp add: finishBackgroundBlend_def Let_def)

lemma cameraYawOffsetDeg_startBackgroundBlend [simp]:
  "cameraYawOffsetDeg (startBackgroundBlend e t w) = cameraYawOffsetDeg w"
  by (simp add: startBackgroundBlend_def split: option.splits)

lemma cameraYawOffsetDeg_animateBackgroundBlend [simp]:
  "cameraYawOffsetDeg (animateBackgroundBlend e t i w) = cameraYawOffsetDeg w"
  by (simp add: animateBackgroundBlend_def Let_def)

lemma cameraYawOffsetDeg_applyScrollTweenState [simp]:
  "cameraYawOffsetDeg (applyScrollTweenState w) = cameraYawOffsetDeg w"
  by (simp add: applyScrollTweenState_def Let_def split: option.splits)

lemma cameraYawOffsetDeg_tweenToScrollTargets [simp]:
  "cameraYawOffsetDeg (tweenToScrollTargets tg i w) = cameraYawOffsetDeg w"
  by (simp add: tweenToScrollTargets_def Let_def)

lemma cameraPitchOffsetDeg_setScatterAmplitude [simp]:
  "cameraPitchOffsetDeg (setScatterAmplitude v s w) = cameraPitchOffsetDeg w"
  by (simp add: setScatterAmplitude_def Let_def)

lemma cameraPitchOffsetDeg_setMorphProgress [simp]:
  "cameraPitchOffsetDeg (setMorphProgress v w) = cameraPitchOffsetDeg w"
  by (simp add: setMorphProgress_def)

lemma cameraPitchOffsetDeg_setTextOpacityTarget [simp]:
  "cameraPitchOffsetDeg (setTextOpacityTarget v i w) = cameraPitchOffsetDeg w"
  by (simp add: setTextOpacityTarget_def Let_def)

lemma cameraPitchOffsetDeg_ensureTextOpacity [simp]:
  "cameraPitchOffsetDeg (ensureTextOpacity v w) = cameraPitchOffsetDeg w"
  by (simp add: ensureTextOpacity_def Let_def)

lemma cameraPitchOffsetDeg_setCameraYawOffset [simp]:
  "cameraPitchOffsetDeg (setCameraYawOffset d w) = cameraPitchOffsetDeg w"
  by (simp add: setCameraYawOffset_def)

lemma cameraPitchOffsetDeg_setBackgroundGradient [simp]:
  "cameraPitchOffsetDeg (setBackgroundGradient g w) = cameraPitchOffsetDeg w"
  by (simp add: setBackgroundGradient_def Let_def split: option.splits)

lemma cameraPitchOffsetDeg_applyBackgroundBlend [simp]:
  "cameraPitchOffsetDeg (applyBackgroundBlend e v w) = cameraPitchOffsetDeg w"
  by (simp add: applyBackgroundBlend_def Let_def split: option.splits bool.splits)

lemma cameraPitchOffsetDeg_finishBackgroundBlend [simp]:
  "cameraPitchOffsetDeg (finishBackgroundBlend c w) = cameraPitchOffsetDeg w"
  by (simp add: finishBackgroundBlend_def Let_def)

lemma cameraPitchOffsetDeg_startBackgroundBlend [simp]:
  "cameraPitchOffsetDeg (startBackgroundBlend e t w) = cameraPitchOffsetDeg w"
  by (simp add: startBackgroundBlend_def split: option.splits)

lemma cameraPitchOffsetDeg_animateBackgroundBlend [simp]:
  "cameraPitchOffsetDeg (animateBackgroundBlend e t i w) = cameraPitchOffsetDeg w"
  by (simp add: animateBackgroundBlend_def Let_def)

lemma cameraPitchOffsetDeg_applyScrollTweenState [simp]:
  "cameraPitchOffsetDeg (applyScrollTweenState w) = cameraPitchOffsetDeg w"
  by (simp add: applyScrollTweenState_def Let_def split: option.splits)

lemma cameraPitchOffsetDeg_tweenToScrollTargets [simp]:
  "cameraPitchOffsetDeg (tweenToScrollTargets tg i w) = cameraPitchOffsetDeg w"
  by (simp add: tweenToScrollTargets_def Let_def)

lemma groupRotationY_setScatterAmplitude [simp]:
  "groupRotationY (setScatterAmplitude v s w) = groupRotationY w"
  by (simp add: setScatterAmplitude_def Let_def)

lemma groupRotationY_setMorphProgress [simp]:
  "groupRotationY (setMorphProgress v w) = groupRotationY w"
  by (simp add: setMorphProgress_def)

lemma groupRotationY_setTextOpacityTarget [simp]:
  "groupRotationY (setTextOpacityTarget v i w) = groupRotationY w"
  by (simp add: setTextOpacityTarget_def Let_def)

lemma groupRotationY_ensureTextOpacity [simp]:
  "groupRotationY (ensureTextOpacity v w) = groupRotationY w"
  by (simp add: ensureTextOpacity_def Let_def)

lemma groupRotationY_setCameraYawOffset [simp]:
  "groupRotationY (setCameraYawOffset d w) = groupRotationY w"
  by (simp add: setCameraYawOffset_def)

lemma groupRotationY_setCameraPitchOffset [simp]:
  "groupRotationY (setCameraPitchOffset d w) = groupRotationY w"
  by (simp add: setCameraPitchOffset_def)

lemma groupRotationY_updateCameraPose [simp]:
  "groupRotationY (updateCameraPose t w) = groupRotationY w"
  by (simp add: updateCameraPose_def Let_def)

lemma groupRotationY_setBackgroundGradient [simp]:
  "groupRotationY (setBackgroundGradient g w) = groupRotationY w"
  by (simp add: setBackgroundGradient_def Let_def split: option.splits)

lemma groupRotationY_applyBackgroundBlend [simp]:
  "groupRotationY (applyBackgroundBlend e v w) = groupRotationY w"
  by (simp add: applyBackgroundBlend_def Let_def split: option.splits bool.splits)

lemma groupRotationY_finishBackgroundBlend [simp]:
  "groupRotationY (finishBackgroundBlend c w) = groupRotationY w"
  by (simp add: finishBackgroundBlend_def Let_def)

lemma groupRotationY_startBackgroundBlend [simp]:
  "groupRotationY (startBackgroundBlend e t w) = groupRotationY w"
  by (simp add: startBackgroundBlend_def split: option.splits)

lemma groupRotationY_animateBackgroundBlend [simp]:
  "groupRotationY (animateBackgroundBlend e t i w) = groupRotationY w"
  by (simp add: animateBackgroundBlend_def Let_def)

lemma backgroundGradient_setScatterAmplitude [simp]:
  "backgroundGradient (setScatterAmplitude v s w) = backgroundGradient w"
  by (simp add: setScatterAmplitude_def Let_def)

lemma backgroundGradient_setMorphProgress [simp]:
  "backgroundGradient (setMorphProgress v w) = backgroundGradient w"
  by (simp add: setMorphProgress_def)

lemma backgroundGradient_setTextOpacityTarget [simp]:
  "backgroundGradient (setTextOpacityTarget v i w) = backgroundGradient w"
  by (simp add: setTextOpacityTarget_def Let_def)

lemma backgroundGradient_ensureTextOpacity [simp]:
  "backgroundGradient (ensureTextOpacity v w) = backgroundGradient w"
  by (simp add: ensureTextOpacity_def Let_def)

lemma backgroundGradient_setCameraYawOffset [simp]:
  "backgroundGradient (setCameraYawOffset d w) = backgroundGradient w"
  by (simp add: setCameraYawOffset_def)

lemma backgroundGradient_setCameraPitchOffset [simp]:
  "backgroundGradient (setCameraPitchOffset d w) = backgroundGradient w"
  by (simp add: setCameraPitchOffset_def)

lemma backgroundGradient_updateCameraPose [simp]:
  "backgroundGradient (updateCameraPose t w) = backgroundGradient w"
  by (simp add: updateCameraPose_def Let_def)

lemma backgroundGradient_applyScrollTweenState [simp]:
  "backgroundGradient (applyScrollTweenState w) = backgroundGradient w"
  by (simp add: applyScrollTweenState_def Let_def split: option.splits)

lemma backgroundGradient_tweenToScrollTargets [simp]:
  "backgroundGradient (tweenToScrollTargets tg i w) = backgroundGradient w"
  by (simp add: tweenToScrollTargets_def Let_def)

lemma backgroundTransition_setScatterAmplitude [simp]:
  "backgroundTransition (setScatterAmplitude v s w) = backgroundTransition w"
  by (simp add: setScatterAmplitude_def Let_def)

lemma backgroundTransition_setMorphProgress [simp]:
  "backgroundTransition (setMorphProgress v w) = backgroundTransition w"
  by (simp add: setMorphProgress_def)

lemma backgroundTransition_setTextOpacityTarget [simp]:
  "backgroundTransition (setTextOpacityTarget v i w) = backgroundTransition w"
  by (simp add: setTextOpacityTarget_def Let_def)

lemma backgroundTransition_ensureTextOpacity [simp]:
  "backgroundTransition (ensureTextOpacity v w) = backgroundTransition w"
  by (simp add: ensureTextOpacity_def Let_def)

lemma backgroundTransition_setCameraYawOffset [simp]:
  "backgroundTransition (setCameraYawOffset d w) = backgroundTransition w"
  by (simp add: setCameraYawOffset_def)

lemma backgroundTransition_setCameraPitchOffset [simp]:
  "backgroundTransition (setCameraPitchOffset d w) = backgroundTransition w"
  by (simp add: setCameraPitchOffset_def)

lemma backgroundTransition_updateCameraPose [simp]:
  "backgroundTransition (updateCameraPose t w) = backgroundTransition w"
  by (simp add: updateCameraPose_def Let_def)

lemma backgroundTransition_setBackgroundGradient [simp]:
  "backgroundTransition (setBackgroundGradient g w) = backgroundTransition w"
  by (simp add: setBackgroundGradient_def Let_def split: option.splits)

lemma backgroundTransition_applyBackgroundBlend [simp]:
  "backgroundTransition (applyBackgroundBlend e v w) = backgroundTransition w"
  by (simp add: applyBackgroundBlend_def Let_def split: option.splits bool.splits)

lemma backgroundTransition_applyScrollTweenState [simp]:
  "backgroundTransition (applyScrollTweenState w) = backgroundTransition w"
  by (simp add: applyScrollTweenState_def Let_def split: option.splits)

lemma backgroundTransition_tweenToScrollTargets [simp]:
  "backgroundTransition (tweenToScrollTargets tg i w) = backgroundTransition w"
  by (simp add: tweenToScrollTargets_def Let_def)

lemma groupRotationY_tweenToScrollTargets_later [simp]:
  "groupRotationY (tweenToScrollTargets tg False w) = groupRotationY w"
  by (simp add: tweenToScrollTargets_def Let_def)

lemma points_tweenToScrollTargets_later [simp]:
  "points (tweenToScrollTargets tg False w) = points w"
  by (simp add: tweenToScrollTargets_def Let_def)

lemma animateBackgroundBlend_inactive [simp]:
  "\<not> bt_active (backgroundTransition w) \<Longrightarrow> animateBackgroundBlend e t i w = w"
  by (simp add: animateBackgroundBlend_def)

lemma lerp_same [simp]: "lerp a a t = a"
  by (simp add: lerp_def algebra_simps)

lemma lerp_0 [simp]: "lerp a b 0 = a"
  by (simp add: lerp_def)

lemma lerp_1 [simp]: "lerp a b 1 = b"
  by (simp add: lerp_def)

lemma clamp_id: "lo \<le> v \<Longrightarrow> v \<le> hi \<Longrightarrow> clamp v lo hi = v"
  by (simp add: clamp_def)

lemma clamp_01 [simp]: "clamp 0 0 1 = 0" "clamp 1 0 1 = 1"
  by (simp_all add: clamp_def)

lemma updateCameraPose_fields:
  assumes "cameraStartPose (sectionState w) = Some s" and "cameraEndPose (sectionState w) = Some en"
  shows "cameraYawOffsetDeg (updateCameraPose t w) = lerp (yaw s) (yaw en) (clamp t 0 1)"
    and "cameraPitchOffsetDeg (updateCameraPose t w) = lerp (pitch s) (pitch en) (clamp t 0 1)"
    and "cameraPathTarget (updateCameraPose t w) = clamp (lerp (pathT s) (pathT en) (clamp t 0 1)) 0 1"
    and "cameraPathT (updateCameraPose t w) = clamp (lerp (pathT s) (pathT en) (clamp t 0 1)) 0 1"
  using assms by (simp_all add: updateCameraPose_def Let_def)

lemma updateSectionTransition_camera:
  assumes "cameraStartPose (sectionState w) = Some s" and "cameraEndPose (sectionState w) = Some en"
  shows "cameraYawOffsetDeg (updateSectionTransition e w)
           = lerp (yaw s) (yaw en) (clamp (phaseEase (sectionState w)) 0 1)"
    and "cameraPitchOffsetDeg (updateSectionTransition e w)
           = lerp (pitch s) (pitch en) (clamp (phaseEase (sectionState w)) 0 1)"
    and "cameraPathTarget (updateSectionTransition e w)
           = clamp (lerp (pathT s) (pathT en) (clamp (phaseEase (sectionState w)) 0 1)) 0 1"
    and "cameraPathT (updateSectionTransition e w)
           = clamp (lerp (pathT s) (pathT en) (clamp (phaseEase (sectionState w)) 0 1)) 0 1"
  using assms
  by (simp_all add: updateSectionTransition_def Let_def phaseEase_def updateCameraPose_fields
        split: phase.splits)

lemma updateSectionTransition_rotation:
  "phase (sectionState w) \<noteq> Loading \<Longrightarrow>
     groupRotationY (updateSectionTransition e w) = groupRotationY w"
  by (simp add: updateSectionTransition_def Let_def split: phase.splits)

lemma updateSectionTransition_points:
  "phase (sectionState w) \<noteq> Loading \<Longrightarrow> points (updateSectionTransition e w) = points w"
  by (simp add: updateSectionTransition_def Let_def split: phase.splits)

lemma updateSectionTransition_background_rest:
  assumes "phase (sectionState w) = Idle \<or> phase (sectionState w) = Boot"
  shows "backgroundGradient (updateSectionTransition e w) = backgroundGradient w"
    and "backgroundTransition (updateSectionTransition e w) = backgroundTransition w"
  using assms by (auto simp: updateSectionTransition_def Let_def split: phase.splits)

lemma isNormalizedHexD:
  assumes "isNormalizedHex s"
  obtains d where "hexMatch s = Some d" and "hexOf d = s"
  using assms by (cases "hexMatch s") (simp_all add: isNormalizedHex_def)

lemma setBackgroundGradient_normalized:
  assumes "normalizedGradient g"
  shows "setBackgroundGradient g w = w\<lparr>backgroundGradient := g\<rparr>"
proof -
  from assms have n: "isNormalizedHex (g_top g)" "isNormalizedHex (g_mid g)"
      "isNormalizedHex (g_bottom g)"
    by (simp_all add: normalizedGradient_def)
  from n(1) obtain d1 where d1: "hexMatch (g_top g) = Some d1" "hexOf d1 = g_top g"
    by (rule isNormalizedHexD)
  from n(2) obtain d2 where d2: "hexMatch (g_mid g) = Some d2" "hexOf d2 = g_mid g"
    by (rule isNormalizedHexD)
  from n(3) obtain d3 where d3: "hexMatch (g_bottom g) = Some d3" "hexOf d3 = g_bottom g"
    by (rule isNormalizedHexD)
  have "setBackgroundGradient g w =
      w\<lparr>backgroundGradient := \<lparr>g_top = g_top g, g_mid = g_mid g, g_bottom = g_bottom g\<rparr>\<rparr>"
    by (simp add: setBackgroundGradient_def Let_def d1 d2 d3)
  then show ?thesis by simp
qed

lemma finishBackgroundBlend_revert:
  assumes "snapshotNormalized w"
  shows "backgroundGradient (finishBackgroundBlend False w) = backgroundSnapshot w"
    and "\<not> bt_active (backgroundTransition (finishBackgroundBlend False w))"
proof -
  show "\<not> bt_active (backgroundTransition (finishBackgroundBlend False w))"
    by (simp add: finishBackgroundBlend_def Let_def)
  show "backgroundGradient (finishBackgroundBlend False w) = backgroundSnapshot w"
  proof (cases "bt_active (backgroundTransition w)")
    case False
    then show ?thesis
      by (simp add: finishBackgroundBlend_def backgroundSnapshot_def)
  next
    case True
    with assms obtain g where g: "bt_from (backgroundTransition w) = Some g" "normalizedGradient g"
      by (cases "bt_from (backgroundTransition w)") (simp_all add: snapshotNormalized_def)
    show ?thesis
      using True g
      by (simp add: finishBackgroundBlend_def backgroundSnapshot_def Let_def
            setBackgroundGradient_normalized)
  qed
qed

lemma sectionState_cancelTransition:
  "sectionState (cancelTransition e w) =
     (sectionState w)\<lparr>phase := Idle, transitionProgress := 0, pendingIndex := index (sectionState w),
        pendingPromise := None, nextSection := None, pendingScrollCarry := 0,
        rotationTarget := rotationStart (sectionState w),
        rotationMid := rotationStart (sectionState w),
        cameraEndPose := cameraStartPose (sectionState w), morphReady := False\<rparr>"
  by (simp add: cancelTransition_def Let_def)

lemma cancelTransition_rotation:
  "groupRotationY (cancelTransition e w) = rotationStart (sectionState w)"
  by (simp add: cancelTransition_def Let_def updateSectionTransition_rotation)

lemma cancelTransition_points:
  "points (cancelTransition e w) = points w"
  by (simp add: cancelTransition_def Let_def updateSectionTransition_points)

lemma cancelTransition_camera:
  assumes "cameraStartPose (sectionState w) = Some s"
  shows "cameraYawOffsetDeg (cancelTransition e w) = yaw s"
    and "cameraPitchOffsetDeg (cancelTransition e w) = pitch s"
    and "cameraPathTarget (cancelTransition e w) = clamp (pathT s) 0 1"
    and "cameraPathT (cancelTransition e w) = clamp (pathT s) 0 1"
  using assms
  by (simp_all add: cancelTransition_def Let_def
        updateSectionTransition_camera [where s = s and en = s])

lemma cancelTransition_background:
  assumes "snapshotNormalized w"
  shows "backgroundGradient (cancelTransition e w) = backgroundSnapshot w"
    and "\<not> bt_active (backgroundTransition (cancelTransition e w))"
proof -
  let ?w4 = "(updateSectionTransition e (updateCameraPose 0
      (w\<lparr>sectionState := (sectionState w)\<lparr>phase := Idle, transitionProgress := 0,
            pendingIndex := index (sectionState w), pendingPromise := None, nextSection := None,
            pendingScrollCarry := 0, rotationTarget := rotationStart (sectionState w),
            rotationMid := rotationStart (sectionState w),
            cameraEndPose := cameraStartPose (sectionState w)\<rparr>,
          groupRotationY := rotationStart (sectionState w)\<rparr>)))"
  let ?w5 = "?w4\<lparr>sectionState := (sectionState ?w4)\<lparr>morphReady := False\<rparr>\<rparr>"
  have c: "cancelTransition e w = finishBackgroundBlend False ?w5"
    by (simp add: cancelTransition_def Let_def)
  have g: "backgroundGradient ?w5 = backgroundGradient w"
    and t: "backgroundTransition ?w5 = backgroundTransition w"
    by (simp_all add: updateSectionTransition_background_rest)
  have sn: "snapshotNormalized ?w5"
    using assms unfolding snapshotNormalized_def t .
  have bs: "backgroundSnapshot ?w5 = backgroundSnapshot w"
    unfolding backgroundSnapshot_def g t ..
  show "backgroundGradient (cancelTransition e w) = backgroundSnapshot w"
    unfolding c using finishBackgroundBlend_revert(1) [OF sn] bs by simp
  show "\<not> bt_active (backgroundTransition (cancelTransition e w))"
    unfolding c using finishBackgroundBlend_revert(2) [OF sn] .
qed

lemma advanceTransitionProgress_cancel:
  assumes "phase (sectionState w) = FadeOut"
    and "signedStep (sectionState w) stepRaw \<noteq> 0"
    and "transitionProgress (sectionState w) + signedStep (sectionState w) stepRaw \<le> 0"
  shows "advanceTransitionProgress e stepRaw w = cancelTransition e w"
  using assms
  by (subst advanceTransitionProgress.simps) (simp add: signedStep_def Let_def)

text \<open>
  C3. A fadeOut whose progress a scroll step drives back to 0 or below is cancelled: the
  phase is idle at progress 0 with the scroll carry cleared and the section index as it
  was; the rotation of the point-cloud group is the rotationStart snapshot, the camera
  yaw, pitch and path position are those of the cameraStartPose snapshot, the background
  gradient is the one the transition started from, and the geometry of the displayed
  points (position, colour and morph arrays) is untouched.
\<close>

theorem fadeOut_reversal_cancels:
  assumes "phase (sectionState w) = FadeOut"
    and "signedStep (sectionState w) stepRaw \<noteq> 0"
    and "transitionProgress (sectionState w) + signedStep (sectionState w) stepRaw \<le> 0"
    and "cameraStartPose (sectionState w) = Some snap"
    and "0 \<le> pathT snap" and "pathT snap \<le> 1"
    and "snapshotNormalized w"
  shows "phase (sectionState (advanceTransitionProgress e stepRaw w)) = Idle
     \<and> transitionProgress (sectionState (advanceTransitionProgress e stepRaw w)) = 0
     \<and> pendingScrollCarry (sectionState (advanceTransitionProgress e stepRaw w)) = 0
     \<and> pendingPromise (sectionState (advanceTransitionProgress e stepRaw w)) = None
     \<and> index (sectionState (advanceTransitionProgress e stepRaw w)) = index (sectionState w)
     \<and> groupRotationY (advanceTransitionProgress e stepRaw w) = rotationStart (sectionState w)
     \<and> rotationTarget (sectionState (advanceTransitionProgress e stepRaw w)) = rotationStart (sectionState w)
     \<and> cameraYawOffsetDeg (advanceTransitionProgress e stepRaw w) = yaw snap
     \<and> cameraPitchOffsetDeg (advanceTransitionProgress e stepRaw w) = pitch snap
     \<and> cameraPathTarget (advanceTransitionProgress e stepRaw w) = pathT snap
     \<and> cameraPathT (advanceTransitionProgress e stepRaw w) = pathT snap
     \<and> backgroundGradient (advanceTransitionProgress e stepRaw w) = backgroundSnapshot w
     \<and> \<not> bt_active (backgroundTransition (advanceTransitionProgress e stepRaw w))
     \<and> pointsGeometry (advanceTransitionProgress e stepRaw w) = pointsGeometry w"
proof -
  have c: "advanceTransitionProgress e stepRaw w = cancelTransition e w"
    by (rule advanceTransitionProgress_cancel [OF assms(1-3)])
  have cl: "clamp (pathT snap) 0 1 = pathT snap"
    by (rule clamp_id [OF assms(5,6)])
  show ?thesis
    unfolding c
    using cancelTransition_camera [OF assms(4), of e] cancelTransition_background [OF assms(7), of e]
    by (simp add: sectionState_cancelTransition cancelTransition_rotation cancelTransition_points cl)
qed

text \<open>
  C10. startSectionTransition called with a target index that normalizes to the index of
  the displayed section, in any phase but boot, changes nothing: the whole state (phase,
  progress, pending promise, scroll carry, camera poses, rotation targets and all the rest)
  is returned as it was.
\<close>

theorem startSectionTransition_same_section_noop:
  assumes "normalizeSectionIndex e i = index (sectionState w)"
    and "phase (sectionState w) \<noteq> Boot"
  shows "startSectionTransition e i d p w = w"
  using assms by (simp add: startSectionTransition_def)

lemma applyScrollDelta_loading:
  assumes "isReady (sectionState w)" and "phase (sectionState w) = Loading"
  shows "applyScrollDelta e delta isTouch w =
     (if signedStep (sectionState w) (delta / progressScaleOf isTouch) > 0
      then w\<lparr>sectionState := (sectionState w)\<lparr>pendingScrollCarry :=
              pendingScrollCarry (sectionState w)
              + signedStep (sectionState w) (delta / progressScaleOf isTouch)\<rparr>\<rparr>
      else w)"
  using assms
  by (subst applyScrollDelta.simps) (simp add: signedStep_def Let_def)

lemma normalizeSectionIndex_mod:
  assumes "0 < getSectionCount e"
  shows "normalizeSectionIndex e i = i mod getSectionCount e"
proof -
  let ?t = "getSectionCount e"
  have abs_t: "\<bar>?t\<bar> = ?t" using assms by simp
  show ?thesis
  proof (cases "0 \<le> i")
    case True
    then have "jsRem i ?t = i mod ?t"
      by (cases "i = 0") (simp_all add: jsRem_def abs_t)
    moreover have "0 \<le> i mod ?t" using assms by simp
    ultimately show ?thesis using assms by (simp add: normalizeSectionIndex_def Let_def not_less)
  next
    case False
    then have neg: "i < 0" by simp
    then have r: "jsRem i ?t = - ((- i) mod ?t)"
      by (simp add: jsRem_def abs_t)
    show ?thesis
    proof (cases "(- i) mod ?t = 0")
      case True
      then have "i mod ?t = 0" by (metis mod_minus_cong mod_0 minus_zero add.inverse_inverse)
      then show ?thesis using assms r True by (simp add: normalizeSectionIndex_def Let_def)
    next
      case nz: False
      have pos: "0 < (- i) mod ?t"
        using assms nz by (metis less_le pos_mod_sign)
      have "i mod ?t = ?t - (- i) mod ?t"
        using nz zmod_zminus1_eq_if [of "- i" ?t] by simp
      then show ?thesis using assms r pos by (simp add: normalizeSectionIndex_def Let_def)
    qed
  qed
qed

lemma normalizeSectionIndex_idem:
  "normalizeSectionIndex e (normalizeSectionIndex e i) = normalizeSectionIndex e i"
proof (cases "0 < getSectionCount e")
  case True
  then show ?thesis by (simp add: normalizeSectionIndex_mod)
next
  case False
  then show ?thesis by (simp add: normalizeSectionIndex_def)
qed

lemma normalizeSectionIndex_step:
  assumes "2 \<le> getSectionCount e" and "d = 1 \<or> d = - 1"
  shows "normalizeSectionIndex e (i + d) \<noteq> i"
proof
  let ?t = "getSectionCount e"
  assume eq: "normalizeSectionIndex e (i + d) = i"
  have pos: "0 < ?t" using assms(1) by simp
  from eq have m: "(i + d) mod ?t = i" by (simp add: normalizeSectionIndex_mod [OF pos])
  then have rng: "0 \<le> i" "i < ?t"
    using pos by (metis pos_mod_sign, metis pos_mod_bound)
  then have "i mod ?t = i" by simp
  with m have "(i + d) mod ?t = i mod ?t" by simp
  then have "?t dvd (i + d - i)" by (metis mod_eq_dvd_iff)
  then have "?t dvd d" by simp
  then have "?t dvd 1" using assms(2) by auto
  then show False using assms(1) by simp
qed

lemma getSectionByIndex_Some:
  "0 < getSectionCount e \<Longrightarrow> \<exists>n. getSectionByIndex e i = Some n"
  by (simp add: getSectionByIndex_def Let_def)

lemma ensureSectionMorphTarget_fst [simp]:
  "fst (ensureSectionMorphTarget sec w) = length (promises w)"
  by (simp add: ensureSectionMorphTarget_def)

lemma sectionState_preloadMorphTarget [simp]:
  "sectionState (preloadMorphTarget next w) =
     (sectionState w)\<lparr>pendingPromise := Some (length (promises w))\<rparr>"
  by (simp add: preloadMorphTarget_def ensureSectionMorphTarget_def)

lemma promises_preloadMorphTarget [simp]:
  "promises (preloadMorphTarget next w) =
     promises w @ [\<lparr>pr_section = next, pr_source = geometrySourceOf w next, pr_preload = True,
                     pr_state = Pending\<rparr>]"
  by (simp add: preloadMorphTarget_def ensureSectionMorphTarget_def)

lemma sectionState_initScrollTween [simp]:
  "sectionState (initScrollTween w) = sectionState w"
  by (simp add: initScrollTween_def Let_def)

lemma sectionState_startSectionTransition_fadeOut:
  "sectionState (startSectionTransition_fadeOut e t n d p w) =
     (fadeOutState n t d p w)\<lparr>pendingPromise := Some (length (promises w))\<rparr>"
  by (simp add: startSectionTransition_fadeOut_def Let_def initScrollTween_def split: option.splits)

lemma sectionState_beginSectionLoad:
  assumes "nextSection (sectionState w) = Some n" and "pendingPromise (sectionState w) = Some q"
  shows "sectionState (beginSectionLoad e w) = (sectionState w)\<lparr>phase := Loading\<rparr>"
  using assms by (simp add: beginSectionLoad_def Let_def)

lemma fadeOutState_fields [simp]:
  "phase (fadeOutState n t d p w) = FadeOut"
  "transitionProgress (fadeOutState n t d p w) = clamp p 0 1"
  "pendingScrollCarry (fadeOutState n t d p w) = 0"
  "wheelAccumulator (fadeOutState n t d p w) = 0"
  "direction (fadeOutState n t d p w) = (if d \<ge> 0 then 1 else - 1)"
  "nextIndex (fadeOutState n t d p w) = t"
  "pendingIndex (fadeOutState n t d p w) = t"
  "nextSection (fadeOutState n t d p w) = Some n"
  "index (fadeOutState n t d p w) = index (sectionState w)"
  "isReady (fadeOutState n t d p w) = isReady (sectionState w)"
  "morphReady (fadeOutState n t d p w) = False"
  "rotationStart (fadeOutState n t d p w) = groupRotationY w"
  "cameraStartPose (fadeOutState n t d p w) = Some (getCurrentCameraPose w)"
  by (simp_all add: fadeOutState_def Let_def)

lemma sectionState_startSectionTransition:
  assumes "0 < getSectionCount e"
    and "normalizeSectionIndex e i \<noteq> index (sectionState w)"
    and "getSectionByIndex e (normalizeSectionIndex e i) = Some n"
  shows "sectionState (startSectionTransition e i d p w) =
     (fadeOutState n (normalizeSectionIndex e i) d p w)\<lparr>
        pendingPromise := Some (length (promises w)), phase := startedPhase p\<rparr>"
proof (cases "clamp p 0 1 \<ge> 1 - 1 / 10000")
  case True
  let ?w5 = "startSectionTransition_fadeOut e (normalizeSectionIndex e i) n d p w"
  have st: "startSectionTransition e i d p w = beginSectionLoad e ?w5"
    using assms True
    by (simp add: startSectionTransition_def Let_def sectionState_startSectionTransition_fadeOut)
  have "sectionState (beginSectionLoad e ?w5) = (sectionState ?w5)\<lparr>phase := Loading\<rparr>"
    by (rule sectionState_beginSectionLoad [where n = n and q = "length (promises w)"])
       (simp_all add: sectionState_startSectionTransition_fadeOut)
  then show ?thesis
    using True by (simp add: st sectionState_startSectionTransition_fadeOut startedPhase_def)
next
  case False
  have st: "startSectionTransition e i d p w
      = startSectionTransition_fadeOut e (normalizeSectionIndex e i) n d p w"
    using assms False
    by (simp add: startSectionTransition_def Let_def sectionState_startSectionTransition_fadeOut)
  have ph: "(fadeOutState n (normalizeSectionIndex e i) d p w)\<lparr>
        pendingPromise := Some (length (promises w)), phase := FadeOut\<rparr>
     = (fadeOutState n (normalizeSectionIndex e i) d p w)\<lparr>pendingPromise := Some (length (promises w))\<rparr>"
    by (simp add: fadeOutState_def Let_def)
  show ?thesis
    using False by (simp add: st sectionState_startSectionTransition_fadeOut startedPhase_def ph)
qed

lemma applyScrollDelta_rest:
  assumes "isReady (sectionState w)" and "phase (sectionState w) = Idle"
  shows "applyScrollDelta e delta isTouch w =
     (if \<bar>wheelAccumulator (sectionState w) + delta\<bar> \<ge> triggerThreshold isTouch
      then triggerTransition e isTouch
             (w\<lparr>sectionState := (sectionState w)\<lparr>wheelAccumulator :=
                    wheelAccumulator (sectionState w) + delta\<rparr>\<rparr>)
      else w\<lparr>sectionState := (sectionState w)\<lparr>wheelAccumulator :=
                    wheelAccumulator (sectionState w) + delta\<rparr>\<rparr>)"
  using assms
  by (subst applyScrollDelta.simps) (simp add: Let_def)

lemma carry_simp: "max 0 (r - min 1 r) = max 0 (r - 1)" for r :: real
  by (simp add: max_def min_def)

lemma sectionState_triggerTransition:
  assumes "2 \<le> getSectionCount e"
  shows "\<exists>n. getSectionByIndex e (normalizeSectionIndex e (index (sectionState w)
                  + (if wheelAccumulator (sectionState w) > 0 then 1 else - 1))) = Some n
     \<and> sectionState (triggerTransition e isTouch w) =
       (fadeOutState n
          (normalizeSectionIndex e (index (sectionState w)
             + (if wheelAccumulator (sectionState w) > 0 then 1 else - 1)))
          (scrollDirection (wheelAccumulator (sectionState w)))
          (min 1 (overshootProgress isTouch (wheelAccumulator (sectionState w))))
          (w\<lparr>sectionState := (sectionState w)\<lparr>wheelAccumulator := 0\<rparr>\<rparr>))\<lparr>
        pendingPromise := Some (length (promises w)),
        phase := startedPhase (min 1 (overshootProgress isTouch (wheelAccumulator (sectionState w)))),
        pendingScrollCarry := max 0 (overshootProgress isTouch (wheelAccumulator (sectionState w)) - 1)\<rparr>"
proof -
  define acc where "acc = wheelAccumulator (sectionState w)"
  define t where "t = normalizeSectionIndex e (index (sectionState w) + (if acc > 0 then 1 else - 1))"
  define raw where "raw = overshootProgress isTouch acc"
  define w2 where "w2 = w\<lparr>sectionState := (sectionState w)\<lparr>wheelAccumulator := 0\<rparr>\<rparr>"
  define w3 where "w3 = startSectionTransition e t (scrollDirection acc) (min 1 raw) w2"
  have pos: "0 < getSectionCount e" using assms by simp
  obtain n where n: "getSectionByIndex e t = Some n"
    using getSectionByIndex_Some [OF pos] by blast
  have tn: "normalizeSectionIndex e t = t"
    unfolding t_def by (rule normalizeSectionIndex_idem)
  have ne: "t \<noteq> index (sectionState w)"
    unfolding t_def by (rule normalizeSectionIndex_step [OF assms]) simp
  have tt: "triggerTransition e isTouch w =
      (if max 0 (raw - min 1 raw) > 0
       then w3\<lparr>sectionState := (sectionState w3)\<lparr>pendingScrollCarry := max 0 (raw - min 1 raw)\<rparr>\<rparr>
       else w3)"
    unfolding triggerTransition_def Let_def w3_def w2_def raw_def t_def acc_def by simp
  have s3: "sectionState w3 =
      (fadeOutState n t (scrollDirection acc) (min 1 raw) w2)\<lparr>
         pendingPromise := Some (length (promises w)), phase := startedPhase (min 1 raw)\<rparr>"
    unfolding w3_def
    using sectionState_startSectionTransition [of e t w2 n "scrollDirection acc" "min 1 raw"] pos ne n
    by (simp add: tn w2_def)
  have c0: "pendingScrollCarry (sectionState w3) = 0"
    by (simp add: s3)
  have "sectionState (triggerTransition e isTouch w) =
      (sectionState w3)\<lparr>pendingScrollCarry := max 0 (raw - 1)\<rparr>"
  proof (cases "max 0 (raw - min 1 raw) > 0")
    case True
    then show ?thesis by (simp add: tt carry_simp)
  next
    case False
    then have z: "max 0 (raw - 1) = 0" by (simp add: carry_simp)
    have "(sectionState w3)\<lparr>pendingScrollCarry := 0\<rparr> = sectionState w3"
      using c0 by (cases "sectionState w3") simp
    then show ?thesis using False by (simp add: tt z)
  qed
  then show ?thesis
    using n unfolding s3 unfolding t_def raw_def acc_def w2_def by simp
qed



lemma scrollDirection_sign: "(if scrollDirection acc \<ge> 0 then 1 else - 1) = scrollDirection acc"
  by (simp add: scrollDirection_def)


lemma promises_initScrollTween [simp]:
  "promises (initScrollTween w) = promises w"
  by (simp add: initScrollTween_def Let_def)

lemma loadReactions_initScrollTween [simp]:
  "loadReactions (initScrollTween w) = loadReactions w"
  by (simp add: initScrollTween_def Let_def)

lemma console_initScrollTween [simp]:
  "console (initScrollTween w) = console w"
  by (simp add: initScrollTween_def Let_def)

lemma sectionAssets_initScrollTween [simp]:
  "sectionAssets (initScrollTween w) = sectionAssets w"
  by (simp add: initScrollTween_def Let_def)

lemma points_initScrollTween [simp]:
  "points (initScrollTween w) = points w"
  by (simp add: initScrollTween_def Let_def)

lemma cameraPathT_initScrollTween [simp]:
  "cameraPathT (initScrollTween w) = cameraPathT w"
  by (simp add: initScrollTween_def Let_def)

lemma cameraPathTarget_initScrollTween [simp]:
  "cameraPathTarget (initScrollTween w) = cameraPathTarget w"
  by (simp add: initScrollTween_def Let_def)

lemma cameraYawOffsetDeg_initScrollTween [simp]:
  "cameraYawOffsetDeg (initScrollTween w) = cameraYawOffsetDeg w"
  by (simp add: initScrollTween_def Let_def)

lemma cameraPitchOffsetDeg_initScrollTween [simp]:
  "cameraPitchOffsetDeg (initScrollTween w) = cameraPitchOffsetDeg w"
  by (simp add: initScrollTween_def Let_def)

lemma groupRotationY_initScrollTween [simp]:
  "groupRotationY (initScrollTween w) = groupRotationY w"
  by (simp add: initScrollTween_def Let_def)

lemma backgroundGradient_initScrollTween [simp]:
  "backgroundGradient (initScrollTween w) = backgroundGradient w"
  by (simp add: initScrollTween_def Let_def)

lemma backgroundTransition_initScrollTween [simp]:
  "backgroundTransition (initScrollTween w) = backgroundTransition w"
  by (simp add: initScrollTween_def Let_def)

lemma loadReactions_preloadMorphTarget [simp]:
  "loadReactions (preloadMorphTarget n w) = loadReactions w"
  by (simp add: preloadMorphTarget_def ensureSectionMorphTarget_def)

lemma console_preloadMorphTarget [simp]:
  "console (preloadMorphTarget n w) = console w"
  by (simp add: preloadMorphTarget_def ensureSectionMorphTarget_def)

lemma sectionAssets_preloadMorphTarget [simp]:
  "sectionAssets (preloadMorphTarget n w) = sectionAssets w"
  by (simp add: preloadMorphTarget_def ensureSectionMorphTarget_def)

lemma points_preloadMorphTarget [simp]:
  "points (preloadMorphTarget n w) = points w"
  by (simp add: preloadMorphTarget_def ensureSectionMorphTarget_def)

lemma cameraPathT_preloadMorphTarget [simp]:
  "cameraPathT (preloadMorphTarget n w) = cameraPathT w"
  by (simp add: preloadMorphTarget_def ensureSectionMorphTarget_def)

lemma cameraPathTarget_preloadMorphTarget [simp]:
  "cameraPathTarget (preloadMorphTarget n w) = cameraPathTarget w"
  by (simp add: preloadMorphTarget_def ensureSectionMorphTarget_def)

lemma cameraYawOffsetDeg_preloadMorphTarget [simp]:
  "cameraYawOffsetDeg (preloadMorphTarget n w) = cameraYawOffsetDeg w"
  by (simp add: preloadMorphTarget_def ensureSectionMorphTarget_def)

lemma cameraPitchOffsetDeg_preloadMorphTarget [simp]:
  "cameraPitchOffsetDeg (preloadMorphTarget n w) = cameraPitchOffsetDeg w"
  by (simp add: preloadMorphTarget_def ensureSectionMorphTarget_def)

lemma groupRotationY_preloadMorphTarget [simp]:
  "groupRotationY (preloadMorphTarget n w) = groupRotationY w"
  by (simp add: preloadMorphTarget_def ensureSectionMorphTarget_def)

lemma backgroundGradient_preloadMorphTarget [simp]:
  "backgroundGradient (preloadMorphTarget n w) = backgroundGradient w"
  by (simp add: preloadMorphTarget_def ensureSectionMorphTarget_def)

lemma backgroundTransition_preloadMorphTarget [simp]:
  "backgroundTransition (preloadMorphTarget n w) = backgroundTransition w"
  by (simp add: preloadMorphTarget_def ensureSectionMorphTarget_def)

lemma bt_animateBackgroundBlend [simp]:
  "bt_active (backgroundTransition (animateBackgroundBlend e t i w)) = bt_active (backgroundTransition w)"
  "bt_from (backgroundTransition (animateBackgroundBlend e t i w)) = bt_from (backgroundTransition w)"
  by (simp_all add: animateBackgroundBlend_def Let_def)

lemma bt_updateSectionTransition [simp]:
  "bt_active (backgroundTransition (updateSectionTransition e w)) = bt_active (backgroundTransition w)"
  "bt_from (backgroundTransition (updateSectionTransition e w)) = bt_from (backgroundTransition w)"
  by (simp_all add: updateSectionTransition_def Let_def split: phase.splits)

lemma geometrySourceOf_cong:
  "sectionAssets w' = sectionAssets w \<Longrightarrow> geometrySourceOf w' n = geometrySourceOf w n"
  by (simp add: geometrySourceOf_def getSectionAsset_def)

lemma promises_startSectionTransition_fadeOut:
  "promises (startSectionTransition_fadeOut e t n d p w) =
     promises w @ [\<lparr>pr_section = n, pr_source = geometrySourceOf w n, pr_preload = True,
                     pr_state = Pending\<rparr>]"
  by (simp add: startSectionTransition_fadeOut_def Let_def geometrySourceOf_def
        getSectionAsset_def split: option.splits)

lemma frame_startSectionTransition_fadeOut [simp]:
  "loadReactions (startSectionTransition_fadeOut e t n d p w) = loadReactions w"
  "console (startSectionTransition_fadeOut e t n d p w) = console w"
  "sectionAssets (startSectionTransition_fadeOut e t n d p w) = sectionAssets w"
  "pointsGeometry (startSectionTransition_fadeOut e t n d p w) = pointsGeometry w"
  by (simp_all add: startSectionTransition_fadeOut_def Let_def split: option.splits)

lemma groupRotationY_startSectionTransition_fadeOut [simp]:
  "groupRotationY (startSectionTransition_fadeOut e t n d p w) = groupRotationY w"
  by (simp add: startSectionTransition_fadeOut_def Let_def updateSectionTransition_rotation
        split: option.splits)

lemma bt_startSectionTransition_fadeOut:
  assumes "normalizeBackgroundInput (s_background n) = Some tc"
  shows "bt_active (backgroundTransition (startSectionTransition_fadeOut e t n d p w))"
    and "bt_from (backgroundTransition (startSectionTransition_fadeOut e t n d p w))
           = Some (backgroundGradient w)"
  using assms
  by (simp_all add: startSectionTransition_fadeOut_def Let_def startBackgroundBlend_def)

lemma frame_beginSectionLoad:
  assumes "nextSection (sectionState w) = Some n" and "pendingPromise (sectionState w) = Some q"
  shows "promises (beginSectionLoad e w) = promises w"
    and "loadReactions (beginSectionLoad e w) = loadReactions w @ [(q, n)]"
    and "console (beginSectionLoad e w) = console w"
    and "sectionAssets (beginSectionLoad e w) = sectionAssets w"
    and "pointsGeometry (beginSectionLoad e w) = pointsGeometry w"
  using assms by (simp_all add: beginSectionLoad_def Let_def)

lemma camera_beginSectionLoad:
  assumes "nextSection (sectionState w) = Some n" and "pendingPromise (sectionState w) = Some q"
    and "cameraStartPose (sectionState w) = Some s" and "cameraEndPose (sectionState w) = Some en"
  shows "cameraYawOffsetDeg (beginSectionLoad e w) = yaw en"
    and "cameraPitchOffsetDeg (beginSectionLoad e w) = pitch en"
  using assms
  by (simp_all add: beginSectionLoad_def Let_def phaseEase_def
        updateSectionTransition_camera [where s = s and en = en])

lemma frame_cancelTransition [simp]:
  "promises (cancelTransition e w) = promises w"
  "loadReactions (cancelTransition e w) = loadReactions w"
  "console (cancelTransition e w) = console w"
  "sectionAssets (cancelTransition e w) = sectionAssets w"
  by (simp_all add: cancelTransition_def Let_def)

lemma startSectionTransition_unfold:
  assumes "0 < getSectionCount e"
    and "normalizeSectionIndex e i \<noteq> index (sectionState w)"
    and "getSectionByIndex e (normalizeSectionIndex e i) = Some n"
  shows "startSectionTransition e i d p w =
     (if startedPhase p = Loading
      then beginSectionLoad e (startSectionTransition_fadeOut e (normalizeSectionIndex e i) n d p w)
      else startSectionTransition_fadeOut e (normalizeSectionIndex e i) n d p w)"
  using assms
  by (simp add: startSectionTransition_def Let_def sectionState_startSectionTransition_fadeOut
        startedPhase_def)

lemma frame_startSectionTransition:
  assumes "0 < getSectionCount e"
    and "normalizeSectionIndex e i \<noteq> index (sectionState w)"
    and "getSectionByIndex e (normalizeSectionIndex e i) = Some n"
  shows "promises (startSectionTransition e i d p w) =
           promises w @ [\<lparr>pr_section = n, pr_source = geometrySourceOf w n, pr_preload = True,
                           pr_state = Pending\<rparr>]"
    and "loadReactions (startSectionTransition e i d p w) =
           loadReactions w @ (if startedPhase p = Loading then [(length (promises w), n)] else [])"
    and "console (startSectionTransition e i d p w) = console w"
    and "sectionAssets (startSectionTransition e i d p w) = sectionAssets w"
    and "pointsGeometry (startSectionTransition e i d p w) = pointsGeometry w"
proof -
  let ?w5 = "startSectionTransition_fadeOut e (normalizeSectionIndex e i) n d p w"
  have a: "nextSection (sectionState ?w5) = Some n"
    and b: "pendingPromise (sectionState ?w5) = Some (length (promises w))"
    by (simp_all add: sectionState_startSectionTransition_fadeOut)
  note u = startSectionTransition_unfold [OF assms]
  note f = frame_beginSectionLoad [OF a b]
  show "promises (startSectionTransition e i d p w) =
           promises w @ [\<lparr>pr_section = n, pr_source = geometrySourceOf w n, pr_preload = True,
                           pr_state = Pending\<rparr>]"
    by (simp add: u f promises_startSectionTransition_fadeOut)
  show "loadReactions (startSectionTransition e i d p w) =
           loadReactions w @ (if startedPhase p = Loading then [(length (promises w), n)] else [])"
    by (simp add: u f)
  show "console (startSectionTransition e i d p w) = console w"
    by (simp add: u f)
  show "sectionAssets (startSectionTransition e i d p w) = sectionAssets w"
    by (simp add: u f)
  show "pointsGeometry (startSectionTransition e i d p w) = pointsGeometry w"
    by (simp add: u f)
qed

lemma yaw_startSectionTransition_loading:
  assumes "0 < getSectionCount e"
    and "normalizeSectionIndex e i \<noteq> index (sectionState w)"
    and "getSectionByIndex e (normalizeSectionIndex e i) = Some n"
    and "startedPhase p = Loading"
  shows "cameraYawOffsetDeg (startSectionTransition e i d p w) =
           yaw (the (cameraEndPose (fadeOutState n (normalizeSectionIndex e i) d p w)))"
proof -
  let ?w5 = "startSectionTransition_fadeOut e (normalizeSectionIndex e i) n d p w"
  let ?fs = "fadeOutState n (normalizeSectionIndex e i) d p w"
  obtain en where en: "cameraEndPose ?fs = Some en"
    by (simp add: fadeOutState_def Let_def)
  have a: "nextSection (sectionState ?w5) = Some n"
    and b: "pendingPromise (sectionState ?w5) = Some (length (promises w))"
    and c: "cameraStartPose (sectionState ?w5) = Some (getCurrentCameraPose w)"
    and d: "cameraEndPose (sectionState ?w5) = Some en"
    by (simp_all add: sectionState_startSectionTransition_fadeOut en)
  show ?thesis
    by (simp add: startSectionTransition_unfold [OF assms(1-3)] assms(4)
          camera_beginSectionLoad(1) [OF a b c d] en)
qed

lemma triggerTransition_eq:
  "triggerTransition e isTouch w =
     (if max 0 (overshootProgress isTouch (wheelAccumulator (sectionState w)) - 1) > 0
      then (triggerStart e isTouch w)\<lparr>sectionState := (sectionState (triggerStart e isTouch w))\<lparr>
              pendingScrollCarry :=
                max 0 (overshootProgress isTouch (wheelAccumulator (sectionState w)) - 1)\<rparr>\<rparr>
      else triggerStart e isTouch w)"
  unfolding triggerTransition_def Let_def triggerStart_def carry_simp by simp

lemma frame_triggerTransition:
  "promises (triggerTransition e isTouch w) = promises (triggerStart e isTouch w)"
  "loadReactions (triggerTransition e isTouch w) = loadReactions (triggerStart e isTouch w)"
  "console (triggerTransition e isTouch w) = console (triggerStart e isTouch w)"
  "sectionAssets (triggerTransition e isTouch w) = sectionAssets (triggerStart e isTouch w)"
  "points (triggerTransition e isTouch w) = points (triggerStart e isTouch w)"
  "cameraYawOffsetDeg (triggerTransition e isTouch w) = cameraYawOffsetDeg (triggerStart e isTouch w)"
  by (simp_all add: triggerTransition_eq)

text \<open>What a scroll that reaches the threshold leaves behind, from an idle state.\<close>

lemma applyScrollDelta_trigger:
  assumes "isReady (sectionState w)" and "phase (sectionState w) = Idle"
    and "2 \<le> getSectionCount e"
    and "\<bar>wheelAccumulator (sectionState w) + delta\<bar> \<ge> triggerThreshold isTouch"
    and "t = normalizeSectionIndex e (index (sectionState w)
                + (if wheelAccumulator (sectionState w) + delta > 0 then 1 else - 1))"
    and "ip = min 1 (overshootProgress isTouch (wheelAccumulator (sectionState w) + delta))"
    and "getSectionByIndex e t = Some n"
  shows "sectionState (applyScrollDelta e delta isTouch w) =
       (fadeOutState n t (scrollDirection (wheelAccumulator (sectionState w) + delta)) ip
          (w\<lparr>sectionState := (sectionState w)\<lparr>wheelAccumulator := 0\<rparr>\<rparr>))\<lparr>
        pendingPromise := Some (length (promises w)),
        phase := startedPhase ip,
        pendingScrollCarry :=
          max 0 (overshootProgress isTouch (wheelAccumulator (sectionState w) + delta) - 1)\<rparr>"
    and "promises (applyScrollDelta e delta isTouch w) =
           promises w @ [\<lparr>pr_section = n, pr_source = geometrySourceOf w n, pr_preload = True,
                           pr_state = Pending\<rparr>]"
    and "loadReactions (applyScrollDelta e delta isTouch w) =
           loadReactions w @ (if startedPhase ip = Loading then [(length (promises w), n)] else [])"
    and "console (applyScrollDelta e delta isTouch w) = console w"
    and "sectionAssets (applyScrollDelta e delta isTouch w) = sectionAssets w"
    and "pointsGeometry (applyScrollDelta e delta isTouch w) = pointsGeometry w"
proof -
  let ?acc = "wheelAccumulator (sectionState w) + delta"
  let ?w1 = "w\<lparr>sectionState := (sectionState w)\<lparr>wheelAccumulator := ?acc\<rparr>\<rparr>"
  let ?w2 = "w\<lparr>sectionState := (sectionState w)\<lparr>wheelAccumulator := 0\<rparr>\<rparr>"
  have eq: "applyScrollDelta e delta isTouch w = triggerTransition e isTouch ?w1"
    using assms(4) by (simp add: applyScrollDelta_rest [OF assms(1,2)])
  have pos: "0 < getSectionCount e" using assms(3) by simp
  have tn: "normalizeSectionIndex e t = t"
    unfolding assms(5) by (rule normalizeSectionIndex_idem)
  have "t \<noteq> index (sectionState w)"
    unfolding assms(5) by (rule normalizeSectionIndex_step [OF assms(3)]) simp
  then have ne: "normalizeSectionIndex e t \<noteq> index (sectionState ?w2)"
    by (simp add: tn)
  have n': "getSectionByIndex e (normalizeSectionIndex e t) = Some n"
    unfolding tn by (rule assms(7))
  have ts: "triggerStart e isTouch ?w1
      = startSectionTransition e t (scrollDirection ?acc) ip ?w2"
    by (simp add: triggerStart_def assms(5,6))
  note f = frame_startSectionTransition [OF pos ne n', of "scrollDirection ?acc" ip]
  from sectionState_triggerTransition [OF assms(3), of ?w1 isTouch] assms(7)
  show "sectionState (applyScrollDelta e delta isTouch w) =
       (fadeOutState n t (scrollDirection ?acc) ip ?w2)\<lparr>
        pendingPromise := Some (length (promises w)),
        phase := startedPhase ip,
        pendingScrollCarry := max 0 (overshootProgress isTouch ?acc - 1)\<rparr>"
    by (auto simp: eq assms(5,6))
  show "promises (applyScrollDelta e delta isTouch w) =
           promises w @ [\<lparr>pr_section = n, pr_source = geometrySourceOf w n, pr_preload = True,
                           pr_state = Pending\<rparr>]"
    using f(1) by (simp add: eq frame_triggerTransition ts geometrySourceOf_def getSectionAsset_def)
  show "loadReactions (applyScrollDelta e delta isTouch w) =
           loadReactions w @ (if startedPhase ip = Loading then [(length (promises w), n)] else [])"
    using f(2) by (simp add: eq frame_triggerTransition ts)
  show "console (applyScrollDelta e delta isTouch w) = console w"
    using f(3) by (simp add: eq frame_triggerTransition ts)
  show "sectionAssets (applyScrollDelta e delta isTouch w) = sectionAssets w"
    using f(4) by (simp add: eq frame_triggerTransition ts)
  show "pointsGeometry (applyScrollDelta e delta isTouch w) = pointsGeometry w"
    using f(5) by (simp add: eq frame_triggerTransition ts)
qed

lemma frame_setPoints [simp]:
  "promises (setPointsMorphTarget a w) = promises w"
  "loadReactions (setPointsMorphTarget a w) = loadReactions w"
  "console (setPointsMorphTarget a w) = console w"
  "promises (setPointsMorphColor a w) = promises w"
  "loadReactions (setPointsMorphColor a w) = loadReactions w"
  "console (setPointsMorphColor a w) = console w"
  by (simp_all add: setPointsMorphTarget_def setPointsMorphColor_def split: option.splits)

lemma frame_updateAsset [simp]:
  "promises (updateAsset k f w) = promises w"
  "loadReactions (updateAsset k f w) = loadReactions w"
  "console (updateAsset k f w) = console w"
  "points (updateAsset k f w) = points w"
  by (simp_all add: updateAsset_def)

lemma frame_ensureSectionMorphTarget_then [simp]:
  "sectionState (snd (ensureSectionMorphTarget_then sec g w)) = sectionState w"
  "promises (snd (ensureSectionMorphTarget_then sec g w)) = promises w"
  "loadReactions (snd (ensureSectionMorphTarget_then sec g w)) = loadReactions w"
  "console (snd (ensureSectionMorphTarget_then sec g w)) = console w"
  by (simp_all add: ensureSectionMorphTarget_then_def Let_def split: option.splits)

lemma frame_settleSource [simp]:
  "sectionState (snd (settleSource p outcome w)) = sectionState w"
  "promises (snd (settleSource p outcome w)) = promises w"
  "loadReactions (snd (settleSource p outcome w)) = loadReactions w"
  by (simp_all add: settleSource_def split: geometrySource.splits loadOutcome.splits)

lemma settleMorphPromise_preload_fields:
  assumes "pid < length (promises w)"
    and "pr_state (promises w ! pid) = Pending"
    and "pr_preload (promises w ! pid)"
  shows "sectionState (settleMorphPromise e pid outcome w) =
           (sectionState w)\<lparr>morphReady := (fst (settleSource (promises w ! pid) outcome w) = None)\<rparr>"
    and "promises (settleMorphPromise e pid outcome w) =
           (promises w)[pid := (promises w ! pid)\<lparr>pr_state := Fulfilled\<rparr>]"
    and "loadReactions (settleMorphPromise e pid outcome w) = loadReactions w"
    and "console (settleMorphPromise e pid outcome w) =
           console (snd (settleSource (promises w ! pid) outcome w))
           @ (if fst (settleSource (promises w ! pid) outcome w) = None then []
              else [''[sections] morph preload failed''])"
    and "pointsGeometry (settleMorphPromise e pid outcome w) =
           pointsGeometry (snd (settleSource (promises w ! pid) outcome w))"
  using assms
  by (simp_all add: settleMorphPromise_def settleChain_def Let_def morphPreload_then_def
        morphPreload_catch_def split: option.splits)

lemma runLoadReactions_none:
  "loadReactions w = [] \<Longrightarrow> runLoadReactions e w = w"
  by (simp add: runLoadReactions_def)

lemma runLoadReactions_single:
  assumes "loadReactions w = [(pid, n)]" and "pid < length (promises w)"
    and "pr_state (promises w ! pid) = Fulfilled"
  shows "runLoadReactions e w = sectionLoad_then e n (w\<lparr>loadReactions := []\<rparr>)"
  using assms by (simp add: runLoadReactions_def isSettled_def runReaction_def)

lemma sectionState_enterFadeIn:
  "sectionState (enterFadeIn e w) =
     (sectionState w)\<lparr>morphReady := True, index := nextIndex (sectionState w),
        scatterRest := nextScatterRest (sectionState w),
        transitionProgress := min 1 (pendingScrollCarry (sectionState w)),
        pendingScrollCarry := max 0 (pendingScrollCarry (sectionState w)
                                      - min 1 (pendingScrollCarry (sectionState w))),
        phase := FadeIn\<rparr>"
  by (simp add: enterFadeIn_def Let_def)

lemma frame_enterFadeIn [simp]:
  "console (enterFadeIn e w) = console w"
  "promises (enterFadeIn e w) = promises w"
  "loadReactions (enterFadeIn e w) = loadReactions w"
  "pointsGeometry (enterFadeIn e w) = pointsGeometry w"
  "sectionAssets (enterFadeIn e w) = sectionAssets w"
  by (simp_all add: enterFadeIn_def Let_def)

lemma sectionLoad_then_eq:
  "sectionLoad_then e n w =
     (if min 1 (pendingScrollCarry (sectionState w)) \<ge> 1 - 1 / 10000
      then completeFadeIn e (enterFadeIn e w) else enterFadeIn e w)"
  by (simp add: sectionLoad_then_def Let_def sectionState_enterFadeIn)

lemmas const_defs =
  SECTION_TRANSITION_wheelThreshold_def SECTION_TRANSITION_scrollScale_def
  SCROLL_TRIGGER_THRESHOLD_def TOUCH_TRIGGER_THRESHOLD_def SCROLL_PROGRESS_SCALE_def
  TOUCH_PROGRESS_SCALE_def triggerThreshold_def progressScaleOf_def scrollDirection_def
  overshootProgress_def startedPhase_def clamp_def

lemma repoEnv_count [simp]: "getSectionCount repoEnv = 5"
  by (simp add: getSectionCount_def repoEnv_def repoSections_def)

lemma repoEnv_normalize [simp]:
  "normalizeSectionIndex repoEnv 1 = 1" "normalizeSectionIndex repoEnv (- 1) = 4"
  "normalizeSectionIndex repoEnv 5 = 0"
  by (simp_all add: normalizeSectionIndex_mod)

lemma repoEnv_sections [simp]:
  "getSectionByIndex repoEnv 1 = Some sec_harbour"
  "getSectionByIndex repoEnv 4 = Some sec_nature"
  by (simp_all add: getSectionByIndex_def normalizeSectionIndex_mod)
     (simp_all add: repoEnv_def repoSections_def)

lemma booted_state [simp]:
  "isReady (sectionState bootedWorld)" "phase (sectionState bootedWorld) = Idle"
  "index (sectionState bootedWorld) = 0" "wheelAccumulator (sectionState bootedWorld) = 0"
  "promises bootedWorld = []" "loadReactions bootedWorld = []" "console bootedWorld = []"
  "points bootedWorld = Some bootedPoints"
  by (simp_all add: bootedWorld_def)

lemma booted_sources [simp]:
  "geometrySourceOf bootedWorld sec_harbour = FromLoader"
  "geometrySourceOf bootedWorld sec_nature = FromLoader"
  by (simp_all add: geometrySourceOf_def getSectionAsset_def bootedWorld_def initialAssets_def
        repoSections_def sec_intro_def sec_harbour_def sec_midtown_def sec_closer_def
        sec_nature_def mkSection_def)

lemma loadingWorld_facts:
  "sectionState loadingWorld =
     (fadeOutState sec_harbour 1 1 1
        (bootedWorld\<lparr>sectionState := (sectionState bootedWorld)\<lparr>wheelAccumulator := 0\<rparr>\<rparr>))\<lparr>
      pendingPromise := Some 0, phase := Loading, pendingScrollCarry := 0\<rparr>"
  "promises loadingWorld =
     [\<lparr>pr_section = sec_harbour, pr_source = FromLoader, pr_preload = True, pr_state = Pending\<rparr>]"
  "loadReactions loadingWorld = [(0, sec_harbour)]"
  "console loadingWorld = []"
  "pointsGeometry loadingWorld = Some (p_geometry bootedPoints)"
  unfolding loadingWorld_def
  using applyScrollDelta_trigger [where w = bootedWorld and e = repoEnv and delta = 980
      and isTouch = False and t = 1 and ip = 1 and n = sec_harbour]
  by (simp_all add: const_defs)

lemma loadingWorld_state [simp]:
  "phase (sectionState loadingWorld) = Loading"
  "isReady (sectionState loadingWorld)"
  "index (sectionState loadingWorld) = 0"
  "nextIndex (sectionState loadingWorld) = 1"
  "pendingScrollCarry (sectionState loadingWorld) = 0"
  "direction (sectionState loadingWorld) = 1"
  "transitionProgress (sectionState loadingWorld) = 1"
  by (simp_all add: loadingWorld_facts(1) clamp_def)

text \<open>
  C4 on the code. From the booted state a wheel event of 980 takes the machine to loading
  toward section 1. When the loader then reports an error for the model of section 1, the
  machine does not abort to idle: it enters fadeIn, the section index becomes 1, and the
  only console.error message is the one of the preload handler of startSectionTransition. That
  handler turns the rejection into a fulfilled promise, so the catch handler of
  beginSectionLoad (which would reset to idle) never runs.
\<close>

theorem failed_load_enters_fadeIn:
  "phase (sectionState (dispatch repoEnv (LoadSettles 0 (LoadFailed ''404'')) loadingWorld)) = FadeIn
   \<and> index (sectionState (dispatch repoEnv (LoadSettles 0 (LoadFailed ''404'')) loadingWorld)) = 1
   \<and> index (sectionState loadingWorld) = 0
   \<and> morphReady (sectionState (dispatch repoEnv (LoadSettles 0 (LoadFailed ''404'')) loadingWorld))
   \<and> console (dispatch repoEnv (LoadSettles 0 (LoadFailed ''404'')) loadingWorld)
        = [''[sections] morph preload failed'']"
proof -
  let ?W = "settleMorphPromise repoEnv 0 (LoadFailed ''404'') loadingWorld"
  have src: "settleSource (promises loadingWorld ! 0) (LoadFailed ''404'') loadingWorld
      = (Some ''404'', loadingWorld)"
    by (simp add: loadingWorld_facts(2) settleSource_def)
  have pre: "0 < length (promises loadingWorld)" "pr_state (promises loadingWorld ! 0) = Pending"
      "pr_preload (promises loadingWorld ! 0)"
    by (simp_all add: loadingWorld_facts(2))
  note f = settleMorphPromise_preload_fields [OF pre, of repoEnv "LoadFailed ''404''"]
  have st: "sectionState ?W = (sectionState loadingWorld)\<lparr>morphReady := False\<rparr>"
    using f(1) by (simp add: src)
  have pr: "promises ?W = [\<lparr>pr_section = sec_harbour, pr_source = FromLoader, pr_preload = True,
                             pr_state = Fulfilled\<rparr>]"
    using f(2) by (simp add: loadingWorld_facts(2))
  have lr: "loadReactions ?W = [(0, sec_harbour)]"
    using f(3) by (simp add: loadingWorld_facts(3))
  have co: "console ?W = [''[sections] morph preload failed'']"
    using f(4) by (simp add: src loadingWorld_facts(4))
  have run: "runLoadReactions repoEnv ?W = sectionLoad_then repoEnv sec_harbour (?W\<lparr>loadReactions := []\<rparr>)"
    by (rule runLoadReactions_single [OF lr]) (simp_all add: pr)
  have d: "dispatch repoEnv (LoadSettles 0 (LoadFailed ''404'')) loadingWorld
      = enterFadeIn repoEnv (?W\<lparr>loadReactions := []\<rparr>)"
    by (simp add: dispatch_def run sectionLoad_then_eq st)
  show ?thesis
    unfolding d by (simp add: sectionState_enterFadeIn st co)
qed

theorem startSectionTransition_same_section_noop_witness:
  "normalizeSectionIndex repoEnv 5 = index (sectionState bootedWorld)
   \<and> phase (sectionState bootedWorld) \<noteq> Boot
   \<and> startSectionTransition repoEnv 5 1 0 bootedWorld = bootedWorld"
proof -
  have h1: "normalizeSectionIndex repoEnv 5 = index (sectionState bootedWorld)" by simp
  have h2: "phase (sectionState bootedWorld) \<noteq> Boot" by simp
  from startSectionTransition_same_section_noop [OF h1 h2, of 1 0] h1 h2
  show ?thesis by simp
qed


text \<open>
  C6, as the code has it. A scroll delta received while loading leaves the phase and the
  transition progress as they are. The delta, divided by the progress scale and signed by
  the direction of the transition, is added to the pending scroll carry when it is
  positive; a delta against the direction of the transition changes nothing at all. The
  rest of the state is untouched.
\<close>

theorem loading_scroll_feeds_carry_forward_only:
  assumes "isReady (sectionState w)" and "phase (sectionState w) = Loading"
  shows "phase (sectionState (applyScrollDelta e delta isTouch w)) = Loading
     \<and> transitionProgress (sectionState (applyScrollDelta e delta isTouch w))
         = transitionProgress (sectionState w)
     \<and> applyScrollDelta e delta isTouch w =
         w\<lparr>sectionState := (sectionState w)\<lparr>pendingScrollCarry :=
              pendingScrollCarry (sectionState w)
              + max 0 (signedStep (sectionState w) (delta / progressScaleOf isTouch))\<rparr>\<rparr>"
proof (cases "signedStep (sectionState w) (delta / progressScaleOf isTouch) > 0")
  case True
  then show ?thesis
    using assms(2) by (simp add: applyScrollDelta_loading [OF assms] max_def)
next
  case False
  then have "max 0 (signedStep (sectionState w) (delta / progressScaleOf isTouch)) = 0"
    by simp
  then show ?thesis
    using assms(2) False by (simp add: applyScrollDelta_loading [OF assms])
qed

theorem loading_scroll_feeds_carry_forward_only_witness:
  "isReady (sectionState loadingWorld) \<and> phase (sectionState loadingWorld) = Loading
   \<and> phase (sectionState (applyScrollDelta repoEnv 90 False loadingWorld)) = Loading
   \<and> transitionProgress (sectionState (applyScrollDelta repoEnv 90 False loadingWorld)) = 1
   \<and> pendingScrollCarry (sectionState (applyScrollDelta repoEnv 90 False loadingWorld)) = 1 / 10"
proof -
  have h1: "isReady (sectionState loadingWorld)" by simp
  have h2: "phase (sectionState loadingWorld) = Loading" by simp
  from loading_scroll_feeds_carry_forward_only [OF h1 h2, of repoEnv 90 False]
  show ?thesis by (simp add: signedStep_def const_defs)
qed

theorem loading_backward_scroll_dropped:
  "pendingScrollCarry (sectionState (applyScrollDelta repoEnv (- 90) False loadingWorld))
     \<noteq> pendingScrollCarry (sectionState loadingWorld)
         + (- 90) / progressScaleOf False * direction (sectionState loadingWorld)"
proof -
  have h1: "isReady (sectionState loadingWorld)" by simp
  have h2: "phase (sectionState loadingWorld) = Loading" by simp
  show ?thesis
    by (simp add: applyScrollDelta_loading [OF h1 h2] signedStep_def const_defs)
qed

lemma advanceTransitionProgress_overshoot:
  assumes "phase (sectionState w) = FadeOut"
    and "signedStep (sectionState w) stepRaw \<noteq> 0"
    and "transitionProgress (sectionState w) + signedStep (sectionState w) stepRaw \<ge> 1"
  shows "advanceTransitionProgress e stepRaw w =
     beginSectionLoad e (updateSectionTransition e
       (w\<lparr>sectionState := (sectionState w)\<lparr>
            pendingScrollCarry := pendingScrollCarry (sectionState w)
              + max 0 (transitionProgress (sectionState w) + signedStep (sectionState w) stepRaw - 1),
            transitionProgress := 1\<rparr>\<rparr>))"
proof -
  have "\<not> transitionProgress (sectionState w) + signedStep (sectionState w) stepRaw \<le> 0"
    using assms(3) by simp
  then show ?thesis
    using assms
    by (subst advanceTransitionProgress.simps) (simp add: signedStep_def Let_def)
qed

lemma completeFadeIn_commit_carry [simp]:
  "pendingScrollCarry (sectionState (completeFadeIn_commit e w)) = pendingScrollCarry (sectionState w)"
  "direction (sectionState (completeFadeIn_commit e w)) = direction (sectionState w)"
  by (simp_all add: sectionState_completeFadeIn_commit sectionState_completeFadeIn_snap)

lemma completeFadeIn_replay:
  "completeFadeIn e w =
     (if pendingScrollCarry (sectionState w) > 1 / 10000
      then applyScrollDelta e
             (pendingScrollCarry (sectionState w) * SCROLL_PROGRESS_SCALE * direction (sectionState w))
             False (commitCleared e w)
      else commitCleared e w)"
  by (subst completeFadeIn.simps) (simp add: Let_def commitCleared_def)

text \<open>
  C2, as the code has it. When a step takes a fadeOut to progress 1 or beyond, the
  machine enters loading with progress 1 and the excess beyond 1 added to the pending
  scroll carry. When the load resolves, fadeIn is entered at progress min(1, carry): the
  carry is consumed at once as initial fadeIn progress, and only the excess beyond 1 stays
  pending. If that progress is at least 1 - 1e-4, completeFadeIn runs in the same
  synchronous step; completeFadeIn replays a left-over carry above 1e-4 as a new scroll
  delta in the direction of the transition.
\<close>

theorem fadeOut_overshoot_carried_into_fadeIn:
  assumes "phase (sectionState w) = FadeOut"
    and "signedStep (sectionState w) stepRaw \<noteq> 0"
    and "transitionProgress (sectionState w) + signedStep (sectionState w) stepRaw \<ge> 1"
    and "nextSection (sectionState w) = Some n"
    and "pendingPromise (sectionState w) = Some q"
  shows "phase (sectionState (advanceTransitionProgress e stepRaw w)) = Loading
     \<and> transitionProgress (sectionState (advanceTransitionProgress e stepRaw w)) = 1
     \<and> pendingScrollCarry (sectionState (advanceTransitionProgress e stepRaw w))
         = pendingScrollCarry (sectionState w)
           + (transitionProgress (sectionState w) + signedStep (sectionState w) stepRaw - 1)
     \<and> loadReactions (advanceTransitionProgress e stepRaw w) = loadReactions w @ [(q, n)]
     \<and> phase (sectionState (enterFadeIn e v)) = FadeIn
     \<and> transitionProgress (sectionState (enterFadeIn e v)) = min 1 (pendingScrollCarry (sectionState v))
     \<and> pendingScrollCarry (sectionState (enterFadeIn e v))
         = max 0 (pendingScrollCarry (sectionState v) - 1)
     \<and> index (sectionState (enterFadeIn e v)) = nextIndex (sectionState v)
     \<and> sectionLoad_then e n v =
         (if min 1 (pendingScrollCarry (sectionState v)) \<ge> 1 - 1 / 10000
          then completeFadeIn e (enterFadeIn e v) else enterFadeIn e v)
     \<and> completeFadeIn e u =
         (if pendingScrollCarry (sectionState u) > 1 / 10000
          then applyScrollDelta e
                 (pendingScrollCarry (sectionState u) * SCROLL_PROGRESS_SCALE * direction (sectionState u))
                 False (commitCleared e u)
          else commitCleared e u)"
proof -
  let ?w' = "updateSectionTransition e
       (w\<lparr>sectionState := (sectionState w)\<lparr>
            pendingScrollCarry := pendingScrollCarry (sectionState w)
              + max 0 (transitionProgress (sectionState w) + signedStep (sectionState w) stepRaw - 1),
            transitionProgress := 1\<rparr>\<rparr>)"
  have a: "advanceTransitionProgress e stepRaw w = beginSectionLoad e ?w'"
    by (rule advanceTransitionProgress_overshoot [OF assms(1-3)])
  have n: "nextSection (sectionState ?w') = Some n" and q: "pendingPromise (sectionState ?w') = Some q"
    using assms(4,5) by simp_all
  have m: "max 0 (transitionProgress (sectionState w) + signedStep (sectionState w) stepRaw - 1)
      = transitionProgress (sectionState w) + signedStep (sectionState w) stepRaw - 1"
    using assms(3) by simp
  have s: "sectionState (advanceTransitionProgress e stepRaw w) = (sectionState ?w')\<lparr>phase := Loading\<rparr>"
    unfolding a by (rule sectionState_beginSectionLoad [OF n q])
  have l: "loadReactions (advanceTransitionProgress e stepRaw w) = loadReactions w @ [(q, n)]"
    unfolding a using frame_beginSectionLoad(2) [OF n q, of e] by simp
  have r: "completeFadeIn e u =
         (if pendingScrollCarry (sectionState u) > 1 / 10000
          then applyScrollDelta e
                 (pendingScrollCarry (sectionState u) * SCROLL_PROGRESS_SCALE * direction (sectionState u))
                 False (commitCleared e u)
          else commitCleared e u)"
    by (rule completeFadeIn_replay)
  have t: "sectionLoad_then e n v =
         (if min 1 (pendingScrollCarry (sectionState v)) \<ge> 1 - 1 / 10000
          then completeFadeIn e (enterFadeIn e v) else enterFadeIn e v)"
    by (rule sectionLoad_then_eq)
  have f: "phase (sectionState (enterFadeIn e v)) = FadeIn
     \<and> transitionProgress (sectionState (enterFadeIn e v)) = min 1 (pendingScrollCarry (sectionState v))
     \<and> pendingScrollCarry (sectionState (enterFadeIn e v))
         = max 0 (pendingScrollCarry (sectionState v) - 1)
     \<and> index (sectionState (enterFadeIn e v)) = nextIndex (sectionState v)"
    by (simp add: sectionState_enterFadeIn carry_simp)
  have g: "phase (sectionState (advanceTransitionProgress e stepRaw w)) = Loading
     \<and> transitionProgress (sectionState (advanceTransitionProgress e stepRaw w)) = 1
     \<and> pendingScrollCarry (sectionState (advanceTransitionProgress e stepRaw w))
         = pendingScrollCarry (sectionState w)
           + (transitionProgress (sectionState w) + signedStep (sectionState w) stepRaw - 1)"
    by (simp add: s m)
  from g l f t r show ?thesis by blast
qed

lemma hex_eval [simp]:
  "hexMatch ''#4f6469'' = Some ''4f6469''" "hexMatch ''#162227'' = Some ''162227''"
  "hexMatch ''#000000'' = Some ''000000''"
  "hexOf ''4f6469'' = ''#4f6469''" "hexOf ''162227'' = ''#162227''"
  "hexOf ''000000'' = ''#000000''"
  by (simp_all add: hexMatch_def isHexDigit_def hexOf_def toLowerCase_def)

lemma harbour_background [simp]:
  "normalizeBackgroundInput (s_background sec_harbour)
     = Some \<lparr>g_top = ''#4f6469'', g_mid = ''#162227'', g_bottom = ''#000000''\<rparr>"
  by (simp add: sec_harbour_def mkSection_def normalizeBackgroundInput_def truthy_def jsOr_def
        Let_def)

lemma booted_gradient_normalized:
  "normalizedGradient (backgroundGradient bootedWorld)"
  by (simp add: bootedWorld_def normalizedGradient_def isNormalizedHex_def)

lemma frame_triggerTransition_more:
  "backgroundTransition (triggerTransition e isTouch w) = backgroundTransition (triggerStart e isTouch w)"
  "backgroundGradient (triggerTransition e isTouch w) = backgroundGradient (triggerStart e isTouch w)"
  "cameraPitchOffsetDeg (triggerTransition e isTouch w) = cameraPitchOffsetDeg (triggerStart e isTouch w)"
  "groupRotationY (triggerTransition e isTouch w) = groupRotationY (triggerStart e isTouch w)"
  by (simp_all add: triggerTransition_eq)

lemma applyScrollDelta_trigger_blend:
  assumes "isReady (sectionState w)" and "phase (sectionState w) = Idle"
    and "2 \<le> getSectionCount e"
    and "\<bar>wheelAccumulator (sectionState w) + delta\<bar> \<ge> triggerThreshold isTouch"
    and "t = normalizeSectionIndex e (index (sectionState w)
                + (if wheelAccumulator (sectionState w) + delta > 0 then 1 else - 1))"
    and "ip = min 1 (overshootProgress isTouch (wheelAccumulator (sectionState w) + delta))"
    and "getSectionByIndex e t = Some n"
    and "startedPhase ip = FadeOut"
    and "normalizeBackgroundInput (s_background n) = Some tc"
  shows "bt_active (backgroundTransition (applyScrollDelta e delta isTouch w))"
    and "bt_from (backgroundTransition (applyScrollDelta e delta isTouch w))
           = Some (backgroundGradient w)"
proof -
  let ?acc = "wheelAccumulator (sectionState w) + delta"
  let ?w1 = "w\<lparr>sectionState := (sectionState w)\<lparr>wheelAccumulator := ?acc\<rparr>\<rparr>"
  let ?w2 = "w\<lparr>sectionState := (sectionState w)\<lparr>wheelAccumulator := 0\<rparr>\<rparr>"
  have eq: "applyScrollDelta e delta isTouch w = triggerTransition e isTouch ?w1"
    using assms(4) by (simp add: applyScrollDelta_rest [OF assms(1,2)])
  have pos: "0 < getSectionCount e" using assms(3) by simp
  have tn: "normalizeSectionIndex e t = t"
    unfolding assms(5) by (rule normalizeSectionIndex_idem)
  have "t \<noteq> index (sectionState w)"
    unfolding assms(5) by (rule normalizeSectionIndex_step [OF assms(3)]) simp
  then have ne: "normalizeSectionIndex e t \<noteq> index (sectionState ?w2)"
    by (simp add: tn)
  have n': "getSectionByIndex e (normalizeSectionIndex e t) = Some n"
    unfolding tn by (rule assms(7))
  have ts: "triggerStart e isTouch ?w1
      = startSectionTransition_fadeOut e t n (scrollDirection ?acc) ip ?w2"
    using startSectionTransition_unfold [OF pos ne n', of "scrollDirection ?acc" ip] assms(8)
    by (simp add: triggerStart_def assms(5,6) normalizeSectionIndex_idem)
  show "bt_active (backgroundTransition (applyScrollDelta e delta isTouch w))"
    using bt_startSectionTransition_fadeOut(1) [OF assms(9), of e t "scrollDirection ?acc" ip ?w2]
    by (simp add: eq frame_triggerTransition_more ts)
  show "bt_from (backgroundTransition (applyScrollDelta e delta isTouch w))
           = Some (backgroundGradient w)"
    using bt_startSectionTransition_fadeOut(2) [OF assms(9), of e t "scrollDirection ?acc" ip ?w2]
    by (simp add: eq frame_triggerTransition_more ts)
qed

lemma fadeOutWorld_facts:
  "sectionState fadeOutWorld =
     (fadeOutState sec_harbour 1 1 (1 / 10)
        (bootedWorld\<lparr>sectionState := (sectionState bootedWorld)\<lparr>wheelAccumulator := 0\<rparr>\<rparr>))\<lparr>
      pendingPromise := Some 0, phase := FadeOut, pendingScrollCarry := 0\<rparr>"
  "promises fadeOutWorld =
     [\<lparr>pr_section = sec_harbour, pr_source = FromLoader, pr_preload = True, pr_state = Pending\<rparr>]"
  "loadReactions fadeOutWorld = []"
  "console fadeOutWorld = []"
  "pointsGeometry fadeOutWorld = Some (p_geometry bootedPoints)"
  unfolding fadeOutWorld_def
  using applyScrollDelta_trigger [where w = bootedWorld and e = repoEnv and delta = 170
      and isTouch = False and t = 1 and ip = "1 / 10" and n = sec_harbour]
  by (simp_all add: const_defs)

lemma fadeOutWorld_state [simp]:
  "phase (sectionState fadeOutWorld) = FadeOut"
  "isReady (sectionState fadeOutWorld)"
  "index (sectionState fadeOutWorld) = 0"
  "direction (sectionState fadeOutWorld) = 1"
  "transitionProgress (sectionState fadeOutWorld) = 1 / 10"
  "pendingScrollCarry (sectionState fadeOutWorld) = 0"
  "wheelAccumulator (sectionState fadeOutWorld) = 0"
  "nextSection (sectionState fadeOutWorld) = Some sec_harbour"
  "pendingPromise (sectionState fadeOutWorld) = Some 0"
  "rotationStart (sectionState fadeOutWorld) = 0"
  "cameraStartPose (sectionState fadeOutWorld) = Some \<lparr>pathT = 1 / 10, yaw = - 18, pitch = - 8\<rparr>"
  by (simp_all add: fadeOutWorld_facts(1) clamp_def getCurrentCameraPose_def bootedWorld_def)

lemma fadeOutWorld_blend:
  "bt_active (backgroundTransition fadeOutWorld)"
  "bt_from (backgroundTransition fadeOutWorld) = Some (backgroundGradient bootedWorld)"
  unfolding fadeOutWorld_def
  using applyScrollDelta_trigger_blend [where w = bootedWorld and e = repoEnv and delta = 170
      and isTouch = False and t = 1 and ip = "1 / 10" and n = sec_harbour
      and tc = "\<lparr>g_top = ''#4f6469'', g_mid = ''#162227'', g_bottom = ''#000000''\<rparr>"]
  by (simp_all add: const_defs)

lemma fadeOutWorld_snapshot:
  "snapshotNormalized fadeOutWorld"
  "backgroundSnapshot fadeOutWorld = backgroundGradient bootedWorld"
  using booted_gradient_normalized
  by (simp_all add: snapshotNormalized_def backgroundSnapshot_def fadeOutWorld_blend)

theorem fadeOut_reversal_cancels_witness:
  "phase (sectionState fadeOutWorld) = FadeOut
   \<and> signedStep (sectionState fadeOutWorld) (- 1 / 9) \<noteq> 0
   \<and> transitionProgress (sectionState fadeOutWorld) + signedStep (sectionState fadeOutWorld) (- 1 / 9) \<le> 0
   \<and> cameraStartPose (sectionState fadeOutWorld) = Some \<lparr>pathT = 1 / 10, yaw = - 18, pitch = - 8\<rparr>
   \<and> snapshotNormalized fadeOutWorld
   \<and> phase (sectionState (advanceTransitionProgress repoEnv (- 1 / 9) fadeOutWorld)) = Idle
   \<and> transitionProgress (sectionState (advanceTransitionProgress repoEnv (- 1 / 9) fadeOutWorld)) = 0
   \<and> pendingScrollCarry (sectionState (advanceTransitionProgress repoEnv (- 1 / 9) fadeOutWorld)) = 0
   \<and> index (sectionState (advanceTransitionProgress repoEnv (- 1 / 9) fadeOutWorld)) = 0
   \<and> groupRotationY (advanceTransitionProgress repoEnv (- 1 / 9) fadeOutWorld) = groupRotationY bootedWorld
   \<and> cameraYawOffsetDeg (advanceTransitionProgress repoEnv (- 1 / 9) fadeOutWorld)
        = cameraYawOffsetDeg bootedWorld
   \<and> cameraPitchOffsetDeg (advanceTransitionProgress repoEnv (- 1 / 9) fadeOutWorld)
        = cameraPitchOffsetDeg bootedWorld
   \<and> cameraPathTarget (advanceTransitionProgress repoEnv (- 1 / 9) fadeOutWorld)
        = cameraPathTarget bootedWorld
   \<and> backgroundGradient (advanceTransitionProgress repoEnv (- 1 / 9) fadeOutWorld)
        = backgroundGradient bootedWorld
   \<and> pointsGeometry (advanceTransitionProgress repoEnv (- 1 / 9) fadeOutWorld)
        = pointsGeometry bootedWorld"
proof -
  have h1: "phase (sectionState fadeOutWorld) = FadeOut" by simp
  have h2: "signedStep (sectionState fadeOutWorld) (- 1 / 9) \<noteq> 0"
    by (simp add: signedStep_def)
  have h3: "transitionProgress (sectionState fadeOutWorld)
      + signedStep (sectionState fadeOutWorld) (- 1 / 9) \<le> 0"
    by (simp add: signedStep_def)
  have h4: "cameraStartPose (sectionState fadeOutWorld)
      = Some \<lparr>pathT = 1 / 10, yaw = - 18, pitch = - 8\<rparr>" by simp
  have h5: "0 \<le> pathT \<lparr>pathT = 1 / 10, yaw = - 18, pitch = - 8\<rparr>" by simp
  have h6: "pathT \<lparr>pathT = 1 / 10, yaw = - 18, pitch = - 8\<rparr> \<le> 1" by simp
  have h7: "snapshotNormalized fadeOutWorld" by (rule fadeOutWorld_snapshot(1))
  have b: "groupRotationY bootedWorld = 0" "cameraYawOffsetDeg bootedWorld = - 18"
    "cameraPitchOffsetDeg bootedWorld = - 8" "cameraPathTarget bootedWorld = 1 / 10"
    by (simp_all add: bootedWorld_def)
  from fadeOut_reversal_cancels [OF h1 h2 h3 h4 h5 h6 h7, of repoEnv] h1 h2 h3 h4 h7
  show ?thesis
    by (simp add: fadeOutWorld_snapshot(2) fadeOutWorld_facts(5) b)
qed

lemma carryWorld_facts:
  "sectionState carryWorld =
     (fadeOutState sec_harbour 1 1 1
        (bootedWorld\<lparr>sectionState := (sectionState bootedWorld)\<lparr>wheelAccumulator := 0\<rparr>\<rparr>))\<lparr>
      pendingPromise := Some 0, phase := Loading, pendingScrollCarry := 1 / 5\<rparr>"
  "promises carryWorld =
     [\<lparr>pr_section = sec_harbour, pr_source = FromLoader, pr_preload = True, pr_state = Pending\<rparr>]"
  "loadReactions carryWorld = [(0, sec_harbour)]"
  unfolding carryWorld_def
  using applyScrollDelta_trigger [where w = bootedWorld and e = repoEnv and delta = 1160
      and isTouch = False and t = 1 and ip = 1 and n = sec_harbour]
  by (simp_all add: const_defs)

lemma carryWorld_state [simp]:
  "phase (sectionState carryWorld) = Loading"
  "pendingScrollCarry (sectionState carryWorld) = 1 / 5"
  "transitionProgress (sectionState carryWorld) = 1"
  by (simp_all add: carryWorld_facts(1) clamp_def)

theorem fadeOut_overshoot_carried_into_fadeIn_witness:
  "phase (sectionState fadeOutWorld) = FadeOut
   \<and> signedStep (sectionState fadeOutWorld) (11 / 10) \<noteq> 0
   \<and> transitionProgress (sectionState fadeOutWorld) + signedStep (sectionState fadeOutWorld) (11 / 10) \<ge> 1
   \<and> nextSection (sectionState fadeOutWorld) = Some sec_harbour
   \<and> pendingPromise (sectionState fadeOutWorld) = Some 0
   \<and> phase (sectionState (advanceTransitionProgress repoEnv (11 / 10) fadeOutWorld)) = Loading
   \<and> transitionProgress (sectionState (advanceTransitionProgress repoEnv (11 / 10) fadeOutWorld)) = 1
   \<and> pendingScrollCarry (sectionState (advanceTransitionProgress repoEnv (11 / 10) fadeOutWorld)) = 1 / 5
   \<and> phase (sectionState (enterFadeIn repoEnv carryWorld)) = FadeIn
   \<and> transitionProgress (sectionState (enterFadeIn repoEnv carryWorld)) = 1 / 5
   \<and> pendingScrollCarry (sectionState (enterFadeIn repoEnv carryWorld)) = 0"
proof -
  have h1: "phase (sectionState fadeOutWorld) = FadeOut" by simp
  have h2: "signedStep (sectionState fadeOutWorld) (11 / 10) \<noteq> 0"
    by (simp add: signedStep_def)
  have h3: "transitionProgress (sectionState fadeOutWorld)
      + signedStep (sectionState fadeOutWorld) (11 / 10) \<ge> 1"
    by (simp add: signedStep_def)
  have h4: "nextSection (sectionState fadeOutWorld) = Some sec_harbour" by simp
  have h5: "pendingPromise (sectionState fadeOutWorld) = Some 0" by simp
  have v: "signedStep (sectionState fadeOutWorld) (11 / 10) = 11 / 10"
    by (simp add: signedStep_def)
  from fadeOut_overshoot_carried_into_fadeIn [OF h1 h2 h3 h4 h5, of repoEnv carryWorld bootedWorld]
    h1 h2 h3 h4 h5
  show ?thesis by (simp add: v)
qed

theorem fadeIn_entered_with_carry_consumed:
  "pendingScrollCarry (sectionState carryWorld) = 1 / 5
   \<and> phase (sectionState (dispatch repoEnv (LoadSettles 0 (Loaded cloudB)) carryWorld)) = FadeIn
   \<and> transitionProgress (sectionState (dispatch repoEnv (LoadSettles 0 (Loaded cloudB)) carryWorld)) = 1 / 5
   \<and> pendingScrollCarry (sectionState (dispatch repoEnv (LoadSettles 0 (Loaded cloudB)) carryWorld)) = 0"
proof -
  let ?W = "settleMorphPromise repoEnv 0 (Loaded cloudB) carryWorld"
  have pre: "0 < length (promises carryWorld)" "pr_state (promises carryWorld ! 0) = Pending"
      "pr_preload (promises carryWorld ! 0)"
    by (simp_all add: carryWorld_facts(2))
  note f = settleMorphPromise_preload_fields [OF pre, of repoEnv "Loaded cloudB"]
  have pr: "promises ?W = [\<lparr>pr_section = sec_harbour, pr_source = FromLoader, pr_preload = True,
                             pr_state = Fulfilled\<rparr>]"
    using f(2) by (simp add: carryWorld_facts(2))
  have lr: "loadReactions ?W = [(0, sec_harbour)]"
    using f(3) by (simp add: carryWorld_facts(3))
  have run: "runLoadReactions repoEnv ?W = sectionLoad_then repoEnv sec_harbour (?W\<lparr>loadReactions := []\<rparr>)"
    by (rule runLoadReactions_single [OF lr]) (simp_all add: pr)
  have d: "dispatch repoEnv (LoadSettles 0 (Loaded cloudB)) carryWorld
      = enterFadeIn repoEnv (?W\<lparr>loadReactions := []\<rparr>)"
    by (simp add: dispatch_def run sectionLoad_then_eq f(1))
  show ?thesis
    unfolding d by (simp add: sectionState_enterFadeIn f(1))
qed

lemma wideYawEnv_facts [simp]:
  "getSectionCount wideYawEnv = 2"
  "normalizeSectionIndex wideYawEnv 1 = 1"
  "getSectionByIndex wideYawEnv 1 = Some (sec_harbour\<lparr>s_camera :=
          Some \<lparr>c_pathT = Some 0.1, c_yaw = Some 400, c_pitch = Some (-6)\<rparr>\<rparr>)"
proof -
  show c: "getSectionCount wideYawEnv = 2"
    by (simp add: getSectionCount_def wideYawEnv_def)
  show n: "normalizeSectionIndex wideYawEnv 1 = 1"
    by (simp add: normalizeSectionIndex_mod c)
  show "getSectionByIndex wideYawEnv 1 = Some (sec_harbour\<lparr>s_camera :=
          Some \<lparr>c_pathT = Some 0.1, c_yaw = Some 400, c_pitch = Some (-6)\<rparr>\<rparr>)"
    by (simp add: getSectionByIndex_def c n) (simp add: wideYawEnv_def)
qed

lemma applyScrollDelta_fading:
  assumes "isReady (sectionState w)"
    and "phase (sectionState w) = FadeOut \<or> phase (sectionState w) = FadeIn"
  shows "applyScrollDelta e delta isTouch w
           = advanceTransitionProgress e (delta / progressScaleOf isTouch) w"
  using assms by (subst applyScrollDelta.simps) (auto simp: Let_def)

lemma morphTarget_setPointsMorphColor [simp]:
  "Option.bind (pointsGeometry (setPointsMorphColor a w)) morphTarget
     = Option.bind (pointsGeometry w) morphTarget"
  by (simp add: setPointsMorphColor_def split: option.splits)

lemma ensureSectionMorphTarget_then_ok:
  assumes "pointsGeometry w = Some pg"
    and "morphTarget pg = Some m"
    and "computeSampleFractions (Some g) (count m) = Some fr"
    and "generateMorphTargetArrayWithFractions (Some pg) (Some g) (Some fr) = Some arr"
    and "length arr = length (array m)"
  shows "fst (ensureSectionMorphTarget_then sec g w) = None"
    and "Option.bind (pointsGeometry (snd (ensureSectionMorphTarget_then sec g w))) morphTarget
           = Some (m\<lparr>array := arr\<rparr>)"
proof -
  from assms(1) obtain p where p: "points w = Some p" "p_geometry p = pg"
    by (cases "points w") auto
  have sp: "Option.bind (pointsGeometry (setPointsMorphTarget (Some arr)
         (updateAsset (s_id sec) (\<lambda>a. a\<lparr>a_morphArray := Some arr\<rparr>) w))) morphTarget
       = Some (m\<lparr>array := arr\<rparr>)"
    using p assms(2,5) by (simp add: setPointsMorphTarget_def)
  show "fst (ensureSectionMorphTarget_then sec g w) = None"
    using p assms(2,3,4)
    by (simp add: ensureSectionMorphTarget_then_def Let_def split: option.splits)
  show "Option.bind (pointsGeometry (snd (ensureSectionMorphTarget_then sec g w))) morphTarget
           = Some (m\<lparr>array := arr\<rparr>)"
    using p assms(2,3,4) sp
    by (simp add: ensureSectionMorphTarget_then_def Let_def split: option.splits)
qed

lemma upt_2: "[0..<2] = [0, 1]"
  by (simp add: upt_rec)

lemma cloudB_fractions:
  "computeSampleFractions (Some cloudB) 2 = Some [0, 1]"
  by (simp add: computeSampleFractions_def cloudB_def BufferAttribute_def upt_2
        sampleFraction_def sampleIndex_def Let_def)

lemma cloudB_resampled:
  "generateMorphTargetArrayWithFractions (Some (p_geometry bootedPoints)) (Some cloudB)
     (Some [0, 1]) = Some [7, 8, 9, 10, 11, 12]"
  by (simp add: generateMorphTargetArrayWithFractions_def bootedPoints_def cloudB_def
        BufferAttribute_def upt_2 Let_def clamp_def targetIndexOf_def stride_def point3_def
        at0_def)

lemma dispatch_scroll_170: "dispatch repoEnv (Scroll 170 False) bootedWorld = fadeOutWorld"
  by (simp add: dispatch_def fadeOutWorld_def [symmetric] runLoadReactions_none
        fadeOutWorld_facts(3))

lemma cancelledWorld_facts [simp]:
  "isReady (sectionState cancelledWorld)" "phase (sectionState cancelledWorld) = Idle"
  "index (sectionState cancelledWorld) = 0" "wheelAccumulator (sectionState cancelledWorld) = 0"
  "promises cancelledWorld =
     [\<lparr>pr_section = sec_harbour, pr_source = FromLoader, pr_preload = True, pr_state = Pending\<rparr>]"
  "loadReactions cancelledWorld = []"
  "pointsGeometry cancelledWorld = Some (p_geometry bootedPoints)"
  "sectionAssets cancelledWorld = sectionAssets bootedWorld"
  unfolding cancelledWorld_def
  using applyScrollDelta_trigger(5) [where w = bootedWorld and e = repoEnv and delta = 170
      and isTouch = False and t = 1 and ip = "1 / 10" and n = sec_harbour]
  by (simp_all add: sectionState_cancelTransition cancelTransition_points fadeOutWorld_facts
        fadeOutWorld_def [symmetric] const_defs)

lemma dispatch_scroll_back: "dispatch repoEnv (Scroll (- 100) False) fadeOutWorld = cancelledWorld"
proof -
  have "applyScrollDelta repoEnv (- 100) False fadeOutWorld
      = advanceTransitionProgress repoEnv (- 100 / progressScaleOf False) fadeOutWorld"
    by (rule applyScrollDelta_fading) simp_all
  also have "\<dots> = cancelTransition repoEnv fadeOutWorld"
    by (rule advanceTransitionProgress_cancel) (simp_all add: signedStep_def const_defs)
  finally show ?thesis
    by (simp add: dispatch_def cancelledWorld_def [symmetric] runLoadReactions_none)
qed

lemma cancelled_source [simp]: "geometrySourceOf cancelledWorld sec_nature = FromLoader"
  using booted_sources(2) by (simp add: geometrySourceOf_def getSectionAsset_def)

lemma staleWorld_eq: "staleWorld = applyScrollDelta repoEnv (- 170) False cancelledWorld"
proof -
  have "loadReactions (applyScrollDelta repoEnv (- 170) False cancelledWorld) = []"
    using applyScrollDelta_trigger(3) [where w = cancelledWorld and e = repoEnv and delta = "- 170"
      and isTouch = False and t = 4 and ip = "1 / 10" and n = sec_nature]
    by (simp add: const_defs)
  then have "dispatch repoEnv (Scroll (- 170) False) cancelledWorld
      = applyScrollDelta repoEnv (- 170) False cancelledWorld"
    by (simp add: dispatch_def runLoadReactions_none)
  then show ?thesis
    by (simp add: staleWorld_def dispatch_scroll_170 dispatch_scroll_back)
qed

lemma staleWorld_facts:
  "sectionState staleWorld =
     (fadeOutState sec_nature 4 (- 1) (1 / 10)
        (cancelledWorld\<lparr>sectionState := (sectionState cancelledWorld)\<lparr>wheelAccumulator := 0\<rparr>\<rparr>))\<lparr>
      pendingPromise := Some 1, phase := FadeOut, pendingScrollCarry := 0\<rparr>"
  "promises staleWorld =
     [\<lparr>pr_section = sec_harbour, pr_source = FromLoader, pr_preload = True, pr_state = Pending\<rparr>,
      \<lparr>pr_section = sec_nature, pr_source = FromLoader, pr_preload = True, pr_state = Pending\<rparr>]"
  "loadReactions staleWorld = []"
  "pointsGeometry staleWorld = Some (p_geometry bootedPoints)"
  unfolding staleWorld_eq
  using applyScrollDelta_trigger [where w = cancelledWorld and e = repoEnv and delta = "- 170"
      and isTouch = False and t = 4 and ip = "1 / 10" and n = sec_nature]
  by (simp_all add: const_defs)

text \<open>
  C1 on the code. From the booted state on section 0: a wheel event of 170 starts a
  fade-out toward section 1 and the preload of its model (promise 0); a wheel event of
  -100 cancels the fade-out; a wheel event of -170 starts a fade-out toward section 4
  (promise 1). When the loader then delivers the model of section 1, the morphTarget
  attribute of the displayed points is overwritten with the points of section 1 and
  morphReady becomes true, while the machine is fading out toward section 4: no token
  tells the stale resolution from a current one.
\<close>

theorem stale_load_overwrites_morph_buffer:
  "phase (sectionState staleWorld) = FadeOut
   \<and> nextIndex (sectionState staleWorld) = 4
   \<and> \<not> morphReady (sectionState staleWorld)
   \<and> pr_section (promises staleWorld ! 0) = sec_harbour
   \<and> pr_state (promises staleWorld ! 0) = Pending
   \<and> Option.bind (pointsGeometry staleWorld) morphTarget = Some (BufferAttribute [0, 0, 0, 4, 5, 6] 3)
   \<and> phase (sectionState (dispatch repoEnv (LoadSettles 0 (Loaded cloudB)) staleWorld)) = FadeOut
   \<and> nextIndex (sectionState (dispatch repoEnv (LoadSettles 0 (Loaded cloudB)) staleWorld)) = 4
   \<and> morphReady (sectionState (dispatch repoEnv (LoadSettles 0 (Loaded cloudB)) staleWorld))
   \<and> Option.bind (pointsGeometry (dispatch repoEnv (LoadSettles 0 (Loaded cloudB)) staleWorld))
        morphTarget = Some (BufferAttribute [7, 8, 9, 10, 11, 12] 3)"
proof -
  let ?W = "settleMorphPromise repoEnv 0 (Loaded cloudB) staleWorld"
  let ?U = "updateAsset (s_id sec_harbour) (\<lambda>a. a\<lparr>a_geometry := Some cloudB\<rparr>) staleWorld"
  have pre: "0 < length (promises staleWorld)" "pr_state (promises staleWorld ! 0) = Pending"
      "pr_preload (promises staleWorld ! 0)"
    by (simp_all add: staleWorld_facts(2))
  note f = settleMorphPromise_preload_fields [OF pre, of repoEnv "Loaded cloudB"]
  have src: "settleSource (promises staleWorld ! 0) (Loaded cloudB) staleWorld
      = ensureSectionMorphTarget_then sec_harbour cloudB ?U"
    by (simp add: settleSource_def staleWorld_facts(2))
  have pg: "pointsGeometry ?U = Some (p_geometry bootedPoints)"
    by (simp add: staleWorld_facts(4))
  have mt: "morphTarget (p_geometry bootedPoints) = Some (BufferAttribute [0, 0, 0, 4, 5, 6] 3)"
    by (simp add: bootedPoints_def)
  have cnt: "count (BufferAttribute [0, 0, 0, 4, 5, 6] 3) = 2"
    by (simp add: BufferAttribute_def)
  have fr: "computeSampleFractions (Some cloudB) (count (BufferAttribute [0, 0, 0, 4, 5, 6] 3))
      = Some [0, 1]"
    unfolding cnt by (rule cloudB_fractions)
  have len: "length [7, 8, 9, 10, 11, 12 :: real] = length (array (BufferAttribute [0, 0, 0, 4, 5, 6] 3))"
    by (simp add: BufferAttribute_def)
  note ok = ensureSectionMorphTarget_then_ok [OF pg mt fr cloudB_resampled len, of sec_harbour]
  have d: "dispatch repoEnv (LoadSettles 0 (Loaded cloudB)) staleWorld = ?W"
    by (simp add: dispatch_def runLoadReactions_none f(3) staleWorld_facts(3))
  have before: "phase (sectionState staleWorld) = FadeOut
     \<and> nextIndex (sectionState staleWorld) = 4
     \<and> \<not> morphReady (sectionState staleWorld)
     \<and> pr_section (promises staleWorld ! 0) = sec_harbour
     \<and> pr_state (promises staleWorld ! 0) = Pending
     \<and> Option.bind (pointsGeometry staleWorld) morphTarget = Some (BufferAttribute [0, 0, 0, 4, 5, 6] 3)"
    by (simp add: staleWorld_facts mt)
  have after: "phase (sectionState ?W) = FadeOut \<and> nextIndex (sectionState ?W) = 4
     \<and> morphReady (sectionState ?W)
     \<and> Option.bind (pointsGeometry ?W) morphTarget = Some (BufferAttribute [7, 8, 9, 10, 11, 12] 3)"
    using ok by (simp add: f(1) f(5) src staleWorld_facts(1) BufferAttribute_def)
  from before after show ?thesis unfolding d by simp
qed

lemma camera_setPointsPositionArray [simp]:
  "cameraYawOffsetDeg (setPointsPositionArray a w) = cameraYawOffsetDeg w"
  "cameraPitchOffsetDeg (setPointsPositionArray a w) = cameraPitchOffsetDeg w"
  by (simp_all add: setPointsPositionArray_def split: option.splits)

lemma camera_setPointsMorphTarget [simp]:
  "cameraYawOffsetDeg (setPointsMorphTarget a w) = cameraYawOffsetDeg w"
  "cameraPitchOffsetDeg (setPointsMorphTarget a w) = cameraPitchOffsetDeg w"
  by (simp_all add: setPointsMorphTarget_def split: option.splits)

lemma camera_refreshAllMorphTargets [simp]:
  "cameraYawOffsetDeg (refreshAllMorphTargets w) = cameraYawOffsetDeg w"
  "cameraPitchOffsetDeg (refreshAllMorphTargets w) = cameraPitchOffsetDeg w"
  by (simp_all add: refreshAllMorphTargets_def)

lemma camera_updateAsset [simp]:
  "cameraYawOffsetDeg (updateAsset k f w) = cameraYawOffsetDeg w"
  "cameraPitchOffsetDeg (updateAsset k f w) = cameraPitchOffsetDeg w"
  by (simp_all add: updateAsset_def)

lemma camera_commitOriginalGeom [simp]:
  "cameraYawOffsetDeg (commitOriginalGeom a w) = cameraYawOffsetDeg w"
  "cameraPitchOffsetDeg (commitOriginalGeom a w) = cameraPitchOffsetDeg w"
  by (simp_all add: commitOriginalGeom_def split: option.splits)

lemma camera_commitMorphTarget [simp]:
  "cameraYawOffsetDeg (commitMorphTarget a w) = cameraYawOffsetDeg w"
  "cameraPitchOffsetDeg (commitMorphTarget a w) = cameraPitchOffsetDeg w"
  by (simp_all add: commitMorphTarget_def split: option.splits)

lemma camera_commitColors [simp]:
  "cameraYawOffsetDeg (commitColors w) = cameraYawOffsetDeg w"
  "cameraPitchOffsetDeg (commitColors w) = cameraPitchOffsetDeg w"
  by (simp_all add: commitColors_def split: option.splits)

lemma camera_commitActiveSection [simp]:
  "cameraYawOffsetDeg (commitActiveSection a w) = cameraYawOffsetDeg w"
  "cameraPitchOffsetDeg (commitActiveSection a w) = cameraPitchOffsetDeg w"
  by (simp_all add: commitActiveSection_def split: option.splits)

lemma camera_resetScrollTween [simp]:
  "cameraYawOffsetDeg (resetScrollTween w) = cameraYawOffsetDeg w"
  "cameraPitchOffsetDeg (resetScrollTween w) = cameraPitchOffsetDeg w"
  by (simp_all add: resetScrollTween_def Let_def)

lemma completeFadeIn_commit_camera:
  assumes "cameraEndPose (sectionState w) = Some en"
  shows "cameraYawOffsetDeg (completeFadeIn_commit e w) = yaw en"
    and "cameraPitchOffsetDeg (completeFadeIn_commit e w) = pitch en"
proof -
  have s: "cameraStartPose (sectionState (completeFadeIn_snap w)) = Some en"
      "cameraEndPose (sectionState (completeFadeIn_snap w)) = Some en"
    using assms by (simp_all add: sectionState_completeFadeIn_snap)
  show "cameraYawOffsetDeg (completeFadeIn_commit e w) = yaw en"
    by (simp add: completeFadeIn_commit_def updateSectionTransition_camera(1) [OF s])
  show "cameraPitchOffsetDeg (completeFadeIn_commit e w) = pitch en"
    by (simp add: completeFadeIn_commit_def updateSectionTransition_camera(2) [OF s])
qed

lemma wideYaw_source [simp]:
  "geometrySourceOf bootedWorld (sec_harbour\<lparr>s_camera :=
          Some \<lparr>c_pathT = Some 0.1, c_yaw = Some 400, c_pitch = Some (-6)\<rparr>\<rparr>) = FromLoader"
  using booted_sources(1) by (simp add: geometrySourceOf_def getSectionAsset_def)

lemma wideLoading_facts:
  "sectionState (applyScrollDelta wideYawEnv 1880 False bootedWorld) =
     (fadeOutState (sec_harbour\<lparr>s_camera :=
          Some \<lparr>c_pathT = Some 0.1, c_yaw = Some 400, c_pitch = Some (-6)\<rparr>\<rparr>) 1 1 1
        (bootedWorld\<lparr>sectionState := (sectionState bootedWorld)\<lparr>wheelAccumulator := 0\<rparr>\<rparr>))\<lparr>
      pendingPromise := Some 0, phase := Loading, pendingScrollCarry := 1\<rparr>"
  "promises (applyScrollDelta wideYawEnv 1880 False bootedWorld) =
     [\<lparr>pr_section = sec_harbour\<lparr>s_camera :=
          Some \<lparr>c_pathT = Some 0.1, c_yaw = Some 400, c_pitch = Some (-6)\<rparr>\<rparr>,
       pr_source = FromLoader, pr_preload = True, pr_state = Pending\<rparr>]"
  "loadReactions (applyScrollDelta wideYawEnv 1880 False bootedWorld) =
     [(0, sec_harbour\<lparr>s_camera :=
          Some \<lparr>c_pathT = Some 0.1, c_yaw = Some 400, c_pitch = Some (-6)\<rparr>\<rparr>)]"
  using applyScrollDelta_trigger [where w = bootedWorld and e = wideYawEnv and delta = 1880
      and isTouch = False and t = 1 and ip = 1
      and n = "sec_harbour\<lparr>s_camera :=
          Some \<lparr>c_pathT = Some 0.1, c_yaw = Some 400, c_pitch = Some (-6)\<rparr>\<rparr>"]
  by (simp_all add: const_defs)

lemma wideLoading_endPose:
  "cameraEndPose (sectionState (applyScrollDelta wideYawEnv 1880 False bootedWorld))
     = Some \<lparr>pathT = 1 / 10, yaw = 400, pitch = - 6\<rparr>"
  by (simp add: wideLoading_facts(1) fadeOutState_def Let_def orElse_def clamp_def)

text \<open>
  C9 on the code. With a section whose camera yaw is 400 degrees, a wheel event of 980
  from the booted state (a transition toward that section, entered at full progress)
  leaves the camera yaw offset at 400: startSectionTransition stores the yaw of the section
  in cameraEndPose as it is, and updateCameraPose writes the interpolated yaw without the
  clamp that setCameraYawOffset applies (the setter gives 360 for the same value). The
  snap on completion does no better: after a wheel event of 1880 and the arrival of the
  model, completeFadeIn has run and the machine is idle on that section with the yaw
  offset at 400, because the updateSectionTransition that follows the two setters in
  completeFadeIn writes the pose again through updateCameraPose.
\<close>

theorem transition_yaw_not_clamped:
  "cameraYawOffsetDeg (applyScrollDelta wideYawEnv 980 False bootedWorld) = 400
   \<and> phase (sectionState (dispatch wideYawEnv (LoadSettles 0 (Loaded cloudB))
        (applyScrollDelta wideYawEnv 1880 False bootedWorld))) = Idle
   \<and> index (sectionState (dispatch wideYawEnv (LoadSettles 0 (Loaded cloudB))
        (applyScrollDelta wideYawEnv 1880 False bootedWorld))) = 1
   \<and> cameraYawOffsetDeg (dispatch wideYawEnv (LoadSettles 0 (Loaded cloudB))
        (applyScrollDelta wideYawEnv 1880 False bootedWorld)) = 400
   \<and> cameraYawOffsetDeg (setCameraYawOffset (Some 400) bootedWorld) = 360"
proof -
  let ?n = "sec_harbour\<lparr>s_camera :=
          Some \<lparr>c_pathT = Some 0.1, c_yaw = Some 400, c_pitch = Some (-6)\<rparr>\<rparr>"
  let ?w1 = "bootedWorld\<lparr>sectionState := (sectionState bootedWorld)\<lparr>wheelAccumulator := 980\<rparr>\<rparr>"
  let ?w2 = "bootedWorld\<lparr>sectionState := (sectionState bootedWorld)\<lparr>wheelAccumulator := 0\<rparr>\<rparr>"
  let ?L = "applyScrollDelta wideYawEnv 1880 False bootedWorld"
  let ?W = "settleMorphPromise wideYawEnv 0 (Loaded cloudB) ?L"
  let ?V = "?W\<lparr>loadReactions := []\<rparr>"
  have eq: "applyScrollDelta wideYawEnv 980 False bootedWorld = triggerTransition wideYawEnv False ?w1"
    by (simp add: applyScrollDelta_rest const_defs)
  have ts: "triggerStart wideYawEnv False ?w1 = startSectionTransition wideYawEnv 1 1 1 ?w2"
    by (simp add: triggerStart_def const_defs)
  have y: "cameraYawOffsetDeg (startSectionTransition wideYawEnv 1 1 1 ?w2)
      = yaw (the (cameraEndPose (fadeOutState ?n (normalizeSectionIndex wideYawEnv 1) 1 1 ?w2)))"
    by (rule yaw_startSectionTransition_loading) (simp_all add: const_defs)
  have a: "cameraYawOffsetDeg (applyScrollDelta wideYawEnv 980 False bootedWorld) = 400"
    by (simp add: eq frame_triggerTransition ts y fadeOutState_def Let_def orElse_def)
  have pre: "0 < length (promises ?L)" "pr_state (promises ?L ! 0) = Pending"
      "pr_preload (promises ?L ! 0)"
    by (simp_all add: wideLoading_facts(2))
  note f = settleMorphPromise_preload_fields [OF pre, of wideYawEnv "Loaded cloudB"]
  have pr: "promises ?W = [\<lparr>pr_section = ?n, pr_source = FromLoader, pr_preload = True,
                             pr_state = Fulfilled\<rparr>]"
    using f(2) by (simp add: wideLoading_facts(2))
  have lr: "loadReactions ?W = [(0, ?n)]"
    using f(3) by (simp add: wideLoading_facts(3))
  have run: "runLoadReactions wideYawEnv ?W = sectionLoad_then wideYawEnv ?n ?V"
    by (rule runLoadReactions_single [OF lr]) (simp_all add: pr)
  have carry: "pendingScrollCarry (sectionState ?V) = 1"
    by (simp add: f(1) wideLoading_facts(1))
  have ni: "nextIndex (sectionState ?V) = 1"
    by (simp add: f(1) wideLoading_facts(1) fadeOutState_def Let_def)
  have en: "cameraEndPose (sectionState (enterFadeIn wideYawEnv ?V))
      = Some \<lparr>pathT = 1 / 10, yaw = 400, pitch = - 6\<rparr>"
    by (simp add: sectionState_enterFadeIn f(1) wideLoading_endPose)
  have c0: "pendingScrollCarry (sectionState (enterFadeIn wideYawEnv ?V)) = 0"
    using carry by (simp add: sectionState_enterFadeIn)
  have d: "dispatch wideYawEnv (LoadSettles 0 (Loaded cloudB)) ?L
      = commitCleared wideYawEnv (enterFadeIn wideYawEnv ?V)"
    using carry by (simp add: dispatch_def run sectionLoad_then_eq completeFadeIn_replay c0)
  have b: "phase (sectionState (commitCleared wideYawEnv (enterFadeIn wideYawEnv ?V))) = Idle"
    by (simp add: commitCleared_def)
  have i: "index (sectionState (commitCleared wideYawEnv (enterFadeIn wideYawEnv ?V))) = 1"
    using ni by (simp add: commitCleared_def sectionState_completeFadeIn_commit
          sectionState_completeFadeIn_snap sectionState_enterFadeIn)
  have c: "cameraYawOffsetDeg (commitCleared wideYawEnv (enterFadeIn wideYawEnv ?V)) = 400"
    by (simp add: commitCleared_def completeFadeIn_commit_camera(1) [OF en])
  have s: "cameraYawOffsetDeg (setCameraYawOffset (Some 400) bootedWorld) = 360"
    by (simp add: setCameraYawOffset_def clamp_def)
  from a b i c s show ?thesis unfolding d by simp
qed

end
